theory Spec2Isabelle
  imports Complex_Main
begin

section \<open>Data model (types.ts)\<close>

text \<open>
  A JavaScript \<^verbatim>\<open>number\<close> is modelled as a \<^typ>\<open>real\<close>: all arithmetic below is
  exact, except in the last section of the definitions, where the update of the balloon's
  speed is embedded a second time with every operation rounded as binary64 arithmetic
  rounds it.  An optional property (\<^verbatim>\<open>width?: number\<close>) is an \<^typ>\<open>'a option\<close>, with
  \<^term>\<open>None\<close> for \<^verbatim>\<open>undefined\<close>.  The \<^verbatim>\<open>id\<close> label of a game object is read nowhere
  in the simulation and is left out.  The two components of a \<^verbatim>\<open>Vector2\<close> are called
  \<open>xv\<close> and \<open>yv\<close>.
\<close>

datatype GameState = Menu | Playing | Paused | GameOver

record Vector2 =
  xv :: real
  yv :: real

text \<open>
  \<^verbatim>\<open>checkCollision\<close> reads \<^verbatim>\<open>width\<close> and \<^verbatim>\<open>height\<close> of its second argument through
  the cast \<^verbatim>\<open>(obj2 as Obstacle)\<close>, whatever object it is given, so the two optional
  properties are part of the view of a game object that the collision code has.
\<close>

record GameObject =
  position :: Vector2
  velocity :: Vector2
  radius :: real
  type :: string
  active :: bool
  width :: "real option"
  height :: "real option"

record CollisionInfo =
  penetration :: real
  normal :: Vector2
  point :: Vector2

record Balloon = GameObject +
  baseVelocity :: real
  acceleration :: real
  driftOffset :: real

record Shield = GameObject +
  targetPosition :: Vector2
  lerpFactor :: real
  mass :: real
  lastHitTime :: real

record Obstacle = GameObject +
  angle :: "real option"
  rotationSpeed :: "real option"
  direction :: "Vector2 option"
  anchored :: "bool option"
  arms :: "real option"
  sweepDirection :: "real option"
  lifeTime :: "real option"
  originalPosition :: "Vector2 option"

record PatternParams =
  centerX :: real
  spawnY :: real
  balloonVelocity :: real
  shieldRadius :: real
  difficulty :: real

text \<open>
  \<^verbatim>\<open>Math.random()\<close> is an input of the simulation: the successive results of its future
  calls are a sequence \<open>rnd\<close>, the next result is \<open>rnd 0\<close> and \<open>rnext rnd\<close> is what is left
  after one call.  Code that calls \<^verbatim>\<open>Math.random()\<close> takes the sequence and returns what
  it has not consumed.
\<close>

type_synonym rng = "nat \<Rightarrow> real"

definition rnext :: "rng \<Rightarrow> rng" where
  "rnext rnd = (\<lambda>n. rnd (Suc n))"

record Pattern =
  name :: string
  weight :: real
  minAltitude :: real
  spawn :: "PatternParams \<Rightarrow> rng \<Rightarrow> Obstacle list \<times> rng"

datatype ShieldSize = Small | Normal | Large

record GameSettings =
  sensitivity :: real
  shieldSize :: ShieldSize
  debugMode :: bool

section \<open>Collision resolver (collision-system.ts)\<close>

definition circleVsCircle ::
  "'a GameObject_scheme \<Rightarrow> 'b GameObject_scheme \<Rightarrow> CollisionInfo option" where
  "circleVsCircle obj1 obj2 =
    (let dx = xv (position obj2) - xv (position obj1);
         dy = yv (position obj2) - yv (position obj1);
         distanceSquared = dx * dx + dy * dy;
         radiusSum = radius obj1 + radius obj2;
         radiusSumSquared = radiusSum * radiusSum
     in if distanceSquared \<le> radiusSumSquared then
          (let distance = sqrt distanceSquared;
               penetration = radiusSum - distance
           in if distance = 0 then
                Some \<lparr>penetration = penetration,
                      normal = \<lparr>xv = 1, yv = 0\<rparr>,
                      point = \<lparr>xv = xv (position obj1), yv = yv (position obj1)\<rparr>\<rparr>
              else
                (let normalX = dx / distance;
                     normalY = dy / distance
                 in Some \<lparr>penetration = penetration,
                          normal = \<lparr>xv = normalX, yv = normalY\<rparr>,
                          point = \<lparr>xv = xv (position obj1) + normalX * radius obj1,
                                   yv = yv (position obj1) + normalY * radius obj1\<rparr>\<rparr>))
        else None)"

definition circleVsAABB ::
  "real \<Rightarrow> real \<Rightarrow> real \<Rightarrow> real \<Rightarrow> real \<Rightarrow> real \<Rightarrow> real \<Rightarrow> CollisionInfo option" where
  "circleVsAABB cx cy r ax ay aw ah =
    (let closestX = max ax (min cx (ax + aw));
         closestY = max ay (min cy (ay + ah));
         dx = cx - closestX;
         dy = cy - closestY;
         distanceSquared = dx * dx + dy * dy
     in if distanceSquared \<le> r * r then
          (let distance = sqrt distanceSquared;
               penetration = r - distance
           in if distance = 0 then
                (let leftDist = cx - ax;
                     rightDist = (ax + aw) - cx;
                     topDist = cy - ay;
                     bottomDist = (ay + ah) - cy;
                     minDist = min leftDist (min rightDist (min topDist bottomDist))
                 in if minDist = leftDist then
                      Some \<lparr>penetration = r + leftDist, normal = \<lparr>xv = - 1, yv = 0\<rparr>,
                            point = \<lparr>xv = ax, yv = cy\<rparr>\<rparr>
                    else if minDist = rightDist then
                      Some \<lparr>penetration = r + rightDist, normal = \<lparr>xv = 1, yv = 0\<rparr>,
                            point = \<lparr>xv = ax + aw, yv = cy\<rparr>\<rparr>
                    else if minDist = topDist then
                      Some \<lparr>penetration = r + topDist, normal = \<lparr>xv = 0, yv = - 1\<rparr>,
                            point = \<lparr>xv = cx, yv = ay\<rparr>\<rparr>
                    else
                      Some \<lparr>penetration = r + bottomDist, normal = \<lparr>xv = 0, yv = 1\<rparr>,
                            point = \<lparr>xv = cx, yv = ay + ah\<rparr>\<rparr>)
              else
                (let normalX = dx / distance;
                     normalY = dy / distance
                 in Some \<lparr>penetration = penetration,
                          normal = \<lparr>xv = normalX, yv = normalY\<rparr>,
                          point = \<lparr>xv = closestX, yv = closestY\<rparr>\<rparr>))
        else None)"

text \<open>
  \<^verbatim>\<open>checkContinuousCollision\<close> is called nowhere in the engine and is not modelled.
  The rectangle test is chosen by the type tag of the second argument alone.  When that
  object has no \<^verbatim>\<open>width\<close> or no \<^verbatim>\<open>height\<close>, the JavaScript arithmetic yields NaN, the
  comparison \<^verbatim>\<open>distanceSquared <= r * r\<close> is false and the result is \<^verbatim>\<open>null\<close>.
\<close>

definition checkCollision ::
  "'a GameObject_scheme \<Rightarrow> 'b GameObject_scheme \<Rightarrow> CollisionInfo option" where
  "checkCollision obj1 obj2 =
    (if type obj2 = ''block'' \<or> type obj2 = ''sweeper'' then
       (case (width obj2, height obj2) of
          (Some w, Some h) \<Rightarrow>
            circleVsAABB (xv (position obj1)) (yv (position obj1)) (radius obj1)
              (xv (position obj2) - w / 2) (yv (position obj2) - h / 2) w h
        | _ \<Rightarrow> None)
     else circleVsCircle obj1 obj2)"

section \<open>Obstacle pattern generator (pattern-system.ts)\<close>

record PatternSystem =
  patterns :: "Pattern list"
  spawnTimer :: real
  spawnCooldown :: real
  lastSpawnY :: real
  patternHistory :: "string list"

text \<open>An obstacle literal with none of the optional properties.\<close>

definition obstacleLiteral :: "string \<Rightarrow> Vector2 \<Rightarrow> Vector2 \<Rightarrow> real \<Rightarrow> Obstacle" where
  "obstacleLiteral ty pos vel r =
    \<lparr>position = pos, velocity = vel, radius = r, type = ty, active = True,
     width = None, height = None,
     angle = None, rotationSpeed = None, direction = None, anchored = None, arms = None,
     sweepDirection = None, lifeTime = None, originalPosition = None\<rparr>"

subsection \<open>Formation builders\<close>

text \<open>
  The \<^verbatim>\<open>do ... while\<close> loop of \<^verbatim>\<open>spawnBlockRain\<close>: \<open>attempts\<close> is the counter before the
  draw.
\<close>

function blockRainX :: "nat \<Rightarrow> real \<Rightarrow> real \<Rightarrow> rng \<Rightarrow> real \<times> rng" where
  "blockRainX attempts lo hi rnd =
    (if attempts + 1 < 10 \<and> rnd 0 * (800 - 100) + 50 > lo \<and> rnd 0 * (800 - 100) + 50 < hi
     then blockRainX (attempts + 1) lo hi (rnext rnd)
     else (rnd 0 * (800 - 100) + 50, rnext rnd))"
  by pat_completeness auto
termination
  by (relation "measure (\<lambda>(attempts, lo, hi, rnd). 10 - attempts)") auto

declare blockRainX.simps [simp del]

fun blockRainLoop :: "nat \<Rightarrow> PatternParams \<Rightarrow> rng \<Rightarrow> Obstacle list \<times> rng" where
  "blockRainLoop 0 params rnd = ([], rnd)"
| "blockRainLoop (Suc n) params rnd =
    (let minGap = shieldRadius params * 2.4 + 20;
         safeZoneX = centerX params - minGap / 2;
         safeZoneWidth = minGap;
         (x, rnd1) = blockRainX 0 (safeZoneX - 40) (safeZoneX + safeZoneWidth + 40) rnd;
         ob = (obstacleLiteral ''block''
                 \<lparr>xv = x, yv = spawnY params - rnd1 0 * 100\<rparr>
                 \<lparr>xv = 0, yv = rnext rnd1 0 * 30 + 20\<rparr> 20)
               \<lparr>width := Some 40, height := Some 40\<rparr>;
         (obs, rnd2) = blockRainLoop n params (rnext (rnext rnd1))
     in (ob # obs, rnd2))"

definition spawnBlockRain :: "PatternParams \<Rightarrow> rng \<Rightarrow> Obstacle list \<times> rng" where
  "spawnBlockRain params rnd =
    (let blockCount = \<lfloor>2 + difficulty params * 3\<rfloor>
     in blockRainLoop (nat blockCount) params rnd)"

definition spawnChicane :: "PatternParams \<Rightarrow> rng \<Rightarrow> Obstacle list \<times> rng" where
  "spawnChicane params rnd =
    (let side = (if rnd 0 < 0.5 then - 1 else 1 :: real);
         gapSize = max (shieldRadius params * 2.2 + 12) 100;
         wall = (\<lambda>wx. (obstacleLiteral ''block'' \<lparr>xv = wx, yv = spawnY params\<rparr>
                          \<lparr>xv = 0, yv = 0\<rparr> 25)
                       \<lparr>width := Some 100, height := Some 50, anchored := Some True\<rparr>)
     in ((if side = 1 then [wall 50] else []) @ (if side = - 1 then [wall 750] else []),
         rnext rnd))"

text \<open>\<open>i\<close> is the loop index, \<open>n\<close> the number of iterations left.\<close>

fun spikeGauntletLoop :: "nat \<Rightarrow> nat \<Rightarrow> PatternParams \<Rightarrow> rng \<Rightarrow> Obstacle list \<times> rng" where
  "spikeGauntletLoop 0 i params rnd = ([], rnd)"
| "spikeGauntletLoop (Suc n) i params rnd =
    (let minGap = shieldRadius params * 2.4 + 15;
         ang = rnd 0 * pi * 2;
         x = 100 + rnext rnd 0 * 600;
         rnd1 = rnext (rnext rnd)
     in if \<bar>x - centerX params\<bar> > minGap / 2 then
          (let ob = (obstacleLiteral ''spike''
                       \<lparr>xv = x, yv = spawnY params - real i * 60\<rparr> \<lparr>xv = 0, yv = 0\<rparr> 25)
                     \<lparr>angle := Some ang, anchored := Some (rnd1 0 < 0.7)\<rparr>;
               (obs, rnd2) = spikeGauntletLoop n (i + 1) params (rnext rnd1)
           in (ob # obs, rnd2))
        else spikeGauntletLoop n (i + 1) params rnd1)"

definition spawnSpikeGauntlet :: "PatternParams \<Rightarrow> rng \<Rightarrow> Obstacle list \<times> rng" where
  "spawnSpikeGauntlet params rnd =
    (let spikeCount = \<lfloor>3 + difficulty params * 2\<rfloor>
     in spikeGauntletLoop (nat spikeCount) 0 params rnd)"

definition spawnRotor :: "PatternParams \<Rightarrow> rng \<Rightarrow> Obstacle list \<times> rng" where
  "spawnRotor params rnd =
    (let rotorX = centerX params + (rnd 0 - 0.5) * 200;
         rotationSpeed0 = (rnext rnd 0 - 0.5) * 4 + 2
     in ([(obstacleLiteral ''rotor'' \<lparr>xv = rotorX, yv = spawnY params\<rparr> \<lparr>xv = 0, yv = 0\<rparr> 80)
            \<lparr>angle := Some 0, rotationSpeed := Some rotationSpeed0, arms := Some 3,
             anchored := Some True\<rparr>],
         rnext (rnext rnd)))"

definition spawnSweeper :: "PatternParams \<Rightarrow> rng \<Rightarrow> Obstacle list \<times> rng" where
  "spawnSweeper params rnd =
    (let dir = (if rnd 0 < 0.5 then - 1 else 1 :: real);
         startX = (if dir = 1 then - 50 else 850);
         speed = 150 + difficulty params * 50
     in ([(obstacleLiteral ''sweeper'' \<lparr>xv = startX, yv = spawnY params\<rparr>
              \<lparr>xv = dir * speed, yv = 0\<rparr> 15)
            \<lparr>width := Some 200, height := Some 30, sweepDirection := Some dir\<rparr>],
         rnext rnd))"

fun shardBurstLoop ::
  "nat \<Rightarrow> nat \<Rightarrow> int \<Rightarrow> real \<Rightarrow> PatternParams \<Rightarrow> rng \<Rightarrow> Obstacle list \<times> rng" where
  "shardBurstLoop 0 i shardCount cx params rnd = ([], rnd)"
| "shardBurstLoop (Suc n) i shardCount cx params rnd =
    (let ang = (real i / real_of_int shardCount) * pi * 2;
         speed = 100 + rnd 0 * 50;
         ob = (obstacleLiteral ''shard'' \<lparr>xv = cx, yv = spawnY params\<rparr>
                 \<lparr>xv = cos ang * speed, yv = sin ang * speed + 50\<rparr> 8)
               \<lparr>lifeTime := Some (3 + rnext rnd 0 * 2)\<rparr>;
         (obs, rnd1) = shardBurstLoop n (i + 1) shardCount cx params (rnext (rnext rnd))
     in (ob # obs, rnd1))"

definition spawnShardBurst :: "PatternParams \<Rightarrow> rng \<Rightarrow> Obstacle list \<times> rng" where
  "spawnShardBurst params rnd =
    (let shardCount = \<lfloor>8 + difficulty params * 4\<rfloor>;
         cx = centerX params + (rnd 0 - 0.5) * 200
     in shardBurstLoop (nat shardCount) 0 shardCount cx params (rnext rnd))"

fun gridDropBlocks :: "nat \<Rightarrow> nat \<Rightarrow> real \<Rightarrow> PatternParams \<Rightarrow> rng \<Rightarrow> Obstacle list \<times> rng" where
  "gridDropBlocks 0 i x params rnd = ([], rnd)"
| "gridDropBlocks (Suc n) i x params rnd =
    (let ob = (obstacleLiteral ''block''
                 \<lparr>xv = x + (rnd 0 - 0.5) * 40,
                  yv = spawnY params - real i * 80 - rnext rnd 0 * 50\<rparr>
                 \<lparr>xv = 0, yv = 30 + rnext (rnext rnd) 0 * 20\<rparr> 20)
               \<lparr>width := Some 40, height := Some 40, anchored := Some False\<rparr>;
         (obs, rnd1) = gridDropBlocks n (i + 1) x params (rnext (rnext (rnext rnd)))
     in (ob # obs, rnd1))"

fun gridDropColumns :: "nat \<Rightarrow> nat \<Rightarrow> int \<Rightarrow> PatternParams \<Rightarrow> rng \<Rightarrow> Obstacle list \<times> rng" where
  "gridDropColumns 0 col safeColumn params rnd = ([], rnd)"
| "gridDropColumns (Suc n) col safeColumn params rnd =
    (if int col = safeColumn then gridDropColumns n (col + 1) safeColumn params rnd
     else
       (let columnWidth = 800 / 4;
            x = real col * columnWidth + columnWidth / 2;
            blockCount = \<lfloor>2 + rnd 0 * 3\<rfloor>;
            (obs1, rnd1) = gridDropBlocks (nat blockCount) 0 x params (rnext rnd);
            (obs2, rnd2) = gridDropColumns n (col + 1) safeColumn params rnd1
        in (obs1 @ obs2, rnd2)))"

definition spawnGridDrop :: "PatternParams \<Rightarrow> rng \<Rightarrow> Obstacle list \<times> rng" where
  "spawnGridDrop params rnd =
    (let columns = 4;
         safeColumn = \<lfloor>rnd 0 * 4\<rfloor>
     in gridDropColumns columns 0 safeColumn params (rnext rnd))"

subsection \<open>Registration, timer and selection\<close>

definition initializePatterns :: "Pattern list" where
  "initializePatterns =
    [\<lparr>name = ''blockRain'', weight = 3, minAltitude = 0, spawn = spawnBlockRain\<rparr>,
     \<lparr>name = ''chicane'', weight = 2, minAltitude = 50, spawn = spawnChicane\<rparr>,
     \<lparr>name = ''spikeGauntlet'', weight = 2, minAltitude = 100, spawn = spawnSpikeGauntlet\<rparr>,
     \<lparr>name = ''rotor'', weight = 1.5, minAltitude = 150, spawn = spawnRotor\<rparr>,
     \<lparr>name = ''sweeper'', weight = 1.5, minAltitude = 100, spawn = spawnSweeper\<rparr>,
     \<lparr>name = ''shardBurst'', weight = 1, minAltitude = 200, spawn = spawnShardBurst\<rparr>,
     \<lparr>name = ''gridDrop'', weight = 2, minAltitude = 75, spawn = spawnGridDrop\<rparr>]"

definition newPatternSystem :: PatternSystem where
  "newPatternSystem =
    \<lparr>patterns = initializePatterns, spawnTimer = 0, spawnCooldown = 1.2, lastSpawnY = 0,
     patternHistory = []\<rparr>"

definition reset :: "PatternSystem \<Rightarrow> PatternSystem" where
  "reset ps = ps\<lparr>spawnTimer := 0, spawnCooldown := 1.2, lastSpawnY := 0, patternHistory := []\<rparr>"

text \<open>
  The \<^verbatim>\<open>for\<close> loop of \<^verbatim>\<open>selectWeightedPattern\<close>; \<^term>\<open>None\<close> when it ends without
  returning.
\<close>

fun weightedLoop :: "real \<Rightarrow> Pattern list \<Rightarrow> Pattern option" where
  "weightedLoop random [] = None"
| "weightedLoop random (p # ps) =
    (if random - weight p \<le> 0 then Some p else weightedLoop (random - weight p) ps)"

text \<open>
  The result is \<^term>\<open>None\<close> for \<^verbatim>\<open>undefined\<close>, which \<^verbatim>\<open>patterns[patterns.length - 1]\<close> is
  on an empty array.
\<close>

definition selectWeightedPattern :: "Pattern list \<Rightarrow> rng \<Rightarrow> Pattern option \<times> rng" where
  "selectWeightedPattern pats rnd =
    (let totalWeight = foldl (\<lambda>sum p. sum + weight p) 0 pats;
         random = rnd 0 * totalWeight
     in (case weightedLoop random pats of
           Some p \<Rightarrow> Some p
         | None \<Rightarrow> (if pats = [] then None else Some (last pats)),
         rnext rnd))"

definition executePattern ::
  "Pattern \<Rightarrow> PatternParams \<Rightarrow> PatternSystem \<Rightarrow> rng \<Rightarrow> Obstacle list \<times> PatternSystem \<times> rng" where
  "executePattern pat params ps rnd =
    (let history1 = patternHistory ps @ [name pat];
         history2 = (if length history1 > 5 then tl history1 else history1);
         ps1 = ps\<lparr>patternHistory := history2, lastSpawnY := spawnY params\<rparr>;
         (obs, rnd1) = spawn pat params rnd
     in (obs, ps1, rnd1))"

text \<open>
  Both calls of \<^verbatim>\<open>selectWeightedPattern\<close> are on a non-empty array; the \<^term>\<open>None\<close>
  branches below stand for the \<^verbatim>\<open>TypeError\<close> that reading \<^verbatim>\<open>.name\<close> of \<^verbatim>\<open>undefined\<close>
  would raise and are never taken (lemma \<open>selectWeightedPattern_nonempty\<close>).
\<close>

definition spawnPattern ::
  "PatternParams \<Rightarrow> PatternSystem \<Rightarrow> rng \<Rightarrow> Obstacle list \<times> PatternSystem \<times> rng" where
  "spawnPattern params ps rnd =
    (let currentAltitude = \<bar>spawnY params\<bar> / 10;
         availablePatterns = filter (\<lambda>p. minAltitude p \<le> currentAltitude) (patterns ps)
     in if length availablePatterns = 0 then ([], ps, rnd)
        else
          (case selectWeightedPattern availablePatterns rnd of
             (None, rnd1) \<Rightarrow> ([], ps, rnd1)
           | (Some pat, rnd1) \<Rightarrow>
               if length (patternHistory ps) \<ge> 3 \<and>
                  list_all (\<lambda>nm. nm = name pat)
                    (drop (length (patternHistory ps) - 2) (patternHistory ps))
               then
                 (let alternatives = filter (\<lambda>p. name p \<noteq> name pat) availablePatterns
                  in if length alternatives > 0 then
                       (case selectWeightedPattern alternatives rnd1 of
                          (None, rnd2) \<Rightarrow> ([], ps, rnd2)
                        | (Some altPattern, rnd2) \<Rightarrow> executePattern altPattern params ps rnd2)
                     else executePattern pat params ps rnd1)
               else executePattern pat params ps rnd1))"

definition update ::
  "real \<Rightarrow> PatternParams \<Rightarrow> PatternSystem \<Rightarrow> rng \<Rightarrow> Obstacle list \<times> PatternSystem \<times> rng" where
  "update dt params ps rnd =
    (let ps1 = ps\<lparr>spawnTimer := spawnTimer ps - dt\<rparr>
     in if spawnTimer ps1 \<le> 0 then
          (let ps2 = ps1\<lparr>spawnCooldown := max 0.55 (1.2 - difficulty params * 0.65)\<rparr>;
               ps3 = ps2\<lparr>spawnTimer := spawnCooldown ps2\<rparr>
           in spawnPattern params ps3 rnd)
        else ([], ps1, rnd))"

section \<open>Simulation loop (game-engine.ts)\<close>

text \<open>
  The engine state is the fields of \<^verbatim>\<open>GameEngine\<close> that the simulation reads or writes.  The
  canvas is its two dimensions; the calls of the two optional subscribers
  (\<^verbatim>\<open>onScoreChange\<close>, \<^verbatim>\<open>onGameStateChange\<close>) are appended to the log \<open>notifications\<close>;
  \<open>random\<close> is what \<^verbatim>\<open>Math.random()\<close> will return.  Rendering is not modelled.
\<close>

datatype Notification = ScoreChange real | GameStateChange GameState

record GameEngine =
  canvas_width :: real
  canvas_height :: real
  patternSystem :: PatternSystem
  gameState :: GameState
  score :: real
  gameTime :: real
  cameraY :: real
  balloon :: Balloon
  shield :: Shield
  obstacles :: "Obstacle list"
  lastTime :: real
  accumulator :: real
  mousePosition :: Vector2
  worldMousePosition :: Vector2
  keys :: "string set"
  settings :: GameSettings
  notifications :: "Notification list"
  random :: rng

definition physicsStep :: real where
  "physicsStep = 1 / 120"

definition keyboardSpeed :: real where
  "keyboardSpeed = 300"

definition BALLOON_BASE_VELOCITY :: real where
  "BALLOON_BASE_VELOCITY = 80"

definition BALLOON_ACCELERATION :: real where
  "BALLOON_ACCELERATION = 4"

definition BALLOON_MAX_VELOCITY :: real where
  "BALLOON_MAX_VELOCITY = 160"

definition SHIELD_LERP_FACTOR :: real where
  "SHIELD_LERP_FACTOR = 0.28"

definition CAMERA_DEAD_ZONE :: real where
  "CAMERA_DEAD_ZONE = 100"

definition getShieldRadius :: "GameSettings \<Rightarrow> real" where
  "getShieldRadius st = (case shieldSize st of Small \<Rightarrow> 36 | Large \<Rightarrow> 48 | _ \<Rightarrow> 42)"

definition initializeGameObjects :: "GameEngine \<Rightarrow> GameEngine" where
  "initializeGameObjects s =
    (let shieldRadius0 = getShieldRadius (settings s)
     in s\<lparr>balloon :=
            \<lparr>position = \<lparr>xv = canvas_width s / 2, yv = canvas_height s - 100\<rparr>,
             velocity = \<lparr>xv = 0, yv = - BALLOON_BASE_VELOCITY\<rparr>,
             radius = 22, type = ''balloon'', active = True, width = None, height = None,
             baseVelocity = BALLOON_BASE_VELOCITY, acceleration = BALLOON_ACCELERATION,
             driftOffset = 0\<rparr>,
          shield :=
            \<lparr>position = \<lparr>xv = canvas_width s / 2, yv = canvas_height s - 150\<rparr>,
             velocity = \<lparr>xv = 0, yv = 0\<rparr>,
             radius = shieldRadius0, type = ''shield'', active = True, width = None,
             height = None,
             targetPosition = \<lparr>xv = canvas_width s / 2, yv = canvas_height s - 150\<rparr>,
             lerpFactor = SHIELD_LERP_FACTOR, mass = 100, lastHitTime = 0\<rparr>\<rparr>)"

text \<open>
  The constructor, for a canvas of the given dimensions.  The field initialisers run first,
  then \<^verbatim>\<open>initializeGameObjects\<close>; the balloon and the shield of the record before that call
  are placeholders that it overwrites.
\<close>

definition newGameEngine :: "real \<Rightarrow> real \<Rightarrow> rng \<Rightarrow> GameEngine" where
  "newGameEngine w h rnd =
    initializeGameObjects
      \<lparr>canvas_width = w, canvas_height = h, patternSystem = newPatternSystem,
       gameState = Menu, score = 0, gameTime = 0, cameraY = 0,
       balloon =
         \<lparr>position = \<lparr>xv = 0, yv = 0\<rparr>, velocity = \<lparr>xv = 0, yv = 0\<rparr>, radius = 0,
          type = ''balloon'', active = True, width = None, height = None,
          baseVelocity = 0, acceleration = 0, driftOffset = 0\<rparr>,
       shield =
         \<lparr>position = \<lparr>xv = 0, yv = 0\<rparr>, velocity = \<lparr>xv = 0, yv = 0\<rparr>, radius = 0,
          type = ''shield'', active = True, width = None, height = None,
          targetPosition = \<lparr>xv = 0, yv = 0\<rparr>, lerpFactor = 0, mass = 0, lastHitTime = 0\<rparr>,
       obstacles = [], lastTime = 0, accumulator = 0,
       mousePosition = \<lparr>xv = 0, yv = 0\<rparr>, worldMousePosition = \<lparr>xv = 0, yv = 0\<rparr>,
       keys = {},
       settings = \<lparr>sensitivity = 1.0, shieldSize = Normal, debugMode = False\<rparr>,
       notifications = [], random = rnd\<rparr>"

subsection \<open>Input handlers (setupInput)\<close>

text \<open>
  The pointer handler, given the pointer position already scaled to canvas coordinates
  (\<^verbatim>\<open>(e.clientX - rect.left) * scaleX\<close> and its vertical analogue).
\<close>

definition mousemove :: "real \<Rightarrow> real \<Rightarrow> GameEngine \<Rightarrow> GameEngine" where
  "mousemove mx my s =
    s\<lparr>mousePosition := \<lparr>xv = mx, yv = my\<rparr>,
      worldMousePosition := \<lparr>xv = mx, yv = my + cameraY s\<rparr>\<rparr>"

definition keydown :: "string \<Rightarrow> GameEngine \<Rightarrow> GameEngine" where
  "keydown code s = s\<lparr>keys := insert code (keys s)\<rparr>"

definition keyup :: "string \<Rightarrow> GameEngine \<Rightarrow> GameEngine" where
  "keyup code s = s\<lparr>keys := keys s - {code}\<rparr>"

subsection \<open>Commands\<close>

definition resetGame :: "GameEngine \<Rightarrow> GameEngine" where
  "resetGame s =
    (let shieldPosition = \<lparr>xv = canvas_width s / 2, yv = canvas_height s - 150\<rparr>
     in s\<lparr>gameTime := 0, score := 0, cameraY := 0, obstacles := [],
          balloon := (balloon s)
            \<lparr>position := \<lparr>xv = canvas_width s / 2, yv = canvas_height s - 100\<rparr>,
             velocity := \<lparr>xv = 0, yv = - BALLOON_BASE_VELOCITY\<rparr>,
             active := True, driftOffset := 0\<rparr>,
          shield := (shield s)
            \<lparr>position := shieldPosition, velocity := \<lparr>xv = 0, yv = 0\<rparr>,
             targetPosition := shieldPosition, active := True, lastHitTime := 0\<rparr>,
          patternSystem := reset (patternSystem s),
          notifications := notifications s @ [ScoreChange 0]\<rparr>)"

definition startGame :: "GameEngine \<Rightarrow> GameEngine" where
  "startGame s =
    (let s1 = resetGame s
     in s1\<lparr>gameState := Playing,
           notifications := notifications s1 @ [GameStateChange Playing]\<rparr>)"

definition pauseGame :: "GameEngine \<Rightarrow> GameEngine" where
  "pauseGame s =
    (if gameState s = Playing then
       s\<lparr>gameState := Paused, notifications := notifications s @ [GameStateChange Paused]\<rparr>
     else s)"

definition resumeGame :: "GameEngine \<Rightarrow> GameEngine" where
  "resumeGame s =
    (if gameState s = Paused then
       s\<lparr>gameState := Playing, notifications := notifications s @ [GameStateChange Playing]\<rparr>
     else s)"

definition restartGame :: "GameEngine \<Rightarrow> GameEngine" where
  "restartGame s = startGame s"

definition toggleDebug :: "GameEngine \<Rightarrow> GameEngine" where
  "toggleDebug s = s\<lparr>settings := (settings s)\<lparr>debugMode := \<not> debugMode (settings s)\<rparr>\<rparr>"

definition setSensitivity :: "real \<Rightarrow> GameEngine \<Rightarrow> GameEngine" where
  "setSensitivity v s = s\<lparr>settings := (settings s)\<lparr>sensitivity := max 0.5 (min 1.5 v)\<rparr>\<rparr>"

definition setShieldSize :: "ShieldSize \<Rightarrow> GameEngine \<Rightarrow> GameEngine" where
  "setShieldSize sz s =
    (let s1 = s\<lparr>settings := (settings s)\<lparr>shieldSize := sz\<rparr>\<rparr>
     in s1\<lparr>shield := (shield s1)\<lparr>radius := getShieldRadius (settings s1)\<rparr>\<rparr>)"

definition getScore :: "GameEngine \<Rightarrow> real" where
  "getScore s = score s"

definition gameOver :: "GameEngine \<Rightarrow> GameEngine" where
  "gameOver s =
    s\<lparr>gameState := GameOver, notifications := notifications s @ [GameStateChange GameOver]\<rparr>"

definition getObstacleMass :: "string \<Rightarrow> real" where
  "getObstacleMass ty =
    (if ty = ''block'' then 0.6
     else if ty = ''rotor'' then 3.0
     else if ty = ''shard'' then 0.2
     else if ty = ''spike'' then 1.0
     else if ty = ''sweeper'' then 2.0
     else 1.0)"

subsection \<open>The physics tick\<close>

definition updateInput :: "real \<Rightarrow> GameEngine \<Rightarrow> GameEngine" where
  "updateInput dt s =
    (if gameState s \<noteq> Playing then s
     else
       (let sh = shield s;
            target1 = \<lparr>xv = xv (worldMousePosition s) * sensitivity (settings s),
                       yv = yv (worldMousePosition s) * sensitivity (settings s)\<rparr>;
            kdy1 = (if ''KeyW'' \<in> keys s then 0 - keyboardSpeed * dt else 0);
            kdy2 = (if ''KeyS'' \<in> keys s then kdy1 + keyboardSpeed * dt else kdy1);
            kdx1 = (if ''KeyA'' \<in> keys s then 0 - keyboardSpeed * dt else 0);
            kdx2 = (if ''KeyD'' \<in> keys s then kdx1 + keyboardSpeed * dt else kdx1);
            keyboardDelta = \<lparr>xv = kdx2, yv = kdy2\<rparr>;
            target2 =
              (if xv keyboardDelta \<noteq> 0 \<or> yv keyboardDelta \<noteq> 0 then
                 \<lparr>xv = xv (position sh) + xv keyboardDelta,
                  yv = yv (position sh) + yv keyboardDelta\<rparr>
               else target1);
            target3 =
              \<lparr>xv = max (radius sh) (min (canvas_width s - radius sh) (xv target2)),
               yv = max (radius sh + cameraY s)
                      (min (canvas_height s + cameraY s - radius sh) (yv target2))\<rparr>
        in s\<lparr>shield := sh\<lparr>targetPosition := target3\<rparr>\<rparr>))"

definition updateBalloon :: "real \<Rightarrow> GameEngine \<Rightarrow> GameEngine" where
  "updateBalloon dt s =
    (let b = balloon s;
         currentSpeed = \<bar>yv (velocity b)\<bar>;
         maxSpeed = min BALLOON_MAX_VELOCITY
                      (BALLOON_BASE_VELOCITY + acceleration b * gameTime s);
         vy1 = (if currentSpeed < maxSpeed then yv (velocity b) - acceleration b * dt
                else yv (velocity b));
         driftOffset1 = driftOffset b + dt * 0.5;
         drift = sin driftOffset1 * 10 + sin (driftOffset1 * 2.3) * 5;
         velocity1 = \<lparr>xv = drift, yv = vy1\<rparr>;
         position1 = \<lparr>xv = xv (position b) + xv velocity1 * dt,
                      yv = yv (position b) + yv velocity1 * dt\<rparr>;
         centerX0 = canvas_width s / 2;
         position2 = position1\<lparr>xv := centerX0 + drift\<rparr>
     in s\<lparr>balloon := b\<lparr>velocity := velocity1, driftOffset := driftOffset1,
                           position := position2\<rparr>\<rparr>)"

definition updateShield :: "real \<Rightarrow> GameEngine \<Rightarrow> GameEngine" where
  "updateShield dt s =
    (let sh = shield s;
         dx = xv (targetPosition sh) - xv (position sh);
         dy = yv (targetPosition sh) - yv (position sh)
     in s\<lparr>shield := sh
          \<lparr>position := \<lparr>xv = xv (position sh) + dx * lerpFactor sh,
                         yv = yv (position sh) + dy * lerpFactor sh\<rparr>,
           velocity := \<lparr>xv = dx * lerpFactor sh / dt, yv = dy * lerpFactor sh / dt\<rparr>\<rparr>\<rparr>)"

text \<open>The body of the \<^verbatim>\<open>for\<close> loop of \<^verbatim>\<open>updateObstacles\<close>, for one obstacle.\<close>

definition updateObstacle :: "real \<Rightarrow> GameEngine \<Rightarrow> Obstacle \<Rightarrow> Obstacle" where
  "updateObstacle dt s obstacle =
    (let ob1 =
           (if anchored obstacle \<noteq> Some True \<and> gameState s = Playing then
              (let dx = xv (position (shield s)) - xv (position obstacle);
                   dy = yv (position (shield s)) - yv (position obstacle);
                   distance = sqrt (dx * dx + dy * dy)
               in if distance > radius (shield s) + radius obstacle + 10 \<and> distance < 200 then
                    (let m = getObstacleMass (type obstacle);
                         gravitationalStrength = 15;
                         force = gravitationalStrength / (distance * distance);
                         forceX = (dx / distance) * force / m;
                         forceY = (dy / distance) * force / m
                     in obstacle\<lparr>velocity :=
                          \<lparr>xv = xv (velocity obstacle) + forceX * dt,
                           yv = yv (velocity obstacle) + forceY * dt\<rparr>\<rparr>)
                  else obstacle)
            else obstacle);
         dampingFactor = 0.985;
         ob2 = ob1\<lparr>velocity := \<lparr>xv = xv (velocity ob1) * dampingFactor,
                                 yv = yv (velocity ob1) * dampingFactor\<rparr>\<rparr>;
         ob3 = ob2\<lparr>position := \<lparr>xv = xv (position ob2) + xv (velocity ob2) * dt,
                                 yv = yv (position ob2) + yv (velocity ob2) * dt\<rparr>\<rparr>;
         ob4 =
           (case rotationSpeed ob3 of
              Some rs \<Rightarrow>
                if type ob3 = ''rotor'' \<and> rs \<noteq> 0 then
                  ob3\<lparr>angle := Some ((case angle ob3 of Some a \<Rightarrow> a | None \<Rightarrow> 0) + rs * dt)\<rparr>
                else ob3
            | None \<Rightarrow> ob3);
         ob5 =
           (case lifeTime ob4 of
              Some lt \<Rightarrow>
                (if lt - dt \<le> 0 then ob4\<lparr>lifeTime := Some (lt - dt), active := False\<rparr>
                 else ob4\<lparr>lifeTime := Some (lt - dt)\<rparr>)
            | None \<Rightarrow> ob4)
     in if yv (position ob5) > cameraY s + canvas_height s + 200 then ob5\<lparr>active := False\<rparr>
        else ob5)"

definition updateObstacles :: "real \<Rightarrow> GameEngine \<Rightarrow> GameEngine" where
  "updateObstacles dt s = s\<lparr>obstacles := map (updateObstacle dt s) (obstacles s)\<rparr>"

definition updateSpawning :: "real \<Rightarrow> GameEngine \<Rightarrow> GameEngine" where
  "updateSpawning dt s =
    (let difficulty0 = min 1 (gameTime s / 180);
         spawnParams =
           \<lparr>centerX = canvas_width s / 2, spawnY = cameraY s - 100,
            balloonVelocity = \<bar>yv (velocity (balloon s))\<bar>,
            shieldRadius = radius (shield s), difficulty = difficulty0\<rparr>;
         (newObstacles, ps1, rnd1) = update dt spawnParams (patternSystem s) (random s)
     in s\<lparr>patternSystem := ps1, random := rnd1, obstacles := obstacles s @ newObstacles\<rparr>)"

definition updateCamera :: "GameEngine \<Rightarrow> GameEngine" where
  "updateCamera s =
    (let targetCameraY = yv (position (balloon s)) - canvas_height s + 300
     in if targetCameraY < cameraY s - CAMERA_DEAD_ZONE then
          s\<lparr>cameraY := targetCameraY + CAMERA_DEAD_ZONE\<rparr>
        else s)"

text \<open>
  Lines 480 to 527 of \<^verbatim>\<open>handleShieldCollision\<close>: what it does once the repulsion direction
  is chosen.
\<close>

definition applyRepulsion ::
  "Shield \<Rightarrow> Obstacle \<Rightarrow> Vector2 \<Rightarrow> rng \<Rightarrow> Obstacle \<times> rng" where
  "applyRepulsion sh obstacle repulsionDir rnd =
    (let m = getObstacleMass (type obstacle);
         baseImpulseStrength = (if anchored obstacle = Some True then 50 else 250 :: real);
         shieldSpeed = sqrt (xv (velocity sh) * xv (velocity sh) +
                             yv (velocity sh) * yv (velocity sh));
         shieldContribution = min (shieldSpeed * 0.3) 150;
         totalImpulse = baseImpulseStrength +
                        (if anchored obstacle = Some True then 0 else shieldContribution);
         impulse = \<lparr>xv = xv repulsionDir * totalImpulse / m,
                    yv = yv repulsionDir * totalImpulse / m\<rparr>;
         (ob1, rnd1) =
           (if anchored obstacle = Some True then
              (if type obstacle = ''rotor'' then
                 (let rs0 = (case rotationSpeed obstacle of Some rs \<Rightarrow> rs | None \<Rightarrow> 0);
                      rs1 = (case rotationSpeed obstacle of
                               Some rs \<Rightarrow> if rs = 0 then 1 else rs | None \<Rightarrow> 1)
                  in (obstacle\<lparr>rotationSpeed := Some (rs0 + 0.5 * sgn rs1)\<rparr>, rnd))
               else if type obstacle = ''spike'' \<or> type obstacle = ''block'' then
                 (let pos1 = \<lparr>xv = xv (position obstacle) + xv impulse * 0.1,
                              yv = yv (position obstacle) + yv impulse * 0.1\<rparr>;
                      orig = (case originalPosition obstacle of
                                Some op \<Rightarrow> op | None \<Rightarrow> pos1);
                      restoreForce = 0.15
                  in (obstacle\<lparr>position := pos1, originalPosition := Some orig,
                        velocity := \<lparr>xv = (xv orig - xv pos1) * restoreForce,
                                      yv = (yv orig - yv pos1) * restoreForce\<rparr>\<rparr>, rnd))
               else (obstacle, rnd))
            else
              (let randomness = (if type obstacle = ''block'' \<or> type obstacle = ''sweeper''
                                 then 10 else 20 :: real)
               in (obstacle\<lparr>velocity :=
                     \<lparr>xv = xv (velocity obstacle) + xv impulse + (rnd 0 - 0.5) * randomness / m,
                      yv = yv (velocity obstacle) + yv impulse +
                           (rnext rnd 0 - 0.5) * randomness / m\<rparr>\<rparr>,
                   rnext (rnext rnd))))
     in (if type ob1 = ''shard'' then ob1\<lparr>active := False\<rparr> else ob1, rnd1))"

definition handleShieldCollision ::
  "Shield \<Rightarrow> Obstacle \<Rightarrow> CollisionInfo \<Rightarrow> rng \<Rightarrow> Obstacle \<times> rng" where
  "handleShieldCollision sh obstacle collision rnd =
    (let m = getObstacleMass (type obstacle)
     in if type obstacle = ''block'' \<or> type obstacle = ''sweeper'' then
          (let repulsionDir = \<lparr>xv = xv (normal collision), yv = yv (normal collision)\<rparr>;
               separationDistance = 2;
               ob1 = obstacle\<lparr>position :=
                       \<lparr>xv = xv (position obstacle) + xv (normal collision) * separationDistance,
                        yv = yv (position obstacle) + yv (normal collision) * separationDistance\<rparr>\<rparr>
           in applyRepulsion sh ob1 repulsionDir rnd)
        else
          (let dx = xv (position obstacle) - xv (position sh);
               dy = yv (position obstacle) - yv (position sh);
               distance = sqrt (dx * dx + dy * dy)
           in if distance = 0 then
                (if anchored obstacle \<noteq> Some True then
                   (obstacle\<lparr>velocity :=
                      \<lparr>xv = xv (velocity obstacle) + (rnd 0 - 0.5) * 100 / m,
                       yv = yv (velocity obstacle) + (rnext rnd 0 - 0.5) * 100 / m\<rparr>\<rparr>,
                    rnext (rnext rnd))
                 else (obstacle, rnd))
              else applyRepulsion sh obstacle \<lparr>xv = dx / distance, yv = dy / distance\<rparr> rnd))"

text \<open>
  The second loop of \<^verbatim>\<open>checkCollisions\<close>, over the obstacles in order: it returns the
  obstacles as the loop leaves them, and the engine with the shield's \<^verbatim>\<open>lastHitTime\<close> and the
  random sequence updated.
\<close>

fun shieldCollisions :: "Obstacle list \<Rightarrow> GameEngine \<Rightarrow> Obstacle list \<times> GameEngine" where
  "shieldCollisions [] s = ([], s)"
| "shieldCollisions (obstacle # rest) s =
    (if \<not> active obstacle then
       (let (rest1, s1) = shieldCollisions rest s in (obstacle # rest1, s1))
     else
       (case checkCollision (shield s) obstacle of
          None \<Rightarrow> (let (rest1, s1) = shieldCollisions rest s in (obstacle # rest1, s1))
        | Some collision \<Rightarrow>
            (let (ob1, rnd1) = handleShieldCollision (shield s) obstacle collision (random s);
                 s1 = s\<lparr>random := rnd1, shield := (shield s)\<lparr>lastHitTime := gameTime s\<rparr>\<rparr>;
                 (rest1, s2) = shieldCollisions rest s1
             in (ob1 # rest1, s2))))"

definition checkCollisions :: "GameEngine \<Rightarrow> GameEngine" where
  "checkCollisions s =
    (if list_ex (\<lambda>obstacle. active obstacle \<and> checkCollision (balloon s) obstacle \<noteq> None)
          (obstacles s)
     then gameOver s
     else (let (obs1, s1) = shieldCollisions (obstacles s) s in s1\<lparr>obstacles := obs1\<rparr>))"

definition updatePhysics :: "real \<Rightarrow> GameEngine \<Rightarrow> GameEngine" where
  "updatePhysics dt s =
    (let s1 = s\<lparr>gameTime := gameTime s + dt\<rparr>;
         s2 = updateInput dt s1;
         s3 = updateBalloon dt s2;
         s4 = updateShield dt s3;
         s5 = updateObstacles dt s4;
         s6 = updateSpawning dt s5;
         s7 = updateCamera s6;
         s8 = checkCollisions s7;
         altitudeScore = max 0 ((canvas_height s8 - yv (position (balloon s8))) / 10);
         s9 = s8\<lparr>score := altitudeScore,
                 notifications := notifications s8 @ [ScoreChange altitudeScore]\<rparr>
     in s9\<lparr>obstacles := filter active (obstacles s9)\<rparr>)"

subsection \<open>The frame loop\<close>

text \<open>
  The \<^verbatim>\<open>while\<close> loop of \<^verbatim>\<open>gameLoop\<close>.  A physics tick leaves the accumulator as it is
  (lemma \<open>accumulator_updatePhysics\<close>), so the value the loop writes back is the
  accumulator before the tick less one step.
\<close>

function physicsLoop :: "GameEngine \<Rightarrow> GameEngine" where
  "physicsLoop s =
    (if accumulator s \<ge> physicsStep then
       physicsLoop
         ((if gameState s = Playing then updatePhysics physicsStep s else s)
            \<lparr>accumulator := accumulator s - physicsStep\<rparr>)
     else s)"
  by pat_completeness auto
termination
proof (relation "measure (\<lambda>s. nat \<lceil>accumulator s * 120\<rceil>)")
  show "wf (measure (\<lambda>s. nat \<lceil>accumulator s * 120\<rceil>))"
    by simp
next
  fix s :: GameEngine
  assume "physicsStep \<le> accumulator s"
  then have "1 \<le> accumulator s * 120"
    by (simp add: physicsStep_def)
  moreover have "\<lceil>(accumulator s - physicsStep) * 120\<rceil> = \<lceil>accumulator s * 120\<rceil> - 1"
    by (simp add: physicsStep_def algebra_simps)
  ultimately show
    "((if gameState s = Playing then updatePhysics physicsStep s else s)
        \<lparr>accumulator := accumulator s - physicsStep\<rparr>, s)
      \<in> measure (\<lambda>s. nat \<lceil>accumulator s * 120\<rceil>)"
    by simp
qed

declare physicsLoop.simps [simp del]

definition gameLoop :: "real \<Rightarrow> GameEngine \<Rightarrow> GameEngine" where
  "gameLoop currentTime s =
    (let frameTime = min ((currentTime - lastTime s) / 1000) 0.25
     in physicsLoop (s\<lparr>lastTime := currentTime, accumulator := accumulator s + frameTime\<rparr>))"

text \<open>
  \<^verbatim>\<open>start\<close> reads the clock (\<open>now\<close>) and runs the first frame, which reads it again
  (\<open>currentTime\<close>).  \<^verbatim>\<open>stop\<close> only cancels the next frame and has no model.
\<close>

definition start :: "real \<Rightarrow> real \<Rightarrow> GameEngine \<Rightarrow> GameEngine" where
  "start now currentTime s = gameLoop currentTime (s\<lparr>lastTime := now\<rparr>)"

subsection \<open>Reachable engine states\<close>

text \<open>
  The states an engine can be in: the constructor's, and from there every command, every
  input event and every physics tick.  \<^verbatim>\<open>gameLoop\<close> runs a tick only in the playing state
  and only with the fixed step; its own bookkeeping changes \<open>lastTime\<close> and \<open>accumulator\<close>.
  \<^verbatim>\<open>Math.random()\<close> returns numbers in the interval from 0 to 1, 1 excluded.
\<close>

inductive reachable :: "GameEngine \<Rightarrow> bool" where
  construct: "(\<And>n. 0 \<le> rnd n \<and> rnd n < 1) \<Longrightarrow> reachable (newGameEngine w h rnd)"
| cmd_startGame: "reachable s \<Longrightarrow> reachable (startGame s)"
| cmd_pauseGame: "reachable s \<Longrightarrow> reachable (pauseGame s)"
| cmd_resumeGame: "reachable s \<Longrightarrow> reachable (resumeGame s)"
| cmd_restartGame: "reachable s \<Longrightarrow> reachable (restartGame s)"
| cmd_toggleDebug: "reachable s \<Longrightarrow> reachable (toggleDebug s)"
| cmd_setSensitivity: "reachable s \<Longrightarrow> reachable (setSensitivity v s)"
| cmd_setShieldSize: "reachable s \<Longrightarrow> reachable (setShieldSize sz s)"
| ev_mousemove: "reachable s \<Longrightarrow> reachable (mousemove mx my s)"
| ev_keydown: "reachable s \<Longrightarrow> reachable (keydown code s)"
| ev_keyup: "reachable s \<Longrightarrow> reachable (keyup code s)"
| clock: "reachable s \<Longrightarrow> reachable (s\<lparr>lastTime := t, accumulator := a\<rparr>)"
| tick: "reachable s \<Longrightarrow> gameState s = Playing \<Longrightarrow> reachable (updatePhysics physicsStep s)"

subsection \<open>The states of a run\<close>

text \<open>
  The states of a run: those right after \<^verbatim>\<open>startGame\<close> (which \<^verbatim>\<open>restartGame\<close> calls),
  and from there every input event, every physics tick and every command but one.  The one
  left out is \<^verbatim>\<open>setShieldSize\<close>, which replaces the shield's radius and with it the band
  that the shield's target is clamped to.
\<close>

inductive inRun :: "GameEngine \<Rightarrow> bool" where
  run_startGame: "reachable s \<Longrightarrow> inRun (startGame s)"
| run_pauseGame: "inRun s \<Longrightarrow> inRun (pauseGame s)"
| run_resumeGame: "inRun s \<Longrightarrow> inRun (resumeGame s)"
| run_toggleDebug: "inRun s \<Longrightarrow> inRun (toggleDebug s)"
| run_setSensitivity: "inRun s \<Longrightarrow> inRun (setSensitivity v s)"
| run_mousemove: "inRun s \<Longrightarrow> inRun (mousemove mx my s)"
| run_keydown: "inRun s \<Longrightarrow> inRun (keydown code s)"
| run_keyup: "inRun s \<Longrightarrow> inRun (keyup code s)"
| run_clock: "inRun s \<Longrightarrow> inRun (s\<lparr>lastTime := t, accumulator := a\<rparr>)"
| run_tick: "inRun s \<Longrightarrow> gameState s = Playing \<Longrightarrow> inRun (updatePhysics physicsStep s)"

section \<open>The balloon's speed in binary64 arithmetic\<close>

text \<open>
  A JavaScript \<^verbatim>\<open>number\<close> is an IEEE 754 binary64 value, and every arithmetic operation
  returns the exact result rounded to the nearest such value, ties to the one with an even
  significand.  \<open>roundEven\<close> rounds a real to the nearest integer, ties to even;
  \<open>fl64 x\<close> rounds \<open>x\<close> to 53 significant bits, and to a multiple of \<open>2 powr - 1074\<close>
  in the subnormal range.  Overflow to infinity is left out: no number of this section is
  near \<open>2 ^ 1024\<close>.
\<close>

definition roundEven :: "real \<Rightarrow> int" where
  "roundEven q =
    (let f = \<lfloor>q\<rfloor>
     in if q - of_int f < 1 / 2 then f
        else if 1 / 2 < q - of_int f then f + 1
        else if even f then f else f + 1)"

definition fl64 :: "real \<Rightarrow> real" where
  "fl64 x =
    (if x = 0 then 0
     else (let e = max (\<lfloor>log 2 \<bar>x\<bar>\<rfloor> - 52) (- 1074)
           in of_int (roundEven (x / 2 powr of_int e)) * 2 powr of_int e))"

text \<open>
  The numbers that decide the balloon's vertical speed, and the statements that write them:
  \<^verbatim>\<open>private readonly physicsStep: number = 1 / 120\<close>; in \<^verbatim>\<open>resetGame\<close>,
  \<^verbatim>\<open>this.gameTime = 0\<close> and \<^verbatim>\<open>velocity = { x: 0, y: -this.BALLOON_BASE_VELOCITY }\<close>; in
  \<^verbatim>\<open>updatePhysics\<close>, \<^verbatim>\<open>this.gameTime += dt\<close>; and the first statement of
  \<^verbatim>\<open>updateBalloon\<close>, in which the balloon's acceleration is the constant
  \<^verbatim>\<open>BALLOON_ACCELERATION\<close> that \<^verbatim>\<open>initializeGameObjects\<close> gave it.  The constants 80, 4,
  160 and 0 are binary64 values; \<^verbatim>\<open>Math.abs\<close>, \<^verbatim>\<open>Math.min\<close> and the comparison are
  exact.  \<open>ticks64 n\<close> is the state \<open>n\<close> ticks after \<^verbatim>\<open>startGame\<close>.
\<close>

record Ascent64 =
  gameTime64 :: real
  velocityY64 :: real

definition physicsStep64 :: real where
  "physicsStep64 = fl64 (1 / 120)"

definition startGame64 :: Ascent64 where
  "startGame64 = \<lparr>gameTime64 = 0, velocityY64 = - BALLOON_BASE_VELOCITY\<rparr>"

definition updateBalloon64 :: "real \<Rightarrow> Ascent64 \<Rightarrow> Ascent64" where
  "updateBalloon64 dt a =
    (let currentSpeed = \<bar>velocityY64 a\<bar>;
         maxSpeed = min BALLOON_MAX_VELOCITY
                      (fl64 (BALLOON_BASE_VELOCITY + fl64 (BALLOON_ACCELERATION * gameTime64 a)))
     in if currentSpeed < maxSpeed
        then a\<lparr>velocityY64 := fl64 (velocityY64 a - fl64 (BALLOON_ACCELERATION * dt))\<rparr>
        else a)"

definition updatePhysics64 :: "real \<Rightarrow> Ascent64 \<Rightarrow> Ascent64" where
  "updatePhysics64 dt a = updateBalloon64 dt (a\<lparr>gameTime64 := fl64 (gameTime64 a + dt)\<rparr>)"

definition ticks64 :: "nat \<Rightarrow> Ascent64" where
  "ticks64 n = (updatePhysics64 physicsStep64 ^^ n) startGame64"
section \<open>Concrete objects and states for the examples\<close>

definition spikeAt :: "real \<Rightarrow> real \<Rightarrow> Obstacle" where
  "spikeAt px py = obstacleLiteral ''spike'' \<lparr>xv = px, yv = py\<rparr> \<lparr>xv = 0, yv = 0\<rparr> 25"

definition shardAt :: "real \<Rightarrow> real \<Rightarrow> Obstacle" where
  "shardAt px py =
    (obstacleLiteral ''shard'' \<lparr>xv = px, yv = py\<rparr> \<lparr>xv = 0, yv = 0\<rparr> 8)
      \<lparr>lifeTime := Some 3\<rparr>"

definition chicaneWallAt :: "real \<Rightarrow> real \<Rightarrow> Obstacle" where
  "chicaneWallAt px py =
    (obstacleLiteral ''block'' \<lparr>xv = px, yv = py\<rparr> \<lparr>xv = 0, yv = 0\<rparr> 25)
      \<lparr>width := Some 100, height := Some 50, anchored := Some True\<rparr>"

definition shieldAt :: "real \<Rightarrow> real \<Rightarrow> real \<Rightarrow> Shield" where
  "shieldAt px py r =
    \<lparr>position = \<lparr>xv = px, yv = py\<rparr>, velocity = \<lparr>xv = 0, yv = 0\<rparr>, radius = r,
     type = ''shield'', active = True, width = None, height = None,
     targetPosition = \<lparr>xv = px, yv = py\<rparr>, lerpFactor = SHIELD_LERP_FACTOR, mass = 100,
     lastHitTime = 0\<rparr>"

text \<open>
  An engine on the 1920 by 1080 canvas of the game's page, where every call of
  \<^verbatim>\<open>Math.random()\<close> returns one half.
\<close>

definition engine0 :: GameEngine where
  "engine0 = newGameEngine 1920 1080 (\<lambda>n. 1 / 2)"

text \<open>
  The engine right after \<^verbatim>\<open>startGame\<close>, with the shield moved to (500, 500) and one shard
  whose centre is the shield's.
\<close>

definition engineC6 :: GameEngine where
  "engineC6 =
    (startGame engine0)\<lparr>shield := shieldAt 500 500 42, obstacles := [shardAt 500 500]\<rparr>"

text \<open>
  The engine after \<^verbatim>\<open>startGame\<close>, a pointer move to \<open>(mx, my)\<close> and key-down events for
  S and W.
\<close>

definition engineOpposingKeys :: "real \<Rightarrow> real \<Rightarrow> GameEngine" where
  "engineOpposingKeys mx my =
    keydown ''KeyW'' (keydown ''KeyS'' (mousemove mx my (startGame engine0)))"


section \<open>A run in which nothing touches the balloon or the shield\<close>

text \<open>
  \<open>ticks n s\<close> runs \<open>n\<close> physics ticks from \<open>s\<close>.  \<open>enginePointerLow\<close> is the engine after
  \<^verbatim>\<open>startGame\<close> and a pointer move to (960, 1038), the lowest point of the shield's range
  below the balloon; \<open>engineKeyAtEdge\<close> is that engine 16 ticks later, when the S key goes
  down.
\<close>

definition ticks :: "nat \<Rightarrow> GameEngine \<Rightarrow> GameEngine" where
  "ticks n s = (updatePhysics physicsStep ^^ n) s"

definition enginePointerLow :: GameEngine where
  "enginePointerLow = mousemove 960 1038 (startGame engine0)"

definition engineKeyAtEdge :: GameEngine where
  "engineKeyAtEdge = keydown ''KeyS'' (ticks 16 enginePointerLow)"

text \<open>
  The invariant of that run, as long as the camera has not moved.  The random numbers are in
  the unit interval.  Every obstacle is a block of the first pattern, which stays left of
  the balloon and far above the shield: \<open>calmBlock\<close> bounds where its damped fall can take
  it.  \<open>calmRun k\<close> gives the state after \<open>k\<close> ticks: the shield has closed all but
  \<open>108 * (18 / 25) ^ k\<close> of its distance to the target, and the balloon has climbed
  \<open>(4801 * k + k\<^sup>2) / 7200\<close> units.
\<close>

definition unitRange :: "rng \<Rightarrow> bool" where
  "unitRange rnd \<longleftrightarrow> (\<forall>n. 0 \<le> rnd n \<and> rnd n < 1)"

definition calmBlock :: "Obstacle \<Rightarrow> bool" where
  "calmBlock ob \<longleftrightarrow>
     type ob = ''block'' \<and> width ob = Some 40 \<and> height ob = Some 40 \<and> lifeTime ob = None \<and>
     xv (position ob) \<le> 750 \<and> xv (velocity ob) = 0 \<and> 0 \<le> yv (velocity ob) \<and>
     yv (position ob) + (197 / 360) * yv (velocity ob) \<le> - 72"

definition calmRun :: "nat \<Rightarrow> GameEngine \<Rightarrow> bool" where
  "calmRun k s \<longleftrightarrow>
     gameState s = Playing \<and> canvas_width s = 1920 \<and> canvas_height s = 1080 \<and>
     cameraY s = 0 \<and> keys s = {} \<and> worldMousePosition s = \<lparr>xv = 960, yv = 1038\<rparr> \<and>
     sensitivity (settings s) = 1 \<and>
     radius (shield s) = 42 \<and> lerpFactor (shield s) = 7 / 25 \<and>
     yv (position (shield s)) = 1038 - 108 * (18 / 25) ^ k \<and>
     radius (balloon s) = 22 \<and> acceleration (balloon s) = 4 \<and>
     945 \<le> xv (position (balloon s)) \<and>
     yv (velocity (balloon s)) = - (80 + real k / 30) \<and>
     yv (position (balloon s)) = 980 - (4801 * real k + (real k)\<^sup>2) / 7200 \<and>
     gameTime s = real k / 120 \<and>
     patterns (patternSystem s) = initializePatterns \<and> unitRange (random s) \<and>
     (\<forall>ob \<in> set (obstacles s). calmBlock ob)"

section \<open>A run in which every random number is 0\<close>

text \<open>
  \<open>engineZero\<close> is the engine on the page's canvas where every call of \<^verbatim>\<open>Math.random()\<close>
  returns 0, and \<open>engineSteady\<close> that engine after \<^verbatim>\<open>startGame\<close> and a pointer move to
  (960, 1038), straight below the balloon.  At 0 the weighted selection returns the first
  pattern of the list it is given, so that the run selects \<open>blockRain\<close>, and \<open>chicane\<close>
  when it has to avoid a third \<open>blockRain\<close>; a block of the rain is spawned at \<open>x = 50\<close>
  and the wall of a chicane at \<open>x = 750\<close>, both out of reach of the balloon and of the
  shield, which stay near \<open>x = 960\<close>: \<open>steadyBlock\<close>.
\<close>

definition engineZero :: GameEngine where
  "engineZero = newGameEngine 1920 1080 (\<lambda>n. 0)"

definition engineSteady :: GameEngine where
  "engineSteady = mousemove 960 1038 (startGame engineZero)"

definition steadyBlock :: "Obstacle \<Rightarrow> bool" where
  "steadyBlock ob \<longleftrightarrow>
     type ob = ''block'' \<and> xv (velocity ob) = 0 \<and>
     (width ob = Some 40 \<and> height ob = Some 40 \<and> xv (position ob) = 50 \<or>
      width ob = Some 100 \<and> height ob = Some 50 \<and> xv (position ob) = 750)"

text \<open>
  The run after \<open>k\<close> ticks, for \<open>k\<close> up to 2400: the balloon is at height \<open>steadyY k\<close>,
  the camera offset is \<open>steadyCamera k\<close>, the pattern generator has been updated \<open>k\<close>
  times with the spawn parameters of these ticks (\<open>steadyGen k\<close>), and \<open>steadyRun k\<close> holds
  of the engine.
\<close>

definition steadyY :: "nat \<Rightarrow> real" where
  "steadyY k = 980 - (4801 * real k + (real k)\<^sup>2) / 7200"

definition steadyCamera :: "nat \<Rightarrow> real" where
  "steadyCamera k = (if steadyY k < 680 then steadyY k - 680 else 0)"

definition steadyParams :: "nat \<Rightarrow> PatternParams" where
  "steadyParams k =
    \<lparr>centerX = 960, spawnY = steadyCamera k - 100, balloonVelocity = 80 + real (Suc k) / 30,
     shieldRadius = 42, difficulty = min 1 (real (Suc k) / 120 / 180)\<rparr>"

primrec steadyGen :: "nat \<Rightarrow> PatternSystem" where
  "steadyGen 0 = newPatternSystem"
| "steadyGen (Suc k) = fst (snd (update physicsStep (steadyParams k) (steadyGen k) (\<lambda>n. 0)))"

definition steadyRun :: "nat \<Rightarrow> GameEngine \<Rightarrow> bool" where
  "steadyRun k s \<longleftrightarrow>
     gameState s = Playing \<and> canvas_width s = 1920 \<and> canvas_height s = 1080 \<and>
     keys s = {} \<and> xv (worldMousePosition s) = 960 \<and> sensitivity (settings s) = 1 \<and>
     radius (shield s) = 42 \<and> lerpFactor (shield s) = 7 / 25 \<and>
     xv (position (shield s)) = 960 \<and>
     radius (balloon s) = 22 \<and> acceleration (balloon s) = 4 \<and>
     945 \<le> xv (position (balloon s)) \<and>
     yv (velocity (balloon s)) = - (80 + real k / 30) \<and>
     yv (position (balloon s)) = steadyY k \<and>
     gameTime s = real k / 120 \<and> cameraY s = steadyCamera k \<and>
     patternSystem s = steadyGen k \<and> random s = (\<lambda>n. 0) \<and>
     (\<forall>ob \<in> set (obstacles s). steadyBlock ob)"
section \<open>What each step of a tick changes\<close>

text \<open>
  The collision checks change the game state, the notifications, the random sequence, the
  obstacles and the shield's \<^verbatim>\<open>lastHitTime\<close>, and nothing else.
\<close>

lemma shieldCollisions_frame:
  "\<exists>r l. snd (shieldCollisions obs s) = s\<lparr>random := r, shield := (shield s)\<lparr>lastHitTime := l\<rparr>\<rparr>"
proof (induction obs arbitrary: s)
  case Nil
  have "s = s\<lparr>random := random s, shield := (shield s)\<lparr>lastHitTime := lastHitTime (shield s)\<rparr>\<rparr>"
    by simp
  then show ?case by (metis shieldCollisions.simps(1) snd_conv)
next
  case (Cons ob obs)
  show ?case
  proof (cases "active ob \<and> checkCollision (shield s) ob \<noteq> None")
    case False
    then have "snd (shieldCollisions (ob # obs) s) = snd (shieldCollisions obs s)"
      by (auto simp: split_beta)
    then show ?thesis using Cons.IH[of s] by simp
  next
    case True
    then obtain c where c: "checkCollision (shield s) ob = Some c" by auto
    define s1 where "s1 = s\<lparr>random := snd (handleShieldCollision (shield s) ob c (random s)),
        shield := (shield s)\<lparr>lastHitTime := gameTime s\<rparr>\<rparr>"
    have "snd (shieldCollisions (ob # obs) s) = snd (shieldCollisions obs s1)"
      using True c by (simp add: split_beta s1_def Let_def)
    moreover obtain r l where "snd (shieldCollisions obs s1) = s1\<lparr>random := r, shield := (shield s1)\<lparr>lastHitTime := l\<rparr>\<rparr>"
      using Cons.IH[of s1] by blast
    moreover have "s1\<lparr>random := r, shield := (shield s1)\<lparr>lastHitTime := l\<rparr>\<rparr> = s\<lparr>random := r, shield := (shield s)\<lparr>lastHitTime := l\<rparr>\<rparr>"
      by (simp add: s1_def)
    ultimately show ?thesis by metis
  qed
qed

lemma checkCollisions_frame:
  "\<exists>g n r l obs. checkCollisions s =
     s\<lparr>gameState := g, notifications := n, random := r,
       shield := (shield s)\<lparr>lastHitTime := l\<rparr>, obstacles := obs\<rparr>"
proof (cases "list_ex (\<lambda>obstacle. active obstacle \<and> checkCollision (balloon s) obstacle \<noteq> None) (obstacles s)")
  case True
  have "checkCollisions s = s\<lparr>gameState := GameOver, notifications := notifications s @ [GameStateChange GameOver], random := random s,
       shield := (shield s)\<lparr>lastHitTime := lastHitTime (shield s)\<rparr>, obstacles := obstacles s\<rparr>"
    using True by (simp add: checkCollisions_def gameOver_def)
  then show ?thesis by blast
next
  case False
  obtain r l where rl: "snd (shieldCollisions (obstacles s) s) = s\<lparr>random := r, shield := (shield s)\<lparr>lastHitTime := l\<rparr>\<rparr>"
    using shieldCollisions_frame by blast
  have "checkCollisions s = s\<lparr>gameState := gameState s, notifications := notifications s, random := r,
       shield := (shield s)\<lparr>lastHitTime := l\<rparr>, obstacles := fst (shieldCollisions (obstacles s) s)\<rparr>"
    using False by (simp add: checkCollisions_def split_beta rl)
  then show ?thesis by blast
qed

lemma checkCollisions_fields [simp]:
  "canvas_width (checkCollisions s) = canvas_width s"
  "canvas_height (checkCollisions s) = canvas_height s"
  "patternSystem (checkCollisions s) = patternSystem s"
  "score (checkCollisions s) = score s"
  "gameTime (checkCollisions s) = gameTime s"
  "cameraY (checkCollisions s) = cameraY s"
  "balloon (checkCollisions s) = balloon s"
  "lastTime (checkCollisions s) = lastTime s"
  "accumulator (checkCollisions s) = accumulator s"
  "mousePosition (checkCollisions s) = mousePosition s"
  "worldMousePosition (checkCollisions s) = worldMousePosition s"
  "keys (checkCollisions s) = keys s"
  "settings (checkCollisions s) = settings s"
  using checkCollisions_frame[of s] by auto

lemma checkCollisions_shield:
  "\<exists>l. shield (checkCollisions s) = (shield s)\<lparr>lastHitTime := l\<rparr>"
  using checkCollisions_frame[of s] by auto

lemma updateSpawning_fields [simp]:
  "canvas_width (updateSpawning dt s) = canvas_width s"
  "canvas_height (updateSpawning dt s) = canvas_height s"
  "gameState (updateSpawning dt s) = gameState s"
  "score (updateSpawning dt s) = score s"
  "gameTime (updateSpawning dt s) = gameTime s"
  "cameraY (updateSpawning dt s) = cameraY s"
  "balloon (updateSpawning dt s) = balloon s"
  "shield (updateSpawning dt s) = shield s"
  "lastTime (updateSpawning dt s) = lastTime s"
  "accumulator (updateSpawning dt s) = accumulator s"
  "mousePosition (updateSpawning dt s) = mousePosition s"
  "worldMousePosition (updateSpawning dt s) = worldMousePosition s"
  "keys (updateSpawning dt s) = keys s"
  "settings (updateSpawning dt s) = settings s"
  "notifications (updateSpawning dt s) = notifications s"
  by (simp_all add: updateSpawning_def Let_def split_beta)

lemma updateCamera_fields [simp]:
  "canvas_width (updateCamera s) = canvas_width s"
  "canvas_height (updateCamera s) = canvas_height s"
  "patternSystem (updateCamera s) = patternSystem s"
  "gameState (updateCamera s) = gameState s"
  "score (updateCamera s) = score s"
  "gameTime (updateCamera s) = gameTime s"
  "balloon (updateCamera s) = balloon s"
  "shield (updateCamera s) = shield s"
  "obstacles (updateCamera s) = obstacles s"
  "lastTime (updateCamera s) = lastTime s"
  "accumulator (updateCamera s) = accumulator s"
  "mousePosition (updateCamera s) = mousePosition s"
  "worldMousePosition (updateCamera s) = worldMousePosition s"
  "keys (updateCamera s) = keys s"
  "settings (updateCamera s) = settings s"
  "notifications (updateCamera s) = notifications s"
  "random (updateCamera s) = random s"
  by (simp_all add: updateCamera_def Let_def)

lemma updateObstacles_fields [simp]:
  "canvas_width (updateObstacles dt s) = canvas_width s"
  "canvas_height (updateObstacles dt s) = canvas_height s"
  "patternSystem (updateObstacles dt s) = patternSystem s"
  "gameState (updateObstacles dt s) = gameState s"
  "score (updateObstacles dt s) = score s"
  "gameTime (updateObstacles dt s) = gameTime s"
  "cameraY (updateObstacles dt s) = cameraY s"
  "balloon (updateObstacles dt s) = balloon s"
  "shield (updateObstacles dt s) = shield s"
  "lastTime (updateObstacles dt s) = lastTime s"
  "accumulator (updateObstacles dt s) = accumulator s"
  "mousePosition (updateObstacles dt s) = mousePosition s"
  "worldMousePosition (updateObstacles dt s) = worldMousePosition s"
  "keys (updateObstacles dt s) = keys s"
  "settings (updateObstacles dt s) = settings s"
  "notifications (updateObstacles dt s) = notifications s"
  "random (updateObstacles dt s) = random s"
  by (simp_all add: updateObstacles_def)

lemma updateShield_fields [simp]:
  "canvas_width (updateShield dt s) = canvas_width s"
  "canvas_height (updateShield dt s) = canvas_height s"
  "patternSystem (updateShield dt s) = patternSystem s"
  "gameState (updateShield dt s) = gameState s"
  "score (updateShield dt s) = score s"
  "gameTime (updateShield dt s) = gameTime s"
  "cameraY (updateShield dt s) = cameraY s"
  "balloon (updateShield dt s) = balloon s"
  "obstacles (updateShield dt s) = obstacles s"
  "lastTime (updateShield dt s) = lastTime s"
  "accumulator (updateShield dt s) = accumulator s"
  "mousePosition (updateShield dt s) = mousePosition s"
  "worldMousePosition (updateShield dt s) = worldMousePosition s"
  "keys (updateShield dt s) = keys s"
  "settings (updateShield dt s) = settings s"
  "notifications (updateShield dt s) = notifications s"
  "random (updateShield dt s) = random s"
  by (simp_all add: updateShield_def Let_def)

lemma updateBalloon_fields [simp]:
  "canvas_width (updateBalloon dt s) = canvas_width s"
  "canvas_height (updateBalloon dt s) = canvas_height s"
  "patternSystem (updateBalloon dt s) = patternSystem s"
  "gameState (updateBalloon dt s) = gameState s"
  "score (updateBalloon dt s) = score s"
  "gameTime (updateBalloon dt s) = gameTime s"
  "cameraY (updateBalloon dt s) = cameraY s"
  "shield (updateBalloon dt s) = shield s"
  "obstacles (updateBalloon dt s) = obstacles s"
  "lastTime (updateBalloon dt s) = lastTime s"
  "accumulator (updateBalloon dt s) = accumulator s"
  "mousePosition (updateBalloon dt s) = mousePosition s"
  "worldMousePosition (updateBalloon dt s) = worldMousePosition s"
  "keys (updateBalloon dt s) = keys s"
  "settings (updateBalloon dt s) = settings s"
  "notifications (updateBalloon dt s) = notifications s"
  "random (updateBalloon dt s) = random s"
  by (simp_all add: updateBalloon_def Let_def)

lemma updateInput_fields [simp]:
  "canvas_width (updateInput dt s) = canvas_width s"
  "canvas_height (updateInput dt s) = canvas_height s"
  "patternSystem (updateInput dt s) = patternSystem s"
  "gameState (updateInput dt s) = gameState s"
  "score (updateInput dt s) = score s"
  "gameTime (updateInput dt s) = gameTime s"
  "cameraY (updateInput dt s) = cameraY s"
  "balloon (updateInput dt s) = balloon s"
  "obstacles (updateInput dt s) = obstacles s"
  "lastTime (updateInput dt s) = lastTime s"
  "accumulator (updateInput dt s) = accumulator s"
  "mousePosition (updateInput dt s) = mousePosition s"
  "worldMousePosition (updateInput dt s) = worldMousePosition s"
  "keys (updateInput dt s) = keys s"
  "settings (updateInput dt s) = settings s"
  "notifications (updateInput dt s) = notifications s"
  "random (updateInput dt s) = random s"
  by (cases "gameState s = Playing"; simp add: updateInput_def Let_def split del: if_split)+

text \<open>
  What a tick leaves alone, and what it does to the balloon, the shield, the camera and the
  score, in terms of the functions that do it.
\<close>

lemma updatePhysics_fields [simp]:
  "canvas_width (updatePhysics dt s) = canvas_width s"
  "canvas_height (updatePhysics dt s) = canvas_height s"
  "gameTime (updatePhysics dt s) = gameTime s + dt"
  "lastTime (updatePhysics dt s) = lastTime s"
  "accumulator (updatePhysics dt s) = accumulator s"
  "mousePosition (updatePhysics dt s) = mousePosition s"
  "worldMousePosition (updatePhysics dt s) = worldMousePosition s"
  "keys (updatePhysics dt s) = keys s"
  "settings (updatePhysics dt s) = settings s"
  by (simp_all add: updatePhysics_def Let_def)

lemma updatePhysics_balloon:
  "balloon (updatePhysics dt s) = balloon (updateBalloon dt (updateInput dt (s\<lparr>gameTime := gameTime s + dt\<rparr>)))"
  by (simp add: updatePhysics_def Let_def)

lemma updatePhysics_score:
  "score (updatePhysics dt s) = max 0 ((canvas_height s - yv (position (balloon (updatePhysics dt s)))) / 10)"
  by (simp add: updatePhysics_def Let_def)

lemma updatePhysics_cameraY:
  "cameraY (updatePhysics dt s) =
     cameraY (updateCamera (updateBalloon dt (updateInput dt (s\<lparr>gameTime := gameTime s + dt\<rparr>))))"
  by (simp add: updatePhysics_def Let_def updateCamera_def)

lemma updatePhysics_shield:
  "\<exists>l. shield (updatePhysics dt s) =
     (shield (updateShield dt (updateBalloon dt (updateInput dt (s\<lparr>gameTime := gameTime s + dt\<rparr>)))))\<lparr>lastHitTime := l\<rparr>"
proof -
  obtain l where "shield (checkCollisions (updateCamera (updateSpawning dt (updateObstacles dt (updateShield dt
    (updateBalloon dt (updateInput dt (s\<lparr>gameTime := gameTime s + dt\<rparr>)))))))) = 
    (shield ((updateCamera (updateSpawning dt (updateObstacles dt (updateShield dt
    (updateBalloon dt (updateInput dt (s\<lparr>gameTime := gameTime s + dt\<rparr>))))))))) \<lparr>lastHitTime := l\<rparr>"
    using checkCollisions_shield by blast
  then have "shield (updatePhysics dt s) =
     (shield (updateShield dt (updateBalloon dt (updateInput dt (s\<lparr>gameTime := gameTime s + dt\<rparr>)))))\<lparr>lastHitTime := l\<rparr>"
    by (simp add: updatePhysics_def Let_def)
  then show ?thesis ..
qed

lemma updatePhysics_obstacles_active:
  "list_all active (obstacles (updatePhysics dt s))"
  by (simp add: updatePhysics_def Let_def list_all_iff)

lemma command_fields [simp]:
  "score (pauseGame s) = score s"
  "score (resumeGame s) = score s"
  "score (toggleDebug s) = score s"
  "score (setSensitivity v s) = score s"
  "score (setShieldSize sz s) = score s"
  "score (mousemove mx my s) = score s"
  "score (keydown code s) = score s"
  "score (keyup code s) = score s"
  "score (startGame s) = 0"
  "score (restartGame s) = 0"
  "score (newGameEngine w h rnd) = 0"
  by (simp_all add: pauseGame_def resumeGame_def toggleDebug_def setSensitivity_def
      setShieldSize_def mousemove_def keydown_def keyup_def startGame_def restartGame_def
      resetGame_def newGameEngine_def initializeGameObjects_def Let_def)

section \<open>Facts about the example states\<close>

lemma sqrt_400: "sqrt 400 = 20"
  using real_sqrt_abs[of 20] by simp

lemma sqrt_900: "sqrt 900 = 30"
  using real_sqrt_abs[of 30] by simp

lemma gameState_engine0: "gameState engine0 = Menu"
  by (simp add: engine0_def newGameEngine_def initializeGameObjects_def Let_def)

lemma reachable_engine0: "reachable engine0"
  unfolding engine0_def by (rule reachable.construct) simp

section \<open>Collision resolver: operand symmetry\<close>

lemma squared_distance_swap:
  "(a - b) * (a - b) + (c - d) * (c - d) = (b - a) * (b - a) + (d - c) * (d - c)"
  for a b c d :: real
  by (simp add: algebra_simps)

lemma circleVsCircle_verdict_swap:
  "(circleVsCircle a b = None) = (circleVsCircle b a = None)"
  by (simp add: circleVsCircle_def Let_def squared_distance_swap[of "xv (position b)"] add.commute)

lemma circleVsCircle_normal_swap:
  assumes "circleVsCircle a b = Some ci" and "circleVsCircle b a = Some cj"
    and "position a \<noteq> position b"
  shows "normal cj = \<lparr>xv = - xv (normal ci), yv = - yv (normal ci)\<rparr>"
proof -
  define dx where "dx = xv (position b) - xv (position a)"
  define dy where "dy = yv (position b) - yv (position a)"
  have "dx \<noteq> 0 \<or> dy \<noteq> 0"
    using assms(3) by (auto simp: dx_def dy_def intro: Vector2.equality)
  then have nz: "sqrt (dx * dx + dy * dy) \<noteq> 0"
    by (metis add_nonneg_eq_0_iff mult_eq_0_iff real_sqrt_eq_zero_cancel_iff zero_le_square)
  have sw: "(xv (position a) - xv (position b)) * (xv (position a) - xv (position b)) +
      (yv (position a) - yv (position b)) * (yv (position a) - yv (position b)) =
      dx * dx + dy * dy"
    by (simp add: dx_def dy_def algebra_simps)
  have m: "xv (position a) - xv (position b) = - dx" "yv (position a) - yv (position b) = - dy"
    by (simp_all add: dx_def dy_def)
  from assms(1) have ci: "normal ci =
      \<lparr>xv = dx / sqrt (dx * dx + dy * dy), yv = dy / sqrt (dx * dx + dy * dy)\<rparr>"
    using nz
    by (auto simp: circleVsCircle_def Let_def dx_def[symmetric] dy_def[symmetric]
        split: if_splits)
  from assms(2) have cj: "normal cj =
      \<lparr>xv = - dx / sqrt (dx * dx + dy * dy), yv = - dy / sqrt (dx * dx + dy * dy)\<rparr>"
    using nz unfolding circleVsCircle_def Let_def sw m by (auto split: if_splits)
  show ?thesis
    by (simp add: ci cj)
qed

lemma circleVsCircle_normal_degenerate:
  assumes "circleVsCircle a b = Some ci" and "position a = position b"
  shows "normal ci = \<lparr>xv = 1, yv = 0\<rparr>"
  using assms by (auto simp: circleVsCircle_def Let_def split: if_splits)

lemma checkCollision_circular:
  "type b \<noteq> ''block'' \<Longrightarrow> type b \<noteq> ''sweeper'' \<Longrightarrow> checkCollision a b = circleVsCircle a b"
  by (simp add: checkCollision_def)

section \<open>Shield contact\<close>

lemma rnext_const [simp]: "rnext (\<lambda>n. c) = (\<lambda>n. c)"
  by (simp add: rnext_def)

lemma shard_off_centre_deactivated:
  assumes "type ob = ''shard''" and "position ob \<noteq> position sh"
  shows "\<not> active (fst (handleShieldCollision sh ob ci rnd))"
proof -
  define dx where "dx = xv (position ob) - xv (position sh)"
  define dy where "dy = yv (position ob) - yv (position sh)"
  have "dx \<noteq> 0 \<or> dy \<noteq> 0"
    using assms(2) by (auto simp: dx_def dy_def intro: Vector2.equality)
  then have nz: "sqrt (dx * dx + dy * dy) \<noteq> 0"
    by (metis add_nonneg_eq_0_iff mult_eq_0_iff real_sqrt_eq_zero_cancel_iff zero_le_square)
  have "handleShieldCollision sh ob ci rnd =
      applyRepulsion sh ob \<lparr>xv = dx / sqrt (dx * dx + dy * dy), yv = dy / sqrt (dx * dx + dy * dy)\<rparr> rnd"
    unfolding handleShieldCollision_def Let_def dx_def[symmetric] dy_def[symmetric]
    using nz assms(1) by auto
  moreover have "\<not> active (fst (applyRepulsion sh ob v rnd))" for v
    using assms(1) by (simp add: applyRepulsion_def Let_def split_beta)
  ultimately show ?thesis by simp
qed

section \<open>Pattern selection\<close>

lemma weightedLoop_member: "weightedLoop r pats = Some p \<Longrightarrow> p \<in> set pats"
  by (induction pats arbitrary: r) (auto split: if_splits)

lemma selectWeightedPattern_nonempty:
  assumes "pats \<noteq> []"
  shows "\<exists>p \<in> set pats. selectWeightedPattern pats rnd = (Some p, rnext rnd)"
proof (cases "weightedLoop (rnd 0 * foldl (\<lambda>sum p. sum + weight p) 0 pats) pats")
  case None
  then show ?thesis using assms by (simp add: selectWeightedPattern_def Let_def)
next
  case (Some p)
  then show ?thesis
    using weightedLoop_member[OF Some] by (simp add: selectWeightedPattern_def Let_def)
qed

lemma executePattern_history:
  "patternHistory (fst (snd (executePattern pat params ps rnd))) =
    (if length (patternHistory ps) \<ge> 5 then tl (patternHistory ps) @ [name pat]
     else patternHistory ps @ [name pat])"
  by (cases "patternHistory ps") (simp_all add: executePattern_def Let_def split_beta)

lemma executePattern_last:
  "last (patternHistory (fst (snd (executePattern pat params ps rnd)))) = name pat"
  by (simp add: executePattern_history)

lemma blockRainX_zero:
  "lo \<ge> 50 \<Longrightarrow> blockRainX 0 lo hi (\<lambda>n. 0) = (50, \<lambda>n. 0)"
  by (subst blockRainX.simps) simp

section \<open>The ascent of the balloon\<close>

lemma command_balloon [simp]:
  "balloon (pauseGame s) = balloon s"
  "balloon (resumeGame s) = balloon s"
  "balloon (toggleDebug s) = balloon s"
  "balloon (setSensitivity v s) = balloon s"
  "balloon (setShieldSize sz s) = balloon s"
  "balloon (mousemove mx my s) = balloon s"
  "balloon (keydown code s) = balloon s"
  "balloon (keyup code s) = balloon s"
  by (simp_all add: pauseGame_def resumeGame_def toggleDebug_def setSensitivity_def
      setShieldSize_def mousemove_def keydown_def keyup_def Let_def)

lemma command_gameTime [simp]:
  "gameTime (pauseGame s) = gameTime s"
  "gameTime (resumeGame s) = gameTime s"
  "gameTime (toggleDebug s) = gameTime s"
  "gameTime (setSensitivity v s) = gameTime s"
  "gameTime (setShieldSize sz s) = gameTime s"
  "gameTime (mousemove mx my s) = gameTime s"
  "gameTime (keydown code s) = gameTime s"
  "gameTime (keyup code s) = gameTime s"
  by (simp_all add: pauseGame_def resumeGame_def toggleDebug_def setSensitivity_def
      setShieldSize_def mousemove_def keydown_def keyup_def Let_def)

lemma command_canvas [simp]:
  "canvas_height (pauseGame s) = canvas_height s"
  "canvas_height (resumeGame s) = canvas_height s"
  "canvas_height (toggleDebug s) = canvas_height s"
  "canvas_height (setSensitivity v s) = canvas_height s"
  "canvas_height (setShieldSize sz s) = canvas_height s"
  "canvas_height (mousemove mx my s) = canvas_height s"
  "canvas_height (keydown code s) = canvas_height s"
  "canvas_height (keyup code s) = canvas_height s"
  "canvas_height (startGame s) = canvas_height s"
  "canvas_height (restartGame s) = canvas_height s"
  "canvas_height (newGameEngine w h rnd) = h"
  "canvas_width (pauseGame s) = canvas_width s"
  "canvas_width (resumeGame s) = canvas_width s"
  "canvas_width (toggleDebug s) = canvas_width s"
  "canvas_width (setSensitivity v s) = canvas_width s"
  "canvas_width (setShieldSize sz s) = canvas_width s"
  "canvas_width (mousemove mx my s) = canvas_width s"
  "canvas_width (keydown code s) = canvas_width s"
  "canvas_width (keyup code s) = canvas_width s"
  "canvas_width (startGame s) = canvas_width s"
  "canvas_width (restartGame s) = canvas_width s"
  "canvas_width (newGameEngine w h rnd) = w"
  by (simp_all add: pauseGame_def resumeGame_def toggleDebug_def setSensitivity_def
      setShieldSize_def mousemove_def keydown_def keyup_def startGame_def restartGame_def
      resetGame_def newGameEngine_def initializeGameObjects_def Let_def)

lemma start_balloon:
  "balloon (startGame s) = (balloon s)
     \<lparr>position := \<lparr>xv = canvas_width s / 2, yv = canvas_height s - 100\<rparr>,
      velocity := \<lparr>xv = 0, yv = - 80\<rparr>, active := True, driftOffset := 0\<rparr>"
  "gameTime (startGame s) = 0"
  "gameState (startGame s) = Playing"
  "cameraY (startGame s) = 0"
  by (simp_all add: startGame_def resetGame_def Let_def BALLOON_BASE_VELOCITY_def)

lemma new_balloon:
  "acceleration (balloon (newGameEngine w h rnd)) = 4"
  "velocity (balloon (newGameEngine w h rnd)) = \<lparr>xv = 0, yv = - 80\<rparr>"
  "position (balloon (newGameEngine w h rnd)) = \<lparr>xv = w / 2, yv = h - 100\<rparr>"
  "gameTime (newGameEngine w h rnd) = 0"
  by (simp_all add: newGameEngine_def initializeGameObjects_def Let_def
      BALLOON_BASE_VELOCITY_def BALLOON_ACCELERATION_def)

lemma updateBalloon_balloon:
  "acceleration (balloon (updateBalloon dt s)) = acceleration (balloon s)"
  "yv (velocity (balloon (updateBalloon dt s))) =
     (if \<bar>yv (velocity (balloon s))\<bar> < min 160 (80 + acceleration (balloon s) * gameTime s)
      then yv (velocity (balloon s)) - acceleration (balloon s) * dt
      else yv (velocity (balloon s)))"
  "yv (position (balloon (updateBalloon dt s))) =
     yv (position (balloon s)) + yv (velocity (balloon (updateBalloon dt s))) * dt"
  by (simp_all add: updateBalloon_def Let_def BALLOON_BASE_VELOCITY_def BALLOON_MAX_VELOCITY_def)

text \<open>The balloon step of a tick depends on the balloon and on the play time only.\<close>

lemma updatePhysics_balloon_vy:
  "yv (velocity (balloon (updatePhysics dt s))) =
     (if \<bar>yv (velocity (balloon s))\<bar> < min 160 (80 + acceleration (balloon s) * (gameTime s + dt))
      then yv (velocity (balloon s)) - acceleration (balloon s) * dt
      else yv (velocity (balloon s)))"
  by (simp add: updatePhysics_balloon updateBalloon_balloon)

lemma updatePhysics_balloon_y:
  "yv (position (balloon (updatePhysics dt s))) =
     yv (position (balloon s)) + yv (velocity (balloon (updatePhysics dt s))) * dt"
  by (simp add: updatePhysics_balloon updateBalloon_balloon)

lemma updatePhysics_balloon_acc:
  "acceleration (balloon (updatePhysics dt s)) = acceleration (balloon s)"
  by (simp add: updatePhysics_balloon updateBalloon_balloon)

text \<open>
  The invariant of the ascent: the balloon's acceleration is 4; its vertical velocity is
  \<open>- (80 + k / 30)\<close> after \<open>k\<close> increments, with \<open>k\<close> at most 2400 and at most the number
  of ticks played; the balloon is at or above its starting height; and the score is at most
  the height above the bottom edge of the canvas, in display units.
\<close>

lemma reachable_ascent:
  "reachable s \<Longrightarrow>
     acceleration (balloon s) = 4 \<and>
     (\<exists>k::nat. k \<le> 2400 \<and> yv (velocity (balloon s)) = - (80 + real k / 30) \<and>
        real k / 120 \<le> gameTime s) \<and>
     yv (position (balloon s)) \<le> canvas_height s - 100 \<and>
     score s \<le> (canvas_height s - yv (position (balloon s))) / 10"
proof (induction rule: reachable.induct)
  case (construct rnd w h)
  have "(0::nat) \<le> 2400 \<and> - 80 = - (80 + real (0::nat) / 30) \<and> real (0::nat) / 120 \<le> (0::real)"
    by simp
  then show ?case
    by (simp add: new_balloon) 
next
  case (cmd_startGame s)
  then show ?case by (simp add: start_balloon)
next
  case (cmd_restartGame s)
  then show ?case by (simp add: start_balloon restartGame_def)
next
  case (tick s)
  then obtain k :: nat where k: "k \<le> 2400" "yv (velocity (balloon s)) = - (80 + real k / 30)"
      "real k / 120 \<le> gameTime s"
    and acc: "acceleration (balloon s) = 4"
    and y: "yv (position (balloon s)) \<le> canvas_height s - 100"
    by blast
  define s' where "s' = updatePhysics physicsStep s"
  have abs: "\<bar>yv (velocity (balloon s))\<bar> = 80 + real k / 30"
    using k(2) by simp
  have "\<exists>k'::nat. k' \<le> 2400 \<and> yv (velocity (balloon s')) = - (80 + real k' / 30) \<and>
        real k' / 120 \<le> gameTime s'"
  proof (cases "80 + real k / 30 < min 160 (80 + 4 * (gameTime s + physicsStep))")
    case True
    then have "real k < 2400" by simp
    then have k1: "Suc k \<le> 2400" by simp
    have "yv (velocity (balloon s')) = - (80 + real (Suc k) / 30)"
      using True
      by (simp add: s'_def updatePhysics_balloon_vy acc abs k(2) physicsStep_def)
         (simp add: field_simps)
    moreover have "real (Suc k) / 120 \<le> gameTime s'"
      using k(3) by (simp add: s'_def physicsStep_def)
    ultimately show ?thesis using k1 by blast
  next
    case False
    then have "\<not> \<bar>yv (velocity (balloon s))\<bar> <
        min 160 (80 + acceleration (balloon s) * (gameTime s + physicsStep))"
      unfolding abs acc .
    then have "yv (velocity (balloon s')) = yv (velocity (balloon s))"
      unfolding s'_def updatePhysics_balloon_vy by (rule if_not_P)
    then have "yv (velocity (balloon s')) = - (80 + real k / 30)"
      by (simp add: k(2))
    moreover have "real k / 120 \<le> gameTime s'"
      using k(3) by (simp add: s'_def physicsStep_def)
    ultimately show ?thesis using k(1) by blast
  qed
  then obtain k' :: nat where k': "k' \<le> 2400" "yv (velocity (balloon s')) = - (80 + real k' / 30)"
      "real k' / 120 \<le> gameTime s'"
    by blast
  have "yv (position (balloon s')) =
      yv (position (balloon s)) + yv (velocity (balloon s')) * physicsStep"
    unfolding s'_def by (rule updatePhysics_balloon_y)
  moreover have "yv (velocity (balloon s')) * physicsStep \<le> 0"
    by (simp add: k'(2) physicsStep_def)
  ultimately have y': "yv (position (balloon s')) \<le> yv (position (balloon s))"
    by simp
  have sc: "score s' = max 0 ((canvas_height s - yv (position (balloon s'))) / 10)"
    unfolding s'_def by (rule updatePhysics_score)
  have "score s' \<le> (canvas_height s' - yv (position (balloon s'))) / 10"
    using y y' by (simp add: sc) (simp add: s'_def)
  moreover have "yv (position (balloon s')) \<le> canvas_height s' - 100"
    using y y' by (simp add: s'_def)
  moreover have "acceleration (balloon s') = 4"
    by (simp add: s'_def updatePhysics_balloon_acc acc)
  ultimately show ?case
    using k' unfolding s'_def by blast
qed simp_all

lemma engine0_start:
  "canvas_height (startGame engine0) = 1080"
  "canvas_width (startGame engine0) = 1920"
  "position (balloon (startGame engine0)) = \<lparr>xv = 960, yv = 980\<rparr>"
  "velocity (balloon (startGame engine0)) = \<lparr>xv = 0, yv = - 80\<rparr>"
  "acceleration (balloon (startGame engine0)) = 4"
  "position (shield (startGame engine0)) = \<lparr>xv = 960, yv = 930\<rparr>"
  "radius (shield (startGame engine0)) = 42"
  "worldMousePosition (startGame engine0) = \<lparr>xv = 0, yv = 0\<rparr>"
  "keys (startGame engine0) = {}"
  "sensitivity (settings (startGame engine0)) = 1"
  by (simp_all add: engine0_def startGame_def resetGame_def newGameEngine_def
      initializeGameObjects_def getShieldRadius_def Let_def
      BALLOON_ACCELERATION_def BALLOON_BASE_VELOCITY_def)

lemma engine0_fields:
  "canvas_height engine0 = 1080"
  "canvas_width engine0 = 1920"
  "acceleration (balloon engine0) = 4"
  "radius (shield engine0) = 42"
  "lerpFactor (shield engine0) = 0.28"
  by (simp_all add: engine0_def newGameEngine_def initializeGameObjects_def
      getShieldRadius_def Let_def BALLOON_ACCELERATION_def SHIELD_LERP_FACTOR_def)

lemma reachable_start0: "reachable (startGame engine0)"
  by (rule reachable.cmd_startGame) (rule reachable_engine0)

section \<open>The shield controller\<close>

text \<open>In the playing state the target is some point, clamped; the rest of the shield is kept.\<close>

lemma updateInput_playing:
  assumes "gameState s = Playing"
  shows "\<exists>tx ty. shield (updateInput dt s) = (shield s)\<lparr>targetPosition :=
      \<lparr>xv = max (radius (shield s)) (min (canvas_width s - radius (shield s)) tx),
       yv = max (radius (shield s) + cameraY s)
              (min (canvas_height s + cameraY s - radius (shield s)) ty)\<rparr>\<rparr>"
  using assms unfolding updateInput_def Let_def by (simp split del: if_split) blast

lemma updateInput_keyboard:
  assumes "gameState s = Playing" and "dt \<noteq> 0"
    and "(''KeyW'' \<in> keys s) \<noteq> (''KeyS'' \<in> keys s) \<or> (''KeyA'' \<in> keys s) \<noteq> (''KeyD'' \<in> keys s)"
  shows "targetPosition (shield (updateInput dt s)) =
      \<lparr>xv = max (radius (shield s)) (min (canvas_width s - radius (shield s))
              (xv (position (shield s)) +
                 ((if ''KeyD'' \<in> keys s then keyboardSpeed * dt else 0) -
                  (if ''KeyA'' \<in> keys s then keyboardSpeed * dt else 0)))),
       yv = max (radius (shield s) + cameraY s)
              (min (canvas_height s + cameraY s - radius (shield s))
              (yv (position (shield s)) +
                 ((if ''KeyS'' \<in> keys s then keyboardSpeed * dt else 0) -
                  (if ''KeyW'' \<in> keys s then keyboardSpeed * dt else 0))))\<rparr>"
  using assms by (auto simp: updateInput_def Let_def keyboardSpeed_def)

lemma updatePhysics_target:
  "targetPosition (shield (updatePhysics dt s)) =
     targetPosition (shield (updateInput dt (s\<lparr>gameTime := gameTime s + dt\<rparr>)))"
proof -
  obtain l where "shield (updatePhysics dt s) =
     (shield (updateShield dt (updateBalloon dt (updateInput dt (s\<lparr>gameTime := gameTime s + dt\<rparr>)))))\<lparr>lastHitTime := l\<rparr>"
    using updatePhysics_shield by blast
  then show ?thesis
    by (simp add: updateShield_def Let_def)
qed

lemma engineOpposingKeys_fields:
  "gameState (engineOpposingKeys mx my) = Playing"
  "keys (engineOpposingKeys mx my) = {''KeyW'', ''KeyS''}"
  "position (shield (engineOpposingKeys mx my)) = \<lparr>xv = 960, yv = 930\<rparr>"
  "radius (shield (engineOpposingKeys mx my)) = 42"
  "canvas_width (engineOpposingKeys mx my) = 1920"
  "canvas_height (engineOpposingKeys mx my) = 1080"
  "cameraY (engineOpposingKeys mx my) = 0"
  "worldMousePosition (engineOpposingKeys mx my) = \<lparr>xv = mx, yv = my\<rparr>"
  "sensitivity (settings (engineOpposingKeys mx my)) = 1"
  by (simp_all add: engineOpposingKeys_def keydown_def mousemove_def engine0_start
      start_balloon engine0_fields)

lemma reachable_engineOpposingKeys: "reachable (engineOpposingKeys mx my)"
  unfolding engineOpposingKeys_def
  by (intro reachable.ev_keydown reachable.ev_mousemove reachable_start0)

lemma updateInput_shield_kept:
  "position (shield (updateInput dt s)) = position (shield s)"
  "radius (shield (updateInput dt s)) = radius (shield s)"
  "lerpFactor (shield (updateInput dt s)) = lerpFactor (shield s)"
  by (cases "gameState s = Playing"; simp add: updateInput_def Let_def split del: if_split)+

lemma updateShield_shield:
  "radius (shield (updateShield dt s)) = radius (shield s)"
  "lerpFactor (shield (updateShield dt s)) = lerpFactor (shield s)"
  "targetPosition (shield (updateShield dt s)) = targetPosition (shield s)"
  "xv (position (shield (updateShield dt s))) =
     xv (position (shield s)) +
     (xv (targetPosition (shield s)) - xv (position (shield s))) * lerpFactor (shield s)"
  "yv (position (shield (updateShield dt s))) =
     yv (position (shield s)) +
     (yv (targetPosition (shield s)) - yv (position (shield s))) * lerpFactor (shield s)"
  by (simp_all add: updateShield_def Let_def)

text \<open>The shield after a tick, from the shield and the clamped target before it.\<close>

lemma updatePhysics_shield_step:
  "radius (shield (updatePhysics dt s)) = radius (shield s)"
  "lerpFactor (shield (updatePhysics dt s)) = lerpFactor (shield s)"
  "xv (position (shield (updatePhysics dt s))) =
     xv (position (shield s)) +
     (xv (targetPosition (shield (updatePhysics dt s))) - xv (position (shield s))) *
       lerpFactor (shield s)"
  "yv (position (shield (updatePhysics dt s))) =
     yv (position (shield s)) +
     (yv (targetPosition (shield (updatePhysics dt s))) - yv (position (shield s))) *
       lerpFactor (shield s)"
proof -
  define s2 where "s2 = updateBalloon dt (updateInput dt (s\<lparr>gameTime := gameTime s + dt\<rparr>))"
  obtain l where l: "shield (updatePhysics dt s) = (shield (updateShield dt s2))\<lparr>lastHitTime := l\<rparr>"
    unfolding s2_def using updatePhysics_shield by blast
  have sh: "position (shield s2) = position (shield s)" "radius (shield s2) = radius (shield s)"
    "lerpFactor (shield s2) = lerpFactor (shield s)"
    by (simp_all add: s2_def updateInput_shield_kept)
  show "radius (shield (updatePhysics dt s)) = radius (shield s)"
    "lerpFactor (shield (updatePhysics dt s)) = lerpFactor (shield s)"
    "xv (position (shield (updatePhysics dt s))) =
     xv (position (shield s)) +
     (xv (targetPosition (shield (updatePhysics dt s))) - xv (position (shield s))) *
       lerpFactor (shield s)"
    "yv (position (shield (updatePhysics dt s))) =
     yv (position (shield s)) +
     (yv (targetPosition (shield (updatePhysics dt s))) - yv (position (shield s))) *
       lerpFactor (shield s)"
    by (simp_all add: l updateShield_shield sh)
qed

lemma command_shield [simp]:
  "shield (pauseGame s) = shield s"
  "shield (resumeGame s) = shield s"
  "shield (toggleDebug s) = shield s"
  "shield (setSensitivity v s) = shield s"
  "shield (mousemove mx my s) = shield s"
  "shield (keydown code s) = shield s"
  "shield (keyup code s) = shield s"
  "lerpFactor (shield (setShieldSize sz s)) = lerpFactor (shield s)"
  "lerpFactor (shield (startGame s)) = lerpFactor (shield s)"
  "lerpFactor (shield (restartGame s)) = lerpFactor (shield s)"
  "lerpFactor (shield (newGameEngine w h rnd)) = 0.28"
  by (simp_all add: pauseGame_def resumeGame_def toggleDebug_def setSensitivity_def
      setShieldSize_def mousemove_def keydown_def keyup_def startGame_def restartGame_def
      resetGame_def newGameEngine_def initializeGameObjects_def Let_def SHIELD_LERP_FACTOR_def)

lemma reachable_lerpFactor: "reachable s \<Longrightarrow> lerpFactor (shield s) = 0.28"
  by (induction rule: reachable.induct) (simp_all add: updatePhysics_shield_step)

lemma command_cameraY [simp]:
  "cameraY (pauseGame s) = cameraY s"
  "cameraY (resumeGame s) = cameraY s"
  "cameraY (toggleDebug s) = cameraY s"
  "cameraY (setSensitivity v s) = cameraY s"
  "cameraY (setShieldSize sz s) = cameraY s"
  "cameraY (mousemove mx my s) = cameraY s"
  "cameraY (keydown code s) = cameraY s"
  "cameraY (keyup code s) = cameraY s"
  "cameraY (restartGame s) = 0"
  "cameraY (newGameEngine w h rnd) = 0"
  by (simp_all add: pauseGame_def resumeGame_def toggleDebug_def setSensitivity_def
      setShieldSize_def mousemove_def keydown_def keyup_def startGame_def restartGame_def
      resetGame_def newGameEngine_def initializeGameObjects_def Let_def)

lemma updatePhysics_camera_up: "cameraY (updatePhysics dt s) \<le> cameraY s"
  by (simp add: updatePhysics_cameraY updateCamera_def Let_def CAMERA_DEAD_ZONE_def)

text \<open>A point moved part of the way to a target in an interval stays in the interval.\<close>

lemma lerp_between:
  fixes p t f lo hi :: real
  assumes "0 \<le> f" and "f \<le> 1" and "lo \<le> p" and "p \<le> hi" and "lo \<le> t" and "t \<le> hi"
  shows "lo \<le> p + (t - p) * f" and "p + (t - p) * f \<le> hi"
proof -
  have e: "p + (t - p) * f = (1 - f) * p + f * t"
    by (simp add: algebra_simps)
  have "(1 - f) * lo + f * lo \<le> (1 - f) * p + f * t"
    using assms by (intro add_mono mult_left_mono) simp_all
  then show "lo \<le> p + (t - p) * f"
    unfolding e by (simp add: algebra_simps)
  have "(1 - f) * p + f * t \<le> (1 - f) * hi + f * hi"
    using assms by (intro add_mono mult_left_mono) simp_all
  then show "p + (t - p) * f \<le> hi"
    unfolding e by (simp add: algebra_simps)
qed

section \<open>The calm run\<close>

lemma unitRange_rnext: "unitRange rnd \<Longrightarrow> unitRange (rnext rnd)"
  by (simp add: unitRange_def rnext_def)

lemma circleVsAABB_right_of:
  assumes "0 \<le> r" and "0 \<le> aw" and "ax + aw + r < cx"
  shows "circleVsAABB cx cy r ax ay aw ah = None"
proof -
  have cl: "max ax (min cx (ax + aw)) = ax + aw"
    using assms by simp
  have "r < cx - (ax + aw)" using assms by simp
  then have "r * r < (cx - (ax + aw)) * (cx - (ax + aw))"
    using assms(1) by (intro mult_strict_mono) simp_all
  moreover have "0 \<le> (cy - max ay (min cy (ay + ah))) * (cy - max ay (min cy (ay + ah)))"
    by simp
  ultimately have "\<not> (cx - (ax + aw)) * (cx - (ax + aw)) +
      (cy - max ay (min cy (ay + ah))) * (cy - max ay (min cy (ay + ah))) \<le> r * r"
    by linarith
  then show ?thesis
    unfolding circleVsAABB_def Let_def cl by (simp only: if_False)
qed

lemma circleVsAABB_below:
  assumes "0 \<le> r" and "0 \<le> ah" and "ay + ah + r < cy"
  shows "circleVsAABB cx cy r ax ay aw ah = None"
proof -
  have cl: "max ay (min cy (ay + ah)) = ay + ah"
    using assms by simp
  have "r < cy - (ay + ah)" using assms by simp
  then have "r * r < (cy - (ay + ah)) * (cy - (ay + ah))"
    using assms(1) by (intro mult_strict_mono) simp_all
  moreover have "0 \<le> (cx - max ax (min cx (ax + aw))) * (cx - max ax (min cx (ax + aw)))"
    by simp
  ultimately have "\<not> (cx - max ax (min cx (ax + aw))) * (cx - max ax (min cx (ax + aw))) +
      (cy - (ay + ah)) * (cy - (ay + ah)) \<le> r * r"
    by linarith
  then show ?thesis
    unfolding circleVsAABB_def Let_def cl by (simp only: if_False)
qed

lemma calmBlock_y: "calmBlock ob \<Longrightarrow> yv (position ob) \<le> - 72"
proof -
  assume c: "calmBlock ob"
  then have "0 \<le> (197 / 360) * yv (velocity ob)"
    by (simp add: calmBlock_def)
  with c show ?thesis by (simp add: calmBlock_def)
qed

lemma calmBlock_misses_balloon:
  assumes "calmBlock ob" and "radius b = 22" and "945 \<le> xv (position b)"
  shows "checkCollision b ob = None"
  using assms
  by (simp add: checkCollision_def calmBlock_def circleVsAABB_right_of)

lemma calmBlock_misses_shield:
  assumes "calmBlock ob" and "radius sh = 42" and "930 \<le> yv (position sh)"
  shows "checkCollision sh ob = None"
  using assms calmBlock_y[OF assms(1)]
  by (simp add: checkCollision_def calmBlock_def circleVsAABB_below)

lemma shieldCollisions_none:
  "\<forall>ob \<in> set obs. checkCollision (shield s) ob = None \<Longrightarrow> shieldCollisions obs s = (obs, s)"
  by (induction obs) simp_all

lemma checkCollisions_calm:
  assumes "\<forall>ob \<in> set (obstacles s). calmBlock ob"
    and "radius (balloon s) = 22" and "945 \<le> xv (position (balloon s))"
    and "radius (shield s) = 42" and "930 \<le> yv (position (shield s))"
  shows "checkCollisions s = s"
proof -
  have b: "\<forall>ob \<in> set (obstacles s). checkCollision (balloon s) ob = None"
    using assms(1-3) by (simp add: calmBlock_misses_balloon)
  have sh: "\<forall>ob \<in> set (obstacles s). checkCollision (shield s) ob = None"
    using assms(1,4,5) by (simp add: calmBlock_misses_shield)
  show ?thesis
    using b by (simp add: checkCollisions_def list_ex_iff shieldCollisions_none[OF sh])
qed

text \<open>A block far above the shield only falls, ever more slowly.\<close>

lemma updateObstacle_calm:
  assumes "calmBlock ob" and "930 \<le> yv (position (shield s))"
    and "cameraY s = 0" and "canvas_height s = 1080"
  shows "calmBlock (updateObstacle (1 / 120) s ob)"
proof -
  define dx where "dx = xv (position (shield s)) - xv (position ob)"
  define dy where "dy = yv (position (shield s)) - yv (position ob)"
  have y: "yv (position ob) \<le> - 72" using assms(1) by (rule calmBlock_y)
  have "200 \<le> dy" using y assms(2) by (simp add: dy_def)
  then have "200 * 200 \<le> dy * dy"
    by (intro mult_mono) simp_all
  moreover have "0 \<le> dx * dx"
    by simp
  ultimately have "40000 \<le> dx * dx + dy * dy"
    by linarith
  then have "sqrt 40000 \<le> sqrt (dx * dx + dy * dy)"
    by (rule real_sqrt_le_mono)
  moreover have "sqrt 40000 = 200"
    using real_sqrt_abs[of 200] by simp
  ultimately have far: "\<not> sqrt (dx * dx + dy * dy) < 200"
    by simp
  have a: "type ob = ''block''" "lifeTime ob = None" "xv (velocity ob) = 0" "0 \<le> yv (velocity ob)"
    "xv (position ob) \<le> 750" "width ob = Some 40" "height ob = Some 40"
    "yv (position ob) + (197 / 360) * yv (velocity ob) \<le> - 72"
    using assms(1) by (simp_all add: calmBlock_def)
  have low: "\<not> 1280 < yv (position ob) + yv (velocity ob) * (197 / 200) / 120"
    using a(4,8) by simp
  show ?thesis
    unfolding updateObstacle_def Let_def dx_def[symmetric] dy_def[symmetric]
    using far low a assms(3,4)
    by (simp add: calmBlock_def split: option.splits)
qed


lemma blockRainX_range:
  "unitRange rnd \<Longrightarrow>
     fst (blockRainX attempts lo hi rnd) \<le> 750 \<and> unitRange (snd (blockRainX attempts lo hi rnd))"
proof (induction attempts lo hi rnd rule: blockRainX.induct)
  case (1 attempts lo hi rnd)
  have r: "0 \<le> rnd 0" "rnd 0 < 1"
    using "1.prems" by (simp_all add: unitRange_def)
  show ?case
  proof (cases "attempts + 1 < 10 \<and> rnd 0 * (800 - 100) + 50 > lo \<and> rnd 0 * (800 - 100) + 50 < hi")
    case True
    then have "blockRainX attempts lo hi rnd = blockRainX (attempts + 1) lo hi (rnext rnd)"
      by (subst blockRainX.simps) simp
    then show ?thesis
      using "1.IH"[OF True unitRange_rnext[OF "1.prems"]] by simp
  next
    case False
    then have "blockRainX attempts lo hi rnd = (rnd 0 * (800 - 100) + 50, rnext rnd)"
      by (subst blockRainX.simps) auto
    then show ?thesis
      using r unitRange_rnext[OF "1.prems"] by simp
  qed
qed

lemma blockRainLoop_calm:
  assumes "spawnY params = - 100"
  shows "unitRange rnd \<Longrightarrow>
     (\<forall>ob \<in> set (fst (blockRainLoop n params rnd)). calmBlock ob) \<and>
     unitRange (snd (blockRainLoop n params rnd))"
proof (induction n arbitrary: rnd)
  case 0
  then show ?case by simp
next
  case (Suc n)
  define lo where "lo = centerX params - (shieldRadius params * 2.4 + 20) / 2 - 40"
  define hi where "hi = centerX params - (shieldRadius params * 2.4 + 20) / 2 +
      (shieldRadius params * 2.4 + 20) + 40"
  define x where "x = fst (blockRainX 0 lo hi rnd)"
  define rnd1 where "rnd1 = snd (blockRainX 0 lo hi rnd)"
  have x: "x \<le> 750" and u1: "unitRange rnd1"
    using blockRainX_range[OF Suc.prems, of 0 lo hi] by (simp_all add: x_def rnd1_def)
  have r: "0 \<le> rnd1 0" "rnd1 0 < 1" "0 \<le> rnext rnd1 0" "rnext rnd1 0 < 1"
    using u1 unitRange_rnext[OF u1] by (simp_all add: unitRange_def)
  have u2: "unitRange (rnext (rnext rnd1))"
    using u1 by (intro unitRange_rnext)
  define ob where "ob = (obstacleLiteral ''block''
                 \<lparr>xv = x, yv = spawnY params - rnd1 0 * 100\<rparr>
                 \<lparr>xv = 0, yv = rnext rnd1 0 * 30 + 20\<rparr> 20)
               \<lparr>width := Some 40, height := Some 40\<rparr>"
  have c: "calmBlock ob"
    using x r assms by (simp add: ob_def calmBlock_def obstacleLiteral_def) argo
  have "blockRainLoop (Suc n) params rnd =
      (ob # fst (blockRainLoop n params (rnext (rnext rnd1))),
       snd (blockRainLoop n params (rnext (rnext rnd1))))"
    unfolding blockRainLoop.simps Let_def split_beta lo_def hi_def x_def rnd1_def ob_def
    by (rule refl)
  then show ?case
    using c Suc.IH[OF u2] by simp
qed

lemma availableLow:
  "filter (\<lambda>p. minAltitude p \<le> \<bar>- 100\<bar> / 10) initializePatterns =
     [\<lparr>name = ''blockRain'', weight = 3, minAltitude = 0, spawn = spawnBlockRain\<rparr>]"
  by (simp add: initializePatterns_def)

lemma spawnPattern_low:
  assumes "patterns ps = initializePatterns" and "spawnY params = - 100"
  shows "spawnPattern params ps rnd =
     executePattern \<lparr>name = ''blockRain'', weight = 3, minAltitude = 0, spawn = spawnBlockRain\<rparr>
       params ps (rnext rnd)"
proof -
  define p where "p = \<lparr>name = ''blockRain'', weight = 3, minAltitude = 0, spawn = spawnBlockRain\<rparr>"
  have "\<exists>q \<in> set [p]. selectWeightedPattern [p] rnd = (Some q, rnext rnd)"
    by (rule selectWeightedPattern_nonempty) simp
  then have sel: "selectWeightedPattern [p] rnd = (Some p, rnext rnd)"
    by simp
  show ?thesis
    unfolding spawnPattern_def Let_def assms availableLow p_def[symmetric]
    by (simp add: sel)
qed

lemma update_calm:
  assumes "patterns ps = initializePatterns" and "spawnY params = - 100" and "unitRange rnd"
  shows "(\<forall>ob \<in> set (fst (update dt params ps rnd)). calmBlock ob) \<and>
     patterns (fst (snd (update dt params ps rnd))) = initializePatterns \<and>
     unitRange (snd (snd (update dt params ps rnd)))"
proof (cases "spawnTimer ps - dt \<le> 0")
  case False
  then show ?thesis
    using assms by (simp add: update_def Let_def)
next
  case True
  define ps3 where "ps3 = ps\<lparr>spawnTimer := spawnTimer ps - dt,
      spawnCooldown := max 0.55 (1.2 - difficulty params * 0.65),
      spawnTimer := max 0.55 (1.2 - difficulty params * 0.65)\<rparr>"
  have p3: "patterns ps3 = initializePatterns"
    using assms(1) by (simp add: ps3_def)
  have u: "update dt params ps rnd = spawnPattern params ps3 rnd"
    using True by (simp add: update_def Let_def ps3_def)
  have loop: "(\<forall>ob \<in> set (fst (spawnBlockRain params (rnext rnd))). calmBlock ob) \<and>
     unitRange (snd (spawnBlockRain params (rnext rnd)))"
    unfolding spawnBlockRain_def Let_def
    using blockRainLoop_calm[OF assms(2) unitRange_rnext[OF assms(3)]] by blast
  show ?thesis
    unfolding u spawnPattern_low[OF p3 assms(2)]
    using loop p3 by (simp add: executePattern_def Let_def split_beta)
qed


lemma updateInput_pointer:
  assumes "gameState s = Playing" and "keys s = {}"
  shows "targetPosition (shield (updateInput dt s)) =
     \<lparr>xv = max (radius (shield s)) (min (canvas_width s - radius (shield s))
             (xv (worldMousePosition s) * sensitivity (settings s))),
      yv = max (radius (shield s) + cameraY s)
             (min (canvas_height s + cameraY s - radius (shield s))
             (yv (worldMousePosition s) * sensitivity (settings s)))\<rparr>"
  using assms by (simp add: updateInput_def Let_def)

lemma updateBalloon_x:
  "canvas_width s / 2 - 15 \<le> xv (position (balloon (updateBalloon dt s)))"
  "radius (balloon (updateBalloon dt s)) = radius (balloon s)"
proof -
  define a where "a = driftOffset (balloon s) + dt * 0.5"
  have "- 1 \<le> sin a" "- 1 \<le> sin (a * 2.3)"
    by simp_all
  then have "- 15 \<le> sin a * 10 + sin (a * 2.3) * 5"
    by linarith
  then show "canvas_width s / 2 - 15 \<le> xv (position (balloon (updateBalloon dt s)))"
    unfolding updateBalloon_def Let_def a_def by simp
  show "radius (balloon (updateBalloon dt s)) = radius (balloon s)"
    by (simp add: updateBalloon_def Let_def)
qed


text \<open>One tick of the calm run: everything but the camera, and what the camera does.\<close>

lemma calmRun_tick:
  assumes "calmRun k s" and "k < 2400"
  defines "s' \<equiv> updatePhysics physicsStep s"
  defines "y' \<equiv> 980 - (4801 * real (Suc k) + (real (Suc k))\<^sup>2) / 7200"
  shows "calmRun (Suc k) (s'\<lparr>cameraY := 0\<rparr>)"
    and "cameraY s' = (if y' < 680 then y' - 680 else cameraY s)"
proof -
  have c: "gameState s = Playing" "canvas_width s = 1920" "canvas_height s = 1080"
     "cameraY s = 0" "keys s = {}" "worldMousePosition s = \<lparr>xv = 960, yv = 1038\<rparr>"
     "sensitivity (settings s) = 1"
     "radius (shield s) = 42" "lerpFactor (shield s) = 7 / 25"
     "yv (position (shield s)) = 1038 - 108 * (18 / 25) ^ k"
     "radius (balloon s) = 22" "acceleration (balloon s) = 4"
     "945 \<le> xv (position (balloon s))"
     "yv (velocity (balloon s)) = - (80 + real k / 30)"
     "yv (position (balloon s)) = 980 - (4801 * real k + (real k)\<^sup>2) / 7200"
     "gameTime s = real k / 120"
     "patterns (patternSystem s) = initializePatterns" "unitRange (random s)"
     "\<forall>ob \<in> set (obstacles s). calmBlock ob"
    using assms(1) unfolding calmRun_def by blast+
  define s1 where "s1 = s\<lparr>gameTime := gameTime s + physicsStep\<rparr>"
  define s2 where "s2 = updateInput physicsStep s1"
  define s3 where "s3 = updateBalloon physicsStep s2"
  define s4 where "s4 = updateShield physicsStep s3"
  define s5 where "s5 = updateObstacles physicsStep s4"
  define s6 where "s6 = updateSpawning physicsStep s5"
  define s7 where "s7 = updateCamera s6"
  \<comment> \<open>the target\<close>
  have p1: "gameState s1 = Playing" "keys s1 = {}"
    using c by (simp_all add: s1_def)
  have t2: "targetPosition (shield s2) = \<lparr>xv = 960, yv = 1038\<rparr>"
    unfolding s2_def updateInput_pointer[OF p1] by (simp add: s1_def c)
  have sh2: "position (shield s2) = position (shield s)" "radius (shield s2) = 42"
    "lerpFactor (shield s2) = 7 / 25"
    by (simp_all add: s2_def updateInput_shield_kept s1_def c)
  \<comment> \<open>the balloon\<close>
  have k1: "\<bar>yv (velocity (balloon s))\<bar> < min 160 (80 + acceleration (balloon s) * (gameTime s + physicsStep))"
    using assms(2) by (simp add: c(12,14,16) physicsStep_def)
  have vy3: "yv (velocity (balloon s3)) = - (80 + real (Suc k) / 30)"
    using k1 by (simp add: s3_def s2_def s1_def updateBalloon_balloon c)
       (simp add: physicsStep_def field_simps)
  have "yv (position (balloon s3)) =
      yv (position (balloon s2)) + yv (velocity (balloon s3)) * physicsStep"
    unfolding s3_def by (rule updateBalloon_balloon(3))
  then have y3: "yv (position (balloon s3)) = y'"
    unfolding vy3
    by (simp add: s2_def s1_def c y'_def physicsStep_def power2_eq_square field_simps)
  have b3: "radius (balloon s3) = 22" "acceleration (balloon s3) = 4"
    "945 \<le> xv (position (balloon s3))"
    using updateBalloon_x(1)[where s = s2 and dt = physicsStep]
    by (simp_all add: s3_def s2_def s1_def updateBalloon_balloon updateBalloon_x(2) c)
  \<comment> \<open>the shield\<close>
  have sh4: "radius (shield s4) = 42" "lerpFactor (shield s4) = 7 / 25"
    "yv (position (shield s4)) = 1038 - 108 * (18 / 25) ^ Suc k"
    by (simp_all add: s4_def s3_def updateShield_shield sh2 t2 c field_simps)
  have "(18 / 25 :: real) ^ Suc k \<le> 1"
    by (rule power_le_one) simp_all
  then have y4: "930 \<le> yv (position (shield s4))"
    unfolding sh4 by simp
  \<comment> \<open>the obstacles\<close>
  have e4: "cameraY s4 = 0" "canvas_height s4 = 1080" "canvas_width s4 = 1920"
    "obstacles s4 = obstacles s" "patternSystem s4 = patternSystem s" "random s4 = random s"
    "gameState s4 = Playing"
    by (simp_all add: s4_def s3_def s2_def s1_def c)
  have o5: "\<forall>ob \<in> set (obstacles s5). calmBlock ob"
    using c(19) updateObstacle_calm[OF _ y4 e4(1,2)]
    by (simp add: s5_def updateObstacles_def e4 physicsStep_def)
  have sp: "(\<forall>ob \<in> set (fst (update physicsStep
        \<lparr>centerX = canvas_width s5 / 2, spawnY = cameraY s5 - 100,
         balloonVelocity = \<bar>yv (velocity (balloon s5))\<bar>, shieldRadius = radius (shield s5),
         difficulty = min 1 (gameTime s5 / 180)\<rparr> (patternSystem s5) (random s5))). calmBlock ob) \<and>
     patterns (fst (snd (update physicsStep
        \<lparr>centerX = canvas_width s5 / 2, spawnY = cameraY s5 - 100,
         balloonVelocity = \<bar>yv (velocity (balloon s5))\<bar>, shieldRadius = radius (shield s5),
         difficulty = min 1 (gameTime s5 / 180)\<rparr> (patternSystem s5) (random s5)))) = initializePatterns \<and>
     unitRange (snd (snd (update physicsStep
        \<lparr>centerX = canvas_width s5 / 2, spawnY = cameraY s5 - 100,
         balloonVelocity = \<bar>yv (velocity (balloon s5))\<bar>, shieldRadius = radius (shield s5),
         difficulty = min 1 (gameTime s5 / 180)\<rparr> (patternSystem s5) (random s5))))"
    by (rule update_calm) (simp_all add: s5_def updateObstacles_def e4 c)
  have o6: "\<forall>ob \<in> set (obstacles s6). calmBlock ob"
    "patterns (patternSystem s6) = initializePatterns" "unitRange (random s6)"
    using sp o5 unfolding s6_def updateSpawning_def Let_def split_beta by auto
  \<comment> \<open>the camera and the collision checks\<close>
  have e7: "obstacles s7 = obstacles s6" "balloon s7 = balloon s3" "shield s7 = shield s4"
    "gameState s7 = Playing" "canvas_height s7 = 1080" "canvas_width s7 = 1920"
    "keys s7 = {}" "worldMousePosition s7 = \<lparr>xv = 960, yv = 1038\<rparr>"
    "settings s7 = settings s" "gameTime s7 = real (Suc k) / 120"
    "patternSystem s7 = patternSystem s6" "random s7 = random s6"
    by (simp_all add: s7_def s6_def s5_def s4_def s3_def s2_def s1_def physicsStep_def c
        field_simps)
  have cam7: "cameraY s7 = (if y' < 680 then y' - 680 else cameraY s)"
  proof -
    have "cameraY s6 = 0" "canvas_height s6 = 1080" "balloon s6 = balloon s3"
      by (simp_all add: s6_def s5_def s4_def s3_def s2_def s1_def c)
    then show ?thesis
      using y3 by (simp add: s7_def updateCamera_def Let_def CAMERA_DEAD_ZONE_def c(4))
  qed
  have cc: "checkCollisions s7 = s7"
    by (rule checkCollisions_calm) (simp_all add: e7 o6 b3 sh4(1) y4)
  have s': "s' = s7\<lparr>score := max 0 ((canvas_height s7 - yv (position (balloon s7))) / 10),
      notifications := notifications s7 @
        [ScoreChange (max 0 ((canvas_height s7 - yv (position (balloon s7))) / 10))],
      obstacles := filter active (obstacles s7)\<rparr>"
    unfolding s'_def updatePhysics_def Let_def s1_def[symmetric] s2_def[symmetric]
      s3_def[symmetric] s4_def[symmetric] s5_def[symmetric] s6_def[symmetric]
      s7_def[symmetric] cc by simp
  show "cameraY s' = (if y' < 680 then y' - 680 else cameraY s)"
    unfolding s' using cam7 by simp
  show "calmRun (Suc k) (s'\<lparr>cameraY := 0\<rparr>)"
    unfolding calmRun_def s'
    using e7 o6 b3 sh4 vy3 y3 c(7) by (simp add: y'_def)
qed


lemma ticks_Suc: "ticks (Suc n) s = updatePhysics physicsStep (ticks n s)"
  by (simp add: ticks_def)

lemma calmRun_start: "calmRun 0 enginePointerLow"
  unfolding calmRun_def
  by (simp add: enginePointerLow_def mousemove_def start_balloon engine0_start engine0_fields)
     (simp add: engine0_def startGame_def resetGame_def newGameEngine_def
        initializeGameObjects_def reset_def newPatternSystem_def Let_def unitRange_def)

lemma reachable_enginePointerLow: "reachable enginePointerLow"
  unfolding enginePointerLow_def by (intro reachable.ev_mousemove reachable_start0)

lemma calmRun_prefix:
  "k \<le> 414 \<Longrightarrow> calmRun k (ticks k enginePointerLow) \<and> reachable (ticks k enginePointerLow)"
proof (induction k)
  case 0
  show ?case
    using calmRun_start reachable_enginePointerLow by (simp add: ticks_def)
next
  case (Suc k)
  define s where "s = ticks k enginePointerLow"
  define s' where "s' = updatePhysics physicsStep s"
  have c: "calmRun k s" and r: "reachable s"
    using Suc by (simp_all add: s_def)
  have k: "k < 2400" using Suc.prems by simp
  define m where "m = real (Suc k)"
  have m: "m \<le> 414" "0 \<le> m"
    using Suc.prems by (simp_all add: m_def)
  then have "m * m \<le> 414 * 414"
    by (intro mult_mono) simp_all
  then have "4801 * m + m\<^sup>2 \<le> 2160000"
    using m(1) unfolding power2_eq_square by simp
  then have high: "\<not> 980 - (4801 * real (Suc k) + (real (Suc k))\<^sup>2) / 7200 < 680"
    unfolding m_def by simp
  have "cameraY s = 0" using c by (simp add: calmRun_def)
  then have "cameraY s' = 0"
    unfolding s'_def calmRun_tick(2)[OF c k] using high by simp
  then have "s'\<lparr>cameraY := 0\<rparr> = s'" by simp
  then have "calmRun (Suc k) s'"
    using calmRun_tick(1)[OF c k] by (simp add: s'_def)
  moreover have "reachable s'"
    unfolding s'_def using r c by (intro reachable.tick) (simp_all add: calmRun_def)
  ultimately show ?case
    by (simp add: ticks_Suc s_def s'_def)
qed

lemma shield_lag_small: "108 * (18 / 25 :: real) ^ 415 < 29 / 45"
proof -
  have "(18 / 25 :: real) ^ 415 \<le> (18 / 25) ^ 16"
    by (rule power_decreasing) simp_all
  moreover have "108 * (18 / 25 :: real) ^ 16 < 29 / 45"
    by (simp add: power_divide)
  ultimately show ?thesis by linarith
qed

section \<open>The frame loop stays within the reachable states\<close>

lemma accumulator_updatePhysics: "accumulator (updatePhysics dt s) = accumulator s"
  by simp

lemma reachable_physicsLoop: "reachable s \<Longrightarrow> reachable (physicsLoop s)"
proof (induction s rule: physicsLoop.induct)
  case (1 s)
  show ?case
  proof (cases "accumulator s \<ge> physicsStep")
    case False
    then have "physicsLoop s = s"
      by (subst physicsLoop.simps) simp
    then show ?thesis using "1.prems" by simp
  next
    case True
    define s1 where "s1 = (if gameState s = Playing then updatePhysics physicsStep s else s)"
    have "reachable s1"
      unfolding s1_def using "1.prems" by (simp add: reachable.tick)
    then have "reachable (s1\<lparr>lastTime := lastTime s1, accumulator := accumulator s - physicsStep\<rparr>)"
      by (rule reachable.clock)
    then have r: "reachable (s1\<lparr>accumulator := accumulator s - physicsStep\<rparr>)"
      by simp
    have "physicsLoop s = physicsLoop (s1\<lparr>accumulator := accumulator s - physicsStep\<rparr>)"
      using True by (subst physicsLoop.simps) (simp add: s1_def)
    then show ?thesis
      using "1.IH"[OF True r[unfolded s1_def]] by (simp add: s1_def)
  qed
qed

text \<open>
  A frame of the game loop, and starting the loop, lead from reachable states to reachable
  states.
\<close>

lemma reachable_gameLoop: "reachable s \<Longrightarrow> reachable (gameLoop currentTime s)"
  unfolding gameLoop_def Let_def
  by (intro reachable_physicsLoop reachable.clock)

lemma reachable_start: "reachable s \<Longrightarrow> reachable (start now currentTime s)"
proof -
  assume "reachable s"
  then have "reachable (s\<lparr>lastTime := now, accumulator := accumulator s\<rparr>)"
    by (rule reachable.clock)
  then have "reachable (s\<lparr>lastTime := now\<rparr>)" by simp
  then show ?thesis
    unfolding start_def by (rule reachable_gameLoop)
qed

section \<open>A tick that ends the run\<close>






section \<open>The S key pressed at the lower edge\<close>

lemma engineKeyAtEdge_fields:
  "reachable engineKeyAtEdge"
  "gameState engineKeyAtEdge = Playing"
  "keys engineKeyAtEdge = {''KeyS''}"
  "yv (position (shield engineKeyAtEdge)) = 1038 - 108 * (18 / 25) ^ 16"
  "radius (shield engineKeyAtEdge) = 42"
  "canvas_height engineKeyAtEdge = 1080"
  "cameraY engineKeyAtEdge = 0"
proof -
  have c: "calmRun 16 (ticks 16 enginePointerLow)" and r: "reachable (ticks 16 enginePointerLow)"
    using calmRun_prefix[of 16] by simp_all
  show "reachable engineKeyAtEdge"
    unfolding engineKeyAtEdge_def using r by (rule reachable.ev_keydown)
  show "gameState engineKeyAtEdge = Playing"
    "keys engineKeyAtEdge = {''KeyS''}"
    "yv (position (shield engineKeyAtEdge)) = 1038 - 108 * (18 / 25) ^ 16"
    "radius (shield engineKeyAtEdge) = 42"
    "canvas_height engineKeyAtEdge = 1080"
    "cameraY engineKeyAtEdge = 0"
    using c by (simp_all add: engineKeyAtEdge_def keydown_def calmRun_def)
qed

lemma engineKeyAtEdge_target:
  "yv (targetPosition (shield (updatePhysics physicsStep
      (engineKeyAtEdge\<lparr>mousePosition := p, worldMousePosition := q\<rparr>)))) = 1038"
proof -
  define s where "s = engineKeyAtEdge\<lparr>mousePosition := p, worldMousePosition := q,
      gameTime := gameTime engineKeyAtEdge + physicsStep\<rparr>"
  have f: "gameState s = Playing" "physicsStep \<noteq> 0"
    "(''KeyW'' \<in> keys s) \<noteq> (''KeyS'' \<in> keys s) \<or> (''KeyA'' \<in> keys s) \<noteq> (''KeyD'' \<in> keys s)"
    by (simp_all add: s_def engineKeyAtEdge_fields physicsStep_def)
  have "108 * (18 / 25 :: real) ^ 16 < 5 / 2"
    by (simp add: power_divide)
  then have "1038 \<le> yv (position (shield engineKeyAtEdge)) + keyboardSpeed * physicsStep"
    by (simp add: engineKeyAtEdge_fields keyboardSpeed_def physicsStep_def)
  then have "yv (targetPosition (shield (updateInput physicsStep s))) = 1038"
    unfolding updateInput_keyboard[OF f]
    by (simp add: s_def engineKeyAtEdge_fields)
  then show ?thesis
    by (simp add: updatePhysics_target s_def)
qed

section \<open>The shield during a run\<close>

lemma inRun_reachable: "inRun s \<Longrightarrow> reachable s"
  by (induction rule: inRun.induct) (auto intro: reachable.intros)

lemma reachable_radius: "reachable s \<Longrightarrow> radius (shield s) = getShieldRadius (settings s)"
proof (induction rule: reachable.induct)
  case (tick s)
  then show ?case by (simp add: updatePhysics_shield_step)
qed (simp_all add: newGameEngine_def initializeGameObjects_def startGame_def restartGame_def
      resetGame_def setShieldSize_def toggleDebug_def setSensitivity_def getShieldRadius_def
      pauseGame_def resumeGame_def mousemove_def keydown_def keyup_def Let_def)

lemma getShieldRadius_range: "36 \<le> getShieldRadius st" "getShieldRadius st \<le> 48"
  by (simp_all add: getShieldRadius_def split: ShieldSize.splits)

text \<open>The camera is never below the line that the balloon drags it along.\<close>

lemma reachable_camera:
  "reachable s \<Longrightarrow> cameraY s \<le> yv (position (balloon s)) - canvas_height s + 400"
proof (induction rule: reachable.induct)
  case (tick s)
  show ?case
    by (simp add: updatePhysics_cameraY updatePhysics_balloon updateCamera_def Let_def
        CAMERA_DEAD_ZONE_def)
qed (simp_all add: new_balloon start_balloon restartGame_def)

text \<open>
  In one tick the camera rises by no more than the balloon climbs, which is less than 7 / 5
  units.
\<close>

lemma updatePhysics_camera_step:
  assumes "reachable s" and "gameState s = Playing"
  shows "cameraY s - 7 / 5 \<le> cameraY (updatePhysics physicsStep s)"
proof -
  define s' where "s' = updatePhysics physicsStep s"
  have r': "reachable s'"
    unfolding s'_def using assms by (rule reachable.tick)
  obtain k :: nat where k: "k \<le> 2400" "yv (velocity (balloon s')) = - (80 + real k / 30)"
    using reachable_ascent[OF r'] by blast
  have "real k / 30 \<le> 80" using k(1) by simp
  then have v: "- (7 / 5) \<le> yv (velocity (balloon s')) * physicsStep"
    by (simp add: k(2) physicsStep_def)
  have y: "yv (position (balloon s')) =
      yv (position (balloon s)) + yv (velocity (balloon s')) * physicsStep"
    unfolding s'_def by (rule updatePhysics_balloon_y)
  have c: "cameraY s \<le> yv (position (balloon s)) - canvas_height s + 400"
    using assms(1) by (rule reachable_camera)
  have "cameraY s' = (if yv (position (balloon s')) - canvas_height s + 300 < cameraY s - 100
       then yv (position (balloon s')) - canvas_height s + 300 + 100 else cameraY s)"
    by (simp add: s'_def updatePhysics_cameraY updatePhysics_balloon updateCamera_def Let_def
        CAMERA_DEAD_ZONE_def)
  then show ?thesis
    unfolding s'_def[symmetric] using v y c by (simp split: if_splits)
qed

text \<open>The target of a tick lies in the band of the camera offset at the start of the tick.\<close>

lemma updatePhysics_target_clamped:
  assumes "gameState s = Playing"
    and "2 * radius (shield s) \<le> canvas_width s"
    and "2 * radius (shield s) \<le> canvas_height s"
  shows "radius (shield s) \<le> xv (targetPosition (shield (updatePhysics dt s)))"
    and "xv (targetPosition (shield (updatePhysics dt s))) \<le> canvas_width s - radius (shield s)"
    and "cameraY s + radius (shield s) \<le> yv (targetPosition (shield (updatePhysics dt s)))"
    and "yv (targetPosition (shield (updatePhysics dt s))) \<le>
           cameraY s + canvas_height s - radius (shield s)"
proof -
  define s1 where "s1 = s\<lparr>gameTime := gameTime s + dt\<rparr>"
  have p1: "gameState s1 = Playing" using assms(1) by (simp add: s1_def)
  obtain tx ty where "shield (updateInput dt s1) = (shield s1)\<lparr>targetPosition :=
      \<lparr>xv = max (radius (shield s1)) (min (canvas_width s1 - radius (shield s1)) tx),
       yv = max (radius (shield s1) + cameraY s1)
              (min (canvas_height s1 + cameraY s1 - radius (shield s1)) ty)\<rparr>\<rparr>"
    using updateInput_playing[OF p1] by blast
  then have t: "targetPosition (shield (updatePhysics dt s)) =
      \<lparr>xv = max (radius (shield s)) (min (canvas_width s - radius (shield s)) tx),
       yv = max (radius (shield s) + cameraY s)
              (min (canvas_height s + cameraY s - radius (shield s)) ty)\<rparr>"
    unfolding updatePhysics_target s1_def[symmetric] by (simp add: s1_def)
  show "radius (shield s) \<le> xv (targetPosition (shield (updatePhysics dt s)))"
    "xv (targetPosition (shield (updatePhysics dt s))) \<le> canvas_width s - radius (shield s)"
    using assms(2) unfolding t by simp_all
  show "cameraY s + radius (shield s) \<le> yv (targetPosition (shield (updatePhysics dt s)))"
    "yv (targetPosition (shield (updatePhysics dt s))) \<le>
           cameraY s + canvas_height s - radius (shield s)"
    using assms(3) unfolding t by simp_all
qed

lemma start_shield:
  "position (shield (startGame s)) = \<lparr>xv = canvas_width s / 2, yv = canvas_height s - 150\<rparr>"
  "radius (shield (startGame s)) = radius (shield s)"
  by (simp_all add: startGame_def resetGame_def Let_def)

text \<open>
  The invariant of a run: the shield is inside the band horizontally, not above its upper
  edge, and at most 5 units below its lower edge.  A tick takes the shield 7 / 25 of the
  way to a target inside the band of the old camera offset, which leaves it at most
  18 / 5 below the old lower edge, and the camera offset drops by at most 7 / 5.
\<close>

lemma inRun_shield_band:
  "inRun s \<Longrightarrow> 2 * radius (shield s) \<le> canvas_width s \<Longrightarrow>
     radius (shield s) + 150 \<le> canvas_height s \<Longrightarrow>
     radius (shield s) \<le> xv (position (shield s)) \<and>
     xv (position (shield s)) \<le> canvas_width s - radius (shield s) \<and>
     cameraY s + radius (shield s) \<le> yv (position (shield s)) \<and>
     yv (position (shield s)) \<le> cameraY s + canvas_height s - radius (shield s) + 5"
proof (induction rule: inRun.induct)
  case (run_startGame s)
  have "radius (shield s) \<le> 48"
    using reachable_radius[OF run_startGame.hyps] getShieldRadius_range(2)[of "settings s"]
    by simp
  then show ?case
    using run_startGame.prems by (simp add: start_shield start_balloon)
next
  case (run_tick s)
  define s' where "s' = updatePhysics physicsStep s"
  define r where "r = radius (shield s)"
  have rs: "reachable s" using run_tick.hyps(1) by (rule inRun_reachable)
  have e: "radius (shield s') = r" "canvas_width s' = canvas_width s"
    "canvas_height s' = canvas_height s"
    by (simp_all add: s'_def r_def updatePhysics_shield_step)
  have w: "2 * r \<le> canvas_width s" and h: "r + 150 \<le> canvas_height s"
    using run_tick.prems unfolding s'_def[symmetric] e by simp_all
  have "r \<le> 48"
    using reachable_radius[OF rs] getShieldRadius_range(2)[of "settings s"] by (simp add: r_def)
  then have h2: "2 * r \<le> canvas_height s" using h by simp
  have b: "r \<le> xv (position (shield s))" "xv (position (shield s)) \<le> canvas_width s - r"
    "cameraY s + r \<le> yv (position (shield s))"
    "yv (position (shield s)) \<le> cameraY s + canvas_height s - r + 5"
    using run_tick.IH w h unfolding r_def by simp_all
  have f: "lerpFactor (shield s) = 7 / 25"
    using reachable_lerpFactor[OF rs] by simp
  have t: "r \<le> xv (targetPosition (shield s'))"
    "xv (targetPosition (shield s')) \<le> canvas_width s - r"
    "cameraY s + r \<le> yv (targetPosition (shield s'))"
    "yv (targetPosition (shield s')) \<le> cameraY s + canvas_height s - r"
    unfolding s'_def r_def
    using updatePhysics_target_clamped[OF run_tick.hyps(2), of physicsStep] w h2
    unfolding r_def by simp_all
  have x': "xv (position (shield s')) = xv (position (shield s)) +
      (xv (targetPosition (shield s')) - xv (position (shield s))) * (7 / 25)"
    and y': "yv (position (shield s')) = yv (position (shield s)) +
      (yv (targetPosition (shield s')) - yv (position (shield s))) * (7 / 25)"
    unfolding s'_def by (simp_all add: updatePhysics_shield_step f)
  have px: "r \<le> xv (position (shield s'))" "xv (position (shield s')) \<le> canvas_width s - r"
    unfolding x'
    using lerp_between[of "7 / 25" r "xv (position (shield s))" "canvas_width s - r"
        "xv (targetPosition (shield s'))"] b(1,2) t(1,2)
    by simp_all
  have up: "cameraY s' \<le> cameraY s"
    unfolding s'_def by (rule updatePhysics_camera_up)
  have down: "cameraY s - 7 / 5 \<le> cameraY s'"
    unfolding s'_def using rs run_tick.hyps(2) by (rule updatePhysics_camera_step)
  have "cameraY s + r \<le> yv (position (shield s'))"
    unfolding y'
    using lerp_between(1)[of "7 / 25" "cameraY s + r" "yv (position (shield s))"
        "cameraY s + canvas_height s - r + 5" "yv (targetPosition (shield s'))"] b(3,4) t(3,4)
    by simp
  then have py1: "cameraY s' + r \<le> yv (position (shield s'))"
    using up by simp
  have "yv (position (shield s')) =
      (18 / 25) * yv (position (shield s)) + (7 / 25) * yv (targetPosition (shield s'))"
    unfolding y' by argo
  also have "\<dots> \<le> (18 / 25) * (cameraY s + canvas_height s - r + 5) +
      (7 / 25) * (cameraY s + canvas_height s - r)"
    using b(4) t(4) by (intro add_mono mult_left_mono) simp_all
  also have "\<dots> = cameraY s + canvas_height s - r + 18 / 5"
    by argo
  finally have py2: "yv (position (shield s')) \<le> cameraY s' + canvas_height s - r + 5"
    using down by simp
  show ?case
    unfolding s'_def[symmetric] e using px py1 py2 by simp
qed simp_all

lemma inRun_enginePointerLow: "inRun enginePointerLow"
  unfolding enginePointerLow_def
  by (intro inRun.run_mousemove inRun.run_startGame reachable_engine0)

lemma inRun_prefix: "k \<le> 415 \<Longrightarrow> inRun (ticks k enginePointerLow)"
proof (induction k)
  case 0
  show ?case using inRun_enginePointerLow by (simp add: ticks_def)
next
  case (Suc k)
  have "calmRun k (ticks k enginePointerLow)"
    using calmRun_prefix[of k] Suc.prems by simp
  then have "gameState (ticks k enginePointerLow) = Playing"
    by (simp add: calmRun_def)
  then show ?case
    unfolding ticks_Suc using Suc by (intro inRun.run_tick) simp_all
qed

text \<open>The calm run after 415 ticks, one tick after the camera has begun to move.\<close>

lemma ticks415_fields:
  "reachable (ticks 415 enginePointerLow)"
  "gameState (ticks 415 enginePointerLow) = Playing"
  "canvas_width (ticks 415 enginePointerLow) = 1920"
  "canvas_height (ticks 415 enginePointerLow) = 1080"
  "radius (shield (ticks 415 enginePointerLow)) = 42"
  "cameraY (ticks 415 enginePointerLow) = - (29 / 45)"
  "yv (position (shield (ticks 415 enginePointerLow))) = 1038 - 108 * (18 / 25) ^ 415"
proof -
  define s where "s = ticks 414 enginePointerLow"
  define s' where "s' = updatePhysics physicsStep s"
  have e: "ticks 415 enginePointerLow = s'"
    using ticks_Suc[of 414 enginePointerLow] by (simp add: s_def s'_def)
  have c: "calmRun 414 s" and r: "reachable s"
    using calmRun_prefix[of 414] by (simp_all add: s_def)
  have r': "reachable s'"
    unfolding s'_def using r c by (intro reachable.tick) (simp_all add: calmRun_def)
  have c': "calmRun (Suc 414) (s'\<lparr>cameraY := 0\<rparr>)"
    unfolding s'_def by (rule calmRun_tick(1)[OF c]) simp
  have cam: "cameraY s' = - (29 / 45)"
    unfolding s'_def calmRun_tick(2)[OF c, simplified] by simp
  have f: "gameState s' = Playing" "canvas_height s' = 1080" "canvas_width s' = 1920"
    "radius (shield s') = 42"
    "yv (position (shield s')) = 1038 - 108 * (18 / 25) ^ 415"
    using c' by (simp_all add: calmRun_def)
  show "reachable (ticks 415 enginePointerLow)"
    "gameState (ticks 415 enginePointerLow) = Playing"
    "canvas_width (ticks 415 enginePointerLow) = 1920"
    "canvas_height (ticks 415 enginePointerLow) = 1080"
    "radius (shield (ticks 415 enginePointerLow))  = 42"
    "cameraY (ticks 415 enginePointerLow) = - (29 / 45)"
    "yv (position (shield (ticks 415 enginePointerLow))) = 1038 - 108 * (18 / 25) ^ 415"
    unfolding e using r' f cam by simp_all
qed

lemma shield_lag_30: "108 * (18 / 25 :: real) ^ 30 < 1"
proof -
  have "(18 / 25 :: real) ^ 30 \<le> (18 / 25) ^ 16"
    by (rule power_decreasing) simp_all
  moreover have "108 * (18 / 25 :: real) ^ 16 < 1"
    by (simp add: power_divide)
  ultimately show ?thesis by linarith
qed

section \<open>The spawn schedule of a run\<close>

text \<open>
  A selection among patterns that are available executes one of them.  With two equal names
  \<open>N\<close> at the end of a history of at least three and two other names in the pool, the
  pattern it executes has a name other than \<open>N\<close>.
\<close>

lemma spawnPattern_executes:
  assumes "filter (\<lambda>p. minAltitude p \<le> \<bar>spawnY params\<bar> / 10) (patterns ps) \<noteq> []"
  shows "\<exists>pat rnd1. pat \<in> set (patterns ps) \<and>
           spawnPattern params ps rnd = executePattern pat params ps rnd1"
proof -
  define avail where "avail = filter (\<lambda>p. minAltitude p \<le> \<bar>spawnY params\<bar> / 10) (patterns ps)"
  have ne: "avail \<noteq> []" using assms by (simp add: avail_def)
  obtain pat where pat: "pat \<in> set avail" "selectWeightedPattern avail rnd = (Some pat, rnext rnd)"
    using selectWeightedPattern_nonempty[OF ne] by blast
  define alts where "alts = filter (\<lambda>p. name p \<noteq> name pat) avail"
  show ?thesis
  proof (cases "length (patternHistory ps) \<ge> 3 \<and>
                  list_all (\<lambda>nm. nm = name pat)
                    (drop (length (patternHistory ps) - 2) (patternHistory ps)) \<and> alts \<noteq> []")
    case False
    then have "spawnPattern params ps rnd = executePattern pat params ps (rnext rnd)"
      unfolding spawnPattern_def Let_def avail_def[symmetric] using ne pat(2)
      by (auto simp: alts_def)
    moreover have "pat \<in> set (patterns ps)" using pat(1) by (simp add: avail_def)
    ultimately show ?thesis by blast
  next
    case True
    then have altne: "alts \<noteq> []" by simp
    obtain q where q: "q \<in> set alts" "selectWeightedPattern alts (rnext rnd) = (Some q, rnext (rnext rnd))"
      using selectWeightedPattern_nonempty[OF altne] by blast
    have "spawnPattern params ps rnd = executePattern q params ps (rnext (rnext rnd))"
      unfolding spawnPattern_def Let_def avail_def[symmetric]
      using ne pat(2) True q(2) by (simp add: alts_def[symmetric])
    moreover have "q \<in> set (patterns ps)"
      using q(1) by (auto simp: alts_def avail_def)
    ultimately show ?thesis by blast
  qed
qed

lemma spawnPattern_avoids_third:
  assumes "length (patternHistory ps) \<ge> 3"
    and "drop (length (patternHistory ps) - 2) (patternHistory ps) = [N, N]"
    and "length (filter (\<lambda>p. name p \<noteq> N)
           (filter (\<lambda>p. minAltitude p \<le> \<bar>spawnY params\<bar> / 10) (patterns ps))) \<ge> 2"
  shows "\<exists>pat rnd1. pat \<in> set (patterns ps) \<and> name pat \<noteq> N \<and>
           spawnPattern params ps rnd = executePattern pat params ps rnd1 \<and>
           last (patternHistory (fst (snd (spawnPattern params ps rnd)))) \<noteq> N"
proof -
  define avail where "avail = filter (\<lambda>p. minAltitude p \<le> \<bar>spawnY params\<bar> / 10) (patterns ps)"
  have alt: "filter (\<lambda>p. name p \<noteq> N) avail \<noteq> []"
    using assms(3) unfolding avail_def by auto
  then have ne: "avail \<noteq> []" by auto
  obtain pat where pat: "pat \<in> set avail" "selectWeightedPattern avail rnd = (Some pat, rnext rnd)"
    using selectWeightedPattern_nonempty[OF ne] by blast
  show ?thesis
  proof (cases "name pat = N")
    case False
    have nall: "\<not> list_all (\<lambda>nm. nm = name pat) (drop (length (patternHistory ps) - 2) (patternHistory ps))"
      using False by (simp add: assms(2))
    have "spawnPattern params ps rnd = executePattern pat params ps (rnext rnd)"
      unfolding spawnPattern_def Let_def avail_def[symmetric] using ne pat(2) nall by simp
    moreover have "pat \<in> set (patterns ps)" using pat(1) by (simp add: avail_def)
    ultimately show ?thesis using False by (auto simp: executePattern_last)
  next
    case True
    have all: "list_all (\<lambda>nm. nm = name pat) (drop (length (patternHistory ps) - 2) (patternHistory ps))"
      using True by (simp add: assms(2))
    define alts where "alts = filter (\<lambda>p. name p \<noteq> name pat) avail"
    have altne: "alts \<noteq> []" using alt True by (simp add: alts_def)
    obtain q where q: "q \<in> set alts" "selectWeightedPattern alts (rnext rnd) = (Some q, rnext (rnext rnd))"
      using selectWeightedPattern_nonempty[OF altne] by blast
    have "spawnPattern params ps rnd = executePattern q params ps (rnext (rnext rnd))"
      unfolding spawnPattern_def Let_def avail_def[symmetric] 
      using ne pat(2) all assms(1) altne q(2) by (simp add: alts_def[symmetric])
    moreover have "q \<in> set (patterns ps)" "name q \<noteq> N"
      using q(1) True by (auto simp: alts_def avail_def)
    ultimately show ?thesis by (auto simp: executePattern_last)
  qed
qed

lemma executePattern_fields:
  "patterns (fst (snd (executePattern pat params ps rnd))) = patterns ps"
  "spawnTimer (fst (snd (executePattern pat params ps rnd))) = spawnTimer ps"
  by (simp_all add: executePattern_def Let_def split_beta)

lemma initializePatterns_low: "filter (\<lambda>p. minAltitude p \<le> \<bar>y\<bar> / 10) initializePatterns \<noteq> []"
  by (simp add: initializePatterns_def)

lemma update_idle:
  assumes "\<not> spawnTimer ps - dt \<le> 0"
  shows "update dt params ps rnd = ([], ps\<lparr>spawnTimer := spawnTimer ps - dt\<rparr>, rnd)"
  using assms by (simp add: update_def Let_def)

lemma update_spawns:
  assumes "spawnTimer ps - dt \<le> 0" and "patterns ps = initializePatterns"
  shows "\<exists>pat. pat \<in> set initializePatterns \<and>
     patterns (fst (snd (update dt params ps rnd))) = initializePatterns \<and>
     spawnTimer (fst (snd (update dt params ps rnd))) = max 0.55 (1.2 - difficulty params * 0.65) \<and>
     patternHistory (fst (snd (update dt params ps rnd))) =
       (if length (patternHistory ps) \<ge> 5 then tl (patternHistory ps) @ [name pat]
        else patternHistory ps @ [name pat])"
proof -
  define ps3 where "ps3 = ps\<lparr>spawnTimer := spawnTimer ps - dt,
      spawnCooldown := max 0.55 (1.2 - difficulty params * 0.65),
      spawnTimer := max 0.55 (1.2 - difficulty params * 0.65)\<rparr>"
  have p3: "patterns ps3 = initializePatterns" "patternHistory ps3 = patternHistory ps"
    "spawnTimer ps3 = max 0.55 (1.2 - difficulty params * 0.65)"
    using assms(2) by (simp_all add: ps3_def)
  have u: "update dt params ps rnd = spawnPattern params ps3 rnd"
    using assms(1) by (simp add: update_def Let_def ps3_def)
  have "filter (\<lambda>p. minAltitude p \<le> \<bar>spawnY params\<bar> / 10) (patterns ps3) \<noteq> []"
    unfolding p3 by (rule initializePatterns_low)
  then obtain pat rnd1 where pat: "pat \<in> set (patterns ps3)"
      "spawnPattern params ps3 rnd = executePattern pat params ps3 rnd1"
    using spawnPattern_executes by blast
  show ?thesis
    unfolding u pat(2) executePattern_fields executePattern_history p3
    using pat(1) unfolding p3 by blast
qed

text \<open>The generator after a tick is the generator updated with the tick's spawn parameters.\<close>

lemma updatePhysics_patternSystem:
  "patternSystem (updatePhysics dt s) = fst (snd (update dt
      \<lparr>centerX = canvas_width s / 2, spawnY = cameraY s - 100,
       balloonVelocity = \<bar>yv (velocity (balloon (updatePhysics dt s)))\<bar>,
       shieldRadius = radius (shield s), difficulty = min 1 ((gameTime s + dt) / 180)\<rparr>
      (patternSystem s) (random s)))"
  by (simp add: updatePhysics_def Let_def updateSpawning_def split_beta updateObstacles_def
      updateShield_shield updateInput_shield_kept)

text \<open>
  The invariant of the spawn schedule.  The generator holds the seven registered patterns;
  the play time and the spawn timer are never negative; after play time \<open>T\<close> the balloon
  has climbed at most \<open>80 * T + 2 * T\<^sup>2 + T / 60\<close>; and while the history holds fewer than
  three names, the next selection is due before play time \<open>29 / 24\<close> times the length of the
  history, and the camera has not moved.
\<close>

lemma reachable_spawning:
  "reachable s \<Longrightarrow>
     patterns (patternSystem s) = initializePatterns \<and>
     0 \<le> gameTime s \<and> 0 \<le> spawnTimer (patternSystem s) \<and>
     canvas_height s - 100 - (80 * gameTime s + 2 * (gameTime s)\<^sup>2 + gameTime s / 60)
       \<le> yv (position (balloon s)) \<and>
     (length (patternHistory (patternSystem s)) < 3 \<longrightarrow>
        gameTime s + spawnTimer (patternSystem s) \<le>
          (29 / 24) * real (length (patternHistory (patternSystem s))) \<and>
        cameraY s = 0)"
proof (induction rule: reachable.induct)
  case (construct rnd w h)
  show ?case
    by (simp add: newGameEngine_def initializeGameObjects_def newPatternSystem_def Let_def)
next
  case (cmd_startGame s)
  then show ?case
    by (simp add: startGame_def resetGame_def reset_def Let_def)
next
  case (cmd_restartGame s)
  then show ?case
    by (simp add: restartGame_def startGame_def resetGame_def reset_def Let_def)
next
  case (cmd_pauseGame s)
  then show ?case by (simp add: pauseGame_def)
next
  case (cmd_resumeGame s)
  then show ?case by (simp add: resumeGame_def)
next
  case (cmd_toggleDebug s)
  then show ?case by (simp add: toggleDebug_def)
next
  case (cmd_setSensitivity s v)
  then show ?case by (simp add: setSensitivity_def)
next
  case (cmd_setShieldSize s sz)
  then show ?case by (simp add: setShieldSize_def Let_def)
next
  case (ev_mousemove s mx my)
  then show ?case by (simp add: mousemove_def)
next
  case (ev_keydown s code)
  then show ?case by (simp add: keydown_def)
next
  case (ev_keyup s code)
  then show ?case by (simp add: keyup_def)
next
  case (clock s t a)
  then show ?case by simp
next
  case (tick s)
  define s' where "s' = updatePhysics physicsStep s"
  define ps where "ps = patternSystem s"
  define T where "T = gameTime s"
  define params where "params =
      \<lparr>centerX = canvas_width s / 2, spawnY = cameraY s - 100,
       balloonVelocity = \<bar>yv (velocity (balloon s'))\<bar>,
       shieldRadius = radius (shield s), difficulty = min 1 ((T + physicsStep) / 180)\<rparr>"
  define ps' where "ps' = fst (snd (update physicsStep params ps (random s)))"
  have ih: "patterns ps = initializePatterns" "0 \<le> T" "0 \<le> spawnTimer ps"
    "canvas_height s - 100 - (80 * T + 2 * T\<^sup>2 + T / 60) \<le> yv (position (balloon s))"
    and ihs: "length (patternHistory ps) < 3 \<Longrightarrow>
        T + spawnTimer ps \<le> (29 / 24) * real (length (patternHistory ps)) \<and> cameraY s = 0"
    using tick.IH unfolding ps_def T_def by simp_all
  have e: "patternSystem s' = ps'" "gameTime s' = T + 1 / 120" "canvas_height s' = canvas_height s"
    unfolding s'_def ps'_def params_def ps_def T_def
    by (simp_all add: updatePhysics_patternSystem physicsStep_def)
  have d: "0 \<le> difficulty params"
    using ih(2) by (simp add: params_def physicsStep_def)
  \<comment> \<open>the balloon\<close>
  have r': "reachable s'"
    unfolding s'_def using tick.hyps by (rule reachable.tick)
  obtain k :: nat where k: "yv (velocity (balloon s')) = - (80 + real k / 30)"
      "real k / 120 \<le> T + 1 / 120"
    using reachable_ascent[OF r'] unfolding e by blast
  have y': "yv (position (balloon s')) =
      yv (position (balloon s)) + yv (velocity (balloon s')) * physicsStep"
    unfolding s'_def by (rule updatePhysics_balloon_y)
  have "- ((80 + 4 * (T + 1 / 120)) / 120) \<le> yv (velocity (balloon s')) * physicsStep"
    using k(2) unfolding k(1) physicsStep_def by argo
  moreover have "80 * (T + 1 / 120) + 2 * (T + 1 / 120)\<^sup>2 + (T + 1 / 120) / 60 =
      80 * T + 2 * T\<^sup>2 + T / 60 + (80 + 4 * (T + 1 / 120)) / 120"
    unfolding power2_eq_square by (simp add: field_simps)
  ultimately have climb: "canvas_height s - 100 -
      (80 * (T + 1 / 120) + 2 * (T + 1 / 120)\<^sup>2 + (T + 1 / 120) / 60) \<le> yv (position (balloon s'))"
    using ih(4) unfolding y' by linarith
  \<comment> \<open>the generator\<close>
  have gen: "patterns ps' = initializePatterns \<and> 0 \<le> spawnTimer ps' \<and>
      (length (patternHistory ps') < 3 \<longrightarrow>
         length (patternHistory ps) < 3 \<and>
         T + 1 / 120 + spawnTimer ps' \<le> (29 / 24) * real (length (patternHistory ps')))"
  proof (cases "spawnTimer ps - physicsStep \<le> 0")
    case False
    have u: "ps' = ps\<lparr>spawnTimer := spawnTimer ps - physicsStep\<rparr>"
      unfolding ps'_def update_idle[OF False] by simp
    show ?thesis
      unfolding u using False ih(1) ihs by (auto simp: physicsStep_def)
  next
    case True
    obtain pat :: Pattern where pat: "patterns ps' = initializePatterns"
      "spawnTimer ps' = max 0.55 (1.2 - difficulty params * 0.65)"
      "patternHistory ps' =
       (if length (patternHistory ps) \<ge> 5 then tl (patternHistory ps) @ [name pat]
        else patternHistory ps @ [name pat])"
      unfolding ps'_def
      using update_spawns[OF True ih(1), where params = params and rnd = "random s"] by blast
    have t1: "0 \<le> spawnTimer ps'" "spawnTimer ps' \<le> 6 / 5"
      unfolding pat(2) using d by (auto simp: max_def)
    have "length (patternHistory ps') < 3 \<longrightarrow>
         length (patternHistory ps) < 3 \<and>
         T + 1 / 120 + spawnTimer ps' \<le> (29 / 24) * real (length (patternHistory ps'))"
    proof
      assume l: "length (patternHistory ps') < 3"
      then have l0: "length (patternHistory ps) < 3"
        unfolding pat(3) by (simp split: if_splits)
      then have l1: "length (patternHistory ps') = Suc (length (patternHistory ps))"
        unfolding pat(3) by simp
      have "T + spawnTimer ps \<le> (29 / 24) * real (length (patternHistory ps))"
        using ihs[OF l0] by simp
      then have "T \<le> (29 / 24) * real (length (patternHistory ps))"
        using ih(3) by linarith
      then have "T + 1 / 120 + spawnTimer ps' \<le>
          (29 / 24) * real (length (patternHistory ps)) + 29 / 24"
        using t1(2) by linarith
      then show "length (patternHistory ps) < 3 \<and>
         T + 1 / 120 + spawnTimer ps' \<le> (29 / 24) * real (length (patternHistory ps'))"
        using l0 unfolding l1 by (simp add: algebra_simps)
    qed
    then show ?thesis using pat(1) t1(1) by blast
  qed
  \<comment> \<open>the camera\<close>
  have cam: "cameraY s' = 0" if l: "length (patternHistory ps') < 3"
  proof -
    have l0: "length (patternHistory ps) < 3"
      and b: "T + 1 / 120 + spawnTimer ps' \<le> (29 / 24) * real (length (patternHistory ps'))"
      using gen l by simp_all
    have c0: "cameraY s = 0" using ihs[OF l0] by simp
    have "real (length (patternHistory ps')) \<le> 2" using l by simp
    then have "T + 1 / 120 + spawnTimer ps' \<le> 29 / 12" using b by linarith
    moreover have "0 \<le> spawnTimer ps'" using gen by simp
    ultimately have t: "T + 1 / 120 \<le> 29 / 12" by linarith
    have t0: "0 \<le> T + 1 / 120" using ih(2) by simp
    define u where "u = T + 1 / 120"
    define q where "q = u * u"
    have "u * u \<le> (29 / 12) * (29 / 12)"
      using t t0 unfolding u_def[symmetric] by (intro mult_mono) simp_all
    then have "q \<le> 841 / 144" by (simp add: q_def)
    then have "80 * u + 2 * q + u / 60 \<le> 206"
      using t unfolding u_def[symmetric] by linarith
    then have "80 * (T + 1 / 120) + 2 * (T + 1 / 120)\<^sup>2 + (T + 1 / 120) / 60 \<le> 206"
      unfolding q_def u_def power2_eq_square .
    then have "canvas_height s - 306 \<le> yv (position (balloon s'))"
      using climb by linarith
    then have "\<not> yv (position (balloon s')) - canvas_height s + 300 < cameraY s - 100"
      unfolding c0 by linarith
    then show ?thesis
      unfolding s'_def
      by (simp add: updatePhysics_cameraY updateCamera_def Let_def CAMERA_DEAD_ZONE_def
          updatePhysics_balloon[symmetric] c0)
  qed
  show ?case
    unfolding s'_def[symmetric] e using gen climb cam ih(2) by simp
qed

text \<open>
  So while the history holds fewer than three names, the altitude filter lets only the first
  pattern through.
\<close>

lemma short_history_pool:
  assumes "reachable s" and "length (patternHistory (patternSystem s)) < 3"
  shows "filter (\<lambda>p. minAltitude p \<le> \<bar>cameraY s - 100\<bar> / 10) (patterns (patternSystem s)) =
     [\<lparr>name = ''blockRain'', weight = 3, minAltitude = 0, spawn = spawnBlockRain\<rparr>]"
proof -
  have "patterns (patternSystem s) = initializePatterns" "cameraY s = 0"
    using reachable_spawning[OF assms(1)] assms(2) by simp_all
  then show ?thesis
    using availableLow by simp
qed

section \<open>The run in which every random number is 0\<close>

lemma spawnPattern_patterns:
  "patterns (fst (snd (spawnPattern params ps rnd))) = patterns ps"
proof (cases "filter (\<lambda>p. minAltitude p \<le> \<bar>spawnY params\<bar> / 10) (patterns ps) = []")
  case True
  then show ?thesis by (simp add: spawnPattern_def Let_def)
next
  case False
  then obtain pat rnd1 where "spawnPattern params ps rnd = executePattern pat params ps rnd1"
    using spawnPattern_executes by blast
  then show ?thesis by (simp add: executePattern_fields)
qed

lemma update_patterns:
  "patterns (fst (snd (update dt params ps rnd))) = patterns ps"
  by (simp add: update_def Let_def spawnPattern_patterns)

lemma steadyGen_patterns: "patterns (steadyGen k) = initializePatterns"
  by (induction k) (simp_all add: newPatternSystem_def update_patterns)

lemma select_zero_hd:
  assumes "0 \<le> weight p"
  shows "selectWeightedPattern (p # ps) (\<lambda>n. 0) = (Some p, \<lambda>n. 0)"
  using assms by (simp add: selectWeightedPattern_def Let_def)

lemma available_hd:
  assumes "0 \<le> a"
  shows "filter (\<lambda>p. minAltitude p \<le> a) initializePatterns =
     \<lparr>name = ''blockRain'', weight = 3, minAltitude = 0, spawn = spawnBlockRain\<rparr> #
     filter (\<lambda>p. minAltitude p \<le> a) (tl initializePatterns)"
  using assms by (simp add: initializePatterns_def)

lemma alternatives_low:
  assumes "a < 50"
  shows "filter (\<lambda>p. name p \<noteq> ''blockRain'')
     (filter (\<lambda>p. minAltitude p \<le> a) (tl initializePatterns)) = []"
  using assms by (simp add: initializePatterns_def)

lemma alternatives_high:
  assumes "50 \<le> a"
  shows "\<exists>rest. filter (\<lambda>p. name p \<noteq> ''blockRain'')
     (filter (\<lambda>p. minAltitude p \<le> a) (tl initializePatterns)) =
     \<lparr>name = ''chicane'', weight = 2, minAltitude = 50, spawn = spawnChicane\<rparr> # rest"
  using assms by (simp add: initializePatterns_def)

lemma spawnPattern_zero:
  assumes "patterns ps = initializePatterns"
  shows "spawnPattern params ps (\<lambda>n. 0) =
     executePattern
       (if 3 \<le> length (patternHistory ps) \<and>
           list_all (\<lambda>nm. nm = ''blockRain'')
             (drop (length (patternHistory ps) - 2) (patternHistory ps)) \<and>
           50 \<le> \<bar>spawnY params\<bar> / 10
        then \<lparr>name = ''chicane'', weight = 2, minAltitude = 50, spawn = spawnChicane\<rparr>
        else \<lparr>name = ''blockRain'', weight = 3, minAltitude = 0, spawn = spawnBlockRain\<rparr>)
       params ps (\<lambda>n. 0)"
proof -
  define a where "a = \<bar>spawnY params\<bar> / 10"
  define rest where "rest = filter (\<lambda>p. minAltitude p \<le> a) (tl initializePatterns)"
  define br where "br = \<lparr>name = ''blockRain'', weight = 3, minAltitude = 0, spawn = spawnBlockRain\<rparr>"
  define ch where "ch = \<lparr>name = ''chicane'', weight = 2, minAltitude = 50, spawn = spawnChicane\<rparr>"
  have a0: "0 \<le> a" by (simp add: a_def)
  have av: "filter (\<lambda>p. minAltitude p \<le> a) (patterns ps) = br # rest"
    unfolding assms rest_def br_def using a0 by (rule available_hd)
  have sel: "selectWeightedPattern (br # rest) (\<lambda>n. 0) = (Some br, \<lambda>n. 0)"
    by (rule select_zero_hd) (simp add: br_def)
  have nb: "name br = ''blockRain''" by (simp add: br_def)
  show ?thesis
  proof (cases "50 \<le> a")
    case False
    then have "filter (\<lambda>p. name p \<noteq> ''blockRain'') rest = []"
      unfolding rest_def by (intro alternatives_low) simp
    then show ?thesis
      unfolding spawnPattern_def Let_def a_def[symmetric] av br_def[symmetric] ch_def[symmetric]
      using False by (simp add: sel nb)
  next
    case True
    then obtain r2 where r2: "filter (\<lambda>p. name p \<noteq> ''blockRain'') rest = ch # r2"
      unfolding rest_def ch_def using alternatives_high by blast
    have sel2: "selectWeightedPattern (ch # r2) (\<lambda>n. 0) = (Some ch, \<lambda>n. 0)"
      by (rule select_zero_hd) (simp add: ch_def)
    show ?thesis
      unfolding spawnPattern_def Let_def a_def[symmetric] av br_def[symmetric] ch_def[symmetric]
      using True by (simp add: sel nb r2 sel2)
  qed
qed

lemma blockRainLoop_zero:
  assumes "50 \<le> centerX params - (shieldRadius params * 2.4 + 20) / 2 - 40"
  shows "(\<forall>ob \<in> set (fst (blockRainLoop n params (\<lambda>n. 0))). steadyBlock ob) \<and>
     snd (blockRainLoop n params (\<lambda>n. 0)) = (\<lambda>n. 0)"
proof (induction n)
  case 0
  show ?case by simp
next
  case (Suc n)
  define lo where "lo = centerX params - (shieldRadius params * 2.4 + 20) / 2 - 40"
  define hi where "hi = centerX params - (shieldRadius params * 2.4 + 20) / 2 +
      (shieldRadius params * 2.4 + 20) + 40"
  have x: "blockRainX 0 lo hi (\<lambda>n. 0) = (50, \<lambda>n. 0)"
    using assms unfolding lo_def by (rule blockRainX_zero)
  define ob where "ob = (obstacleLiteral ''block''
                 \<lparr>xv = 50, yv = spawnY params - 0 * 100\<rparr>
                 \<lparr>xv = 0, yv = 0 * 30 + 20\<rparr> 20)
               \<lparr>width := Some 40, height := Some 40\<rparr>"
  have c: "steadyBlock ob"
    by (simp add: ob_def steadyBlock_def obstacleLiteral_def)
  have "blockRainLoop (Suc n) params (\<lambda>n. 0) =
      (ob # fst (blockRainLoop n params (\<lambda>n. 0)), snd (blockRainLoop n params (\<lambda>n. 0)))"
    unfolding blockRainLoop.simps Let_def lo_def[symmetric] hi_def[symmetric] x
    by (simp add: split_beta ob_def)
  then show ?case
    using c Suc by simp
qed

lemma spawnBlockRain_steady:
  assumes "centerX params = 960" and "shieldRadius params = 42"
  shows "(\<forall>ob \<in> set (fst (spawnBlockRain params (\<lambda>n. 0))). steadyBlock ob) \<and>
     snd (spawnBlockRain params (\<lambda>n. 0)) = (\<lambda>n. 0)"
  unfolding spawnBlockRain_def Let_def
  by (rule blockRainLoop_zero) (simp add: assms)

lemma spawnChicane_steady:
  "(\<forall>ob \<in> set (fst (spawnChicane params (\<lambda>n. 0))). steadyBlock ob) \<and>
     snd (spawnChicane params (\<lambda>n. 0)) = (\<lambda>n. 0)"
  by (simp add: spawnChicane_def Let_def steadyBlock_def obstacleLiteral_def)

lemma update_steady:
  assumes "patterns ps = initializePatterns" and "centerX params = 960"
    and "shieldRadius params = 42"
  shows "(\<forall>ob \<in> set (fst (update dt params ps (\<lambda>n. 0))). steadyBlock ob) \<and>
     snd (snd (update dt params ps (\<lambda>n. 0))) = (\<lambda>n. 0)"
proof (cases "spawnTimer ps - dt \<le> 0")
  case False
  then show ?thesis by (simp add: update_idle)
next
  case True
  define ps3 where "ps3 = ps\<lparr>spawnTimer := spawnTimer ps - dt,
      spawnCooldown := max 0.55 (1.2 - difficulty params * 0.65),
      spawnTimer := max 0.55 (1.2 - difficulty params * 0.65)\<rparr>"
  have p3: "patterns ps3 = initializePatterns"
    using assms(1) by (simp add: ps3_def)
  have u: "update dt params ps (\<lambda>n. 0) = spawnPattern params ps3 (\<lambda>n. 0)"
    using True by (simp add: update_def Let_def ps3_def)
  show ?thesis
    unfolding u spawnPattern_zero[OF p3]
    using spawnBlockRain_steady[OF assms(2,3)] spawnChicane_steady[of params]
    by (simp add: executePattern_def Let_def split_beta)
qed

text \<open>A steady block is out of reach of the balloon and of the shield, and stays so.\<close>

lemma steadyBlock_misses:
  assumes "steadyBlock ob" and "radius b \<le> 42" and "0 \<le> radius b" and "945 \<le> xv (position b)"
    and "radius b = 22 \<or> 960 \<le> xv (position b)"
  shows "checkCollision b ob = None"
proof -
  have t: "type ob = ''block''" using assms(1) by (simp add: steadyBlock_def)
  consider "width ob = Some 40" "height ob = Some 40" "xv (position ob) = 50"
    | "width ob = Some 100" "height ob = Some 50" "xv (position ob) = 750"
    using assms(1) unfolding steadyBlock_def by blast
  then show ?thesis
  proof cases
    case 1
    then show ?thesis
      using assms(2-4) by (simp add: checkCollision_def t circleVsAABB_right_of)
  next
    case 2
    have "xv (position ob) - 100 / 2 + 100 + radius b < xv (position b)"
      using assms(2-5) 2(3) by auto
    then show ?thesis
      using assms(3) 2 by (simp add: checkCollision_def t circleVsAABB_right_of)
  qed
qed

lemma checkCollisions_steady:
  assumes "\<forall>ob \<in> set (obstacles s). steadyBlock ob"
    and "radius (balloon s) = 22" and "945 \<le> xv (position (balloon s))"
    and "radius (shield s) = 42" and "xv (position (shield s)) = 960"
  shows "checkCollisions s = s"
proof -
  have b: "\<forall>ob \<in> set (obstacles s). checkCollision (balloon s) ob = None"
    using assms(1-3) by (simp add: steadyBlock_misses)
  have sh: "\<forall>ob \<in> set (obstacles s). checkCollision (shield s) ob = None"
    using assms(1,4,5) by (simp add: steadyBlock_misses)
  show ?thesis
    using b by (simp add: checkCollisions_def list_ex_iff shieldCollisions_none[OF sh])
qed

lemma updateObstacle_steady:
  assumes "steadyBlock ob" and "xv (position (shield s)) = 960"
  shows "steadyBlock (updateObstacle dt s ob)"
proof -
  define dx where "dx = xv (position (shield s)) - xv (position ob)"
  define dy where "dy = yv (position (shield s)) - yv (position ob)"
  have x: "xv (position ob) = 50 \<or> xv (position ob) = 750"
    using assms(1) unfolding steadyBlock_def by blast
  then have "200 \<le> dx" using assms(2) by (auto simp: dx_def)
  then have "200 * 200 \<le> dx * dx"
    by (intro mult_mono) simp_all
  moreover have "0 \<le> dy * dy"
    by simp
  ultimately have "40000 \<le> dx * dx + dy * dy"
    by linarith
  then have "sqrt 40000 \<le> sqrt (dx * dx + dy * dy)"
    by (rule real_sqrt_le_mono)
  moreover have "sqrt 40000 = 200"
    using real_sqrt_abs[of 200] by simp
  ultimately have far: "\<not> sqrt (dx * dx + dy * dy) < 200"
    by simp
  have a: "type ob = ''block''" "xv (velocity ob) = 0"
    using assms(1) by (simp_all add: steadyBlock_def)
  have w: "width ob = Some 40 \<and> height ob = Some 40 \<and> xv (position ob) = 50 \<or>
      width ob = Some 100 \<and> height ob = Some 50 \<and> xv (position ob) = 750"
    using assms(1) unfolding steadyBlock_def by blast
  show ?thesis
    unfolding updateObstacle_def Let_def dx_def[symmetric] dy_def[symmetric]
    using far a w
    by (auto simp: steadyBlock_def split: option.splits)
qed

lemma steadyY_Suc:
  "steadyY (Suc k) = steadyY k - (80 + real (Suc k) / 30) / 120"
  unfolding steadyY_def power2_eq_square by (simp add: field_simps)

lemma steadyCamera_Suc:
  "steadyCamera (Suc k) =
     (if steadyY (Suc k) - 1080 + 300 < steadyCamera k - 100 then steadyY (Suc k) - 1080 + 300 + 100
      else steadyCamera k)"
proof -
  have "steadyY (Suc k) < steadyY k"
    unfolding steadyY_Suc by (simp add: add_pos_nonneg)
  then show ?thesis
    unfolding steadyCamera_def by auto
qed

lemma steadyRun_tick:
  assumes "steadyRun k s" and "k < 2400"
  shows "steadyRun (Suc k) (updatePhysics physicsStep s)"
proof -
  define s' where "s' = updatePhysics physicsStep s"
  have c: "gameState s = Playing" "canvas_width s = 1920" "canvas_height s = 1080"
     "keys s = {}" "xv (worldMousePosition s) = 960" "sensitivity (settings s) = 1"
     "radius (shield s) = 42" "lerpFactor (shield s) = 7 / 25"
     "xv (position (shield s)) = 960"
     "radius (balloon s) = 22" "acceleration (balloon s) = 4"
     "945 \<le> xv (position (balloon s))"
     "yv (velocity (balloon s)) = - (80 + real k / 30)"
     "yv (position (balloon s)) = steadyY k"
     "gameTime s = real k / 120" "cameraY s = steadyCamera k"
     "patternSystem s = steadyGen k" "random s = (\<lambda>n. 0)"
     "\<forall>ob \<in> set (obstacles s). steadyBlock ob"
    using assms(1) unfolding steadyRun_def by blast+
  define s1 where "s1 = s\<lparr>gameTime := gameTime s + physicsStep\<rparr>"
  define s2 where "s2 = updateInput physicsStep s1"
  define s3 where "s3 = updateBalloon physicsStep s2"
  define s4 where "s4 = updateShield physicsStep s3"
  define s5 where "s5 = updateObstacles physicsStep s4"
  define s6 where "s6 = updateSpawning physicsStep s5"
  define s7 where "s7 = updateCamera s6"
  \<comment> \<open>the target\<close>
  have p1: "gameState s1 = Playing" "keys s1 = {}"
    using c by (simp_all add: s1_def)
  have t2: "xv (targetPosition (shield s2)) = 960"
    unfolding s2_def updateInput_pointer[OF p1] by (simp add: s1_def c)
  have sh2: "position (shield s2) = position (shield s)" "radius (shield s2) = 42"
    "lerpFactor (shield s2) = 7 / 25"
    by (simp_all add: s2_def updateInput_shield_kept s1_def c)
  \<comment> \<open>the balloon\<close>
  have k1: "\<bar>yv (velocity (balloon s))\<bar> < min 160 (80 + acceleration (balloon s) * (gameTime s + physicsStep))"
    using assms(2) by (simp add: c(11,13,15) physicsStep_def)
  have vy3: "yv (velocity (balloon s3)) = - (80 + real (Suc k) / 30)"
    using k1 by (simp add: s3_def s2_def s1_def updateBalloon_balloon c)
       (simp add: physicsStep_def field_simps)
  have "yv (position (balloon s3)) =
      yv (position (balloon s2)) + yv (velocity (balloon s3)) * physicsStep"
    unfolding s3_def by (rule updateBalloon_balloon(3))
  moreover have "yv (position (balloon s2)) = steadyY k"
    by (simp add: s2_def s1_def c)
  ultimately have "yv (position (balloon s3)) =
      steadyY k + (- (80 + real (Suc k) / 30)) * (1 / 120)"
    unfolding vy3 physicsStep_def by simp
  then have y3: "yv (position (balloon s3)) = steadyY (Suc k)"
    unfolding steadyY_Suc by argo
  have b3: "radius (balloon s3) = 22" "acceleration (balloon s3) = 4"
    "945 \<le> xv (position (balloon s3))"
    using updateBalloon_x(1)[where s = s2 and dt = physicsStep]
    by (simp_all add: s3_def s2_def s1_def updateBalloon_balloon updateBalloon_x(2) c)
  \<comment> \<open>the shield\<close>
  have sh4: "radius (shield s4) = 42" "lerpFactor (shield s4) = 7 / 25"
    "xv (position (shield s4)) = 960"
    by (simp_all add: s4_def s3_def updateShield_shield sh2 t2 c)
  \<comment> \<open>the obstacles\<close>
  have e4: "cameraY s4 = steadyCamera k" "canvas_height s4 = 1080" "canvas_width s4 = 1920"
    "obstacles s4 = obstacles s" "patternSystem s4 = steadyGen k" "random s4 = (\<lambda>n. 0)"
    "gameState s4 = Playing" "gameTime s4 = real (Suc k) / 120" "balloon s4 = balloon s3"
    by (simp_all add: s4_def s3_def s2_def s1_def c physicsStep_def field_simps)
  have o5: "\<forall>ob \<in> set (obstacles s5). steadyBlock ob"
    using c(19) updateObstacle_steady[OF _ sh4(3)]
    by (simp add: s5_def updateObstacles_def e4)
  have par: "\<lparr>centerX = canvas_width s5 / 2, spawnY = cameraY s5 - 100,
         balloonVelocity = \<bar>yv (velocity (balloon s5))\<bar>, shieldRadius = radius (shield s5),
         difficulty = min 1 (gameTime s5 / 180)\<rparr> = steadyParams k"
    unfolding steadyParams_def
    by (simp add: s5_def updateObstacles_def e4 sh4 vy3 add_nonneg_nonneg)
  have e5: "patternSystem s5 = steadyGen k" "random s5 = (\<lambda>n. 0)" "obstacles s5 = obstacles s5"
    by (simp_all add: s5_def updateObstacles_def e4)
  have sp: "(\<forall>ob \<in> set (fst (update physicsStep (steadyParams k) (steadyGen k) (\<lambda>n. 0))).
        steadyBlock ob) \<and>
     snd (snd (update physicsStep (steadyParams k) (steadyGen k) (\<lambda>n. 0))) = (\<lambda>n. 0)"
    by (rule update_steady) (simp_all add: steadyGen_patterns steadyParams_def)
  have o6: "\<forall>ob \<in> set (obstacles s6). steadyBlock ob"
    "patternSystem s6 = steadyGen (Suc k)" "random s6 = (\<lambda>n. 0)"
  proof -
    define U where "U = update physicsStep (steadyParams k) (steadyGen k) (\<lambda>n. 0)"
    have "s6 = s5\<lparr>patternSystem := fst (snd U), random := snd (snd U),
        obstacles := obstacles s5 @ fst U\<rparr>"
      unfolding s6_def updateSpawning_def Let_def par e5(1,2) U_def[symmetric]
      by (simp add: split_beta)
    then show "\<forall>ob \<in> set (obstacles s6). steadyBlock ob"
      "patternSystem s6 = steadyGen (Suc k)" "random s6 = (\<lambda>n. 0)"
      using sp o5 unfolding U_def[symmetric] by (auto simp: U_def)
  qed
  \<comment> \<open>the camera and the collision checks\<close>
  have e7: "obstacles s7 = obstacles s6" "balloon s7 = balloon s3" "shield s7 = shield s4"
    "gameState s7 = Playing" "canvas_height s7 = 1080" "canvas_width s7 = 1920"
    "keys s7 = {}" "worldMousePosition s7 = worldMousePosition s"
    "settings s7 = settings s" "gameTime s7 = real (Suc k) / 120"
    "patternSystem s7 = patternSystem s6" "random s7 = random s6"
    by (simp_all add: s7_def s6_def s5_def s4_def s3_def s2_def s1_def physicsStep_def c
        field_simps)
  have cam7: "cameraY s7 = steadyCamera (Suc k)"
  proof -
    have "cameraY s6 = steadyCamera k" "canvas_height s6 = 1080" "balloon s6 = balloon s3"
      by (simp_all add: s6_def s5_def s4_def s3_def s2_def s1_def c)
    then show ?thesis
      unfolding steadyCamera_Suc
      using y3 by (simp add: s7_def updateCamera_def Let_def CAMERA_DEAD_ZONE_def)
  qed
  have cc: "checkCollisions s7 = s7"
    by (rule checkCollisions_steady) (simp_all add: e7 o6 b3 sh4)
  have s': "s' = s7\<lparr>score := max 0 ((canvas_height s7 - yv (position (balloon s7))) / 10),
      notifications := notifications s7 @
        [ScoreChange (max 0 ((canvas_height s7 - yv (position (balloon s7))) / 10))],
      obstacles := filter active (obstacles s7)\<rparr>"
    unfolding s'_def updatePhysics_def Let_def s1_def[symmetric] s2_def[symmetric]
      s3_def[symmetric] s4_def[symmetric] s5_def[symmetric] s6_def[symmetric]
      s7_def[symmetric] cc by simp
  show ?thesis
    unfolding s'_def[symmetric] steadyRun_def s'
    using e7 o6 b3 sh4 vy3 y3 cam7 c(5,6) by simp
qed

lemma reachable_engineZero: "reachable engineZero"
  unfolding engineZero_def by (rule reachable.construct) simp

lemma steadyRun_start: "steadyRun 0 engineSteady"
  unfolding steadyRun_def
  by (simp add: engineSteady_def mousemove_def start_balloon steadyY_def steadyCamera_def)
     (simp add: engineZero_def startGame_def resetGame_def newGameEngine_def
        initializeGameObjects_def reset_def newPatternSystem_def getShieldRadius_def
        Let_def BALLOON_ACCELERATION_def SHIELD_LERP_FACTOR_def)

lemma steadyRun_prefix:
  "k \<le> 2400 \<Longrightarrow> steadyRun k (ticks k engineSteady) \<and> reachable (ticks k engineSteady)"
proof (induction k)
  case 0
  have "reachable engineSteady"
    unfolding engineSteady_def
    by (intro reachable.ev_mousemove reachable.cmd_startGame reachable_engineZero)
  then show ?case
    using steadyRun_start by (simp add: ticks_def)
next
  case (Suc k)
  then have c: "steadyRun k (ticks k engineSteady)" and r: "reachable (ticks k engineSteady)"
    by simp_all
  have "steadyRun (Suc k) (updatePhysics physicsStep (ticks k engineSteady))"
    using c by (rule steadyRun_tick) (use Suc.prems in simp)
  moreover have "reachable (updatePhysics physicsStep (ticks k engineSteady))"
    using r c by (intro reachable.tick) (simp_all add: steadyRun_def)
  ultimately show ?case
    by (simp add: ticks_Suc)
qed

lemma steadyGen_idle:
  "real m / 120 < spawnTimer (steadyGen k) \<Longrightarrow>
     spawnTimer (steadyGen (k + m)) = spawnTimer (steadyGen k) - real m / 120 \<and>
     patternHistory (steadyGen (k + m)) = patternHistory (steadyGen k)"
proof (induction m)
  case 0
  show ?case by simp
next
  case (Suc m)
  have "real m / 120 < spawnTimer (steadyGen k)"
    using Suc.prems by (simp add: field_simps)
  then have ih: "spawnTimer (steadyGen (k + m)) = spawnTimer (steadyGen k) - real m / 120"
    "patternHistory (steadyGen (k + m)) = patternHistory (steadyGen k)"
    using Suc.IH by simp_all
  have "\<not> spawnTimer (steadyGen (k + m)) - physicsStep \<le> 0"
    unfolding ih physicsStep_def using Suc.prems by (simp add: field_simps)
  then have "steadyGen (Suc (k + m)) =
      (steadyGen (k + m))\<lparr>spawnTimer := spawnTimer (steadyGen (k + m)) - physicsStep\<rparr>"
    by (simp add: update_idle)
  then show ?case
    by (simp add: ih physicsStep_def field_simps)
qed

lemma steadyGen_spawn:
  assumes "spawnTimer (steadyGen k) \<le> 1 / 120"
  shows "spawnTimer (steadyGen (Suc k)) = max 0.55 (1.2 - min 1 (real (Suc k) / 120 / 180) * 0.65)"
    and "patternHistory (steadyGen (Suc k)) =
      (if 5 \<le> length (patternHistory (steadyGen k)) then tl (patternHistory (steadyGen k)) else
         patternHistory (steadyGen k)) @
      [if 3 \<le> length (patternHistory (steadyGen k)) \<and>
           list_all (\<lambda>nm. nm = ''blockRain'')
             (drop (length (patternHistory (steadyGen k)) - 2) (patternHistory (steadyGen k))) \<and>
           50 \<le> \<bar>steadyCamera k - 100\<bar> / 10
        then ''chicane'' else ''blockRain'']"
proof -
  define ps where "ps = steadyGen k"
  define params where "params = steadyParams k"
  define ps3 where "ps3 = ps\<lparr>spawnTimer := spawnTimer ps - physicsStep,
      spawnCooldown := max 0.55 (1.2 - difficulty params * 0.65),
      spawnTimer := max 0.55 (1.2 - difficulty params * 0.65)\<rparr>"
  have p3: "patterns ps3 = initializePatterns" "patternHistory ps3 = patternHistory ps"
    "spawnTimer ps3 = max 0.55 (1.2 - difficulty params * 0.65)"
    by (simp_all add: ps3_def ps_def steadyGen_patterns)
  have "spawnTimer ps - physicsStep \<le> 0"
    using assms by (simp add: ps_def physicsStep_def)
  then have u: "update physicsStep params ps (\<lambda>n. 0) = spawnPattern params ps3 (\<lambda>n. 0)"
    by (simp add: update_def Let_def ps3_def)
  have "steadyGen (Suc k) = fst (snd (update physicsStep params ps (\<lambda>n. 0)))"
    by (simp add: ps_def params_def)
  then have g: "steadyGen (Suc k) = fst (snd (spawnPattern params ps3 (\<lambda>n. 0)))"
    unfolding u .
  have par: "difficulty params = min 1 (real (Suc k) / 120 / 180)"
    "spawnY params = steadyCamera k - 100"
    by (simp_all add: params_def steadyParams_def)
  show "spawnTimer (steadyGen (Suc k)) = max 0.55 (1.2 - min 1 (real (Suc k) / 120 / 180) * 0.65)"
    unfolding g spawnPattern_zero[OF p3(1)] executePattern_fields p3 par ..
  show "patternHistory (steadyGen (Suc k)) =
      (if 5 \<le> length (patternHistory (steadyGen k)) then tl (patternHistory (steadyGen k)) else
         patternHistory (steadyGen k)) @
      [if 3 \<le> length (patternHistory (steadyGen k)) \<and>
           list_all (\<lambda>nm. nm = ''blockRain'')
             (drop (length (patternHistory (steadyGen k)) - 2) (patternHistory (steadyGen k))) \<and>
           50 \<le> \<bar>steadyCamera k - 100\<bar> / 10
        then ''chicane'' else ''blockRain'']"
    unfolding g spawnPattern_zero[OF p3(1)] executePattern_history p3 par ps_def
    by simp
qed

lemma steadyGen_1420:
  "spawnTimer (steadyGen 1420) = 449 / 144000"
  "patternHistory (steadyGen 1420) = [''blockRain'', ''blockRain'', ''chicane'', ''blockRain'', ''blockRain'']"
proof -
  have g0: "spawnTimer (steadyGen 0) = 0" "patternHistory (steadyGen 0) = []"
    by (simp_all add: newPatternSystem_def)
  have s0: "spawnTimer (steadyGen 1) = 518387 / 432000" "patternHistory (steadyGen 1) = [''blockRain'']"
    using steadyGen_spawn[of 0] g0 by (simp_all add: steadyCamera_def steadyY_def)
  have i1: "spawnTimer (steadyGen 144) = 3587 / 432000" "patternHistory (steadyGen 144) = [''blockRain'']"
    using steadyGen_idle[of 143 1] s0 by simp_all
  have s1: "spawnTimer (steadyGen 145) = 103303 / 86400" "patternHistory (steadyGen 145) = [''blockRain'', ''blockRain'']"
    using steadyGen_spawn[of 144] i1 by (simp_all add: steadyCamera_def steadyY_def)
  have i2: "spawnTimer (steadyGen 288) = 343 / 86400" "patternHistory (steadyGen 288) = [''blockRain'', ''blockRain'']"
    using steadyGen_idle[of 143 145] s1 by simp_all
  have s2: "spawnTimer (steadyGen 289) = 514643 / 432000" "patternHistory (steadyGen 289) = [''blockRain'', ''blockRain'', ''blockRain'']"
    using steadyGen_spawn[of 288] i2 by (simp_all add: steadyCamera_def steadyY_def)
  have i3: "spawnTimer (steadyGen 431) = 3443 / 432000" "patternHistory (steadyGen 431) = [''blockRain'', ''blockRain'', ''blockRain'']"
    using steadyGen_idle[of 142 289] s2 by simp_all
  have s3: "spawnTimer (steadyGen 432) = 1187 / 1000" "patternHistory (steadyGen 432) = [''blockRain'', ''blockRain'', ''blockRain'', ''blockRain'']"
    using steadyGen_spawn[of 431] i3 by (simp_all add: steadyCamera_def steadyY_def)
  have i4: "spawnTimer (steadyGen 574) = 11 / 3000" "patternHistory (steadyGen 574) = [''blockRain'', ''blockRain'', ''blockRain'', ''blockRain'']"
    using steadyGen_idle[of 142 432] s3 by simp_all
  have s4: "spawnTimer (steadyGen 575) = 20437 / 17280" "patternHistory (steadyGen 575) = [''blockRain'', ''blockRain'', ''blockRain'', ''blockRain'', ''blockRain'']"
    using steadyGen_spawn[of 574] i4 by (simp_all add: steadyCamera_def steadyY_def)
  have i5: "spawnTimer (steadyGen 716) = 133 / 17280" "patternHistory (steadyGen 716) = [''blockRain'', ''blockRain'', ''blockRain'', ''blockRain'', ''blockRain'']"
    using steadyGen_idle[of 141 575] s4 by simp_all
  have s5: "spawnTimer (steadyGen 717) = 169693 / 144000" "patternHistory (steadyGen 717) = [''blockRain'', ''blockRain'', ''blockRain'', ''blockRain'', ''blockRain'']"
    using steadyGen_spawn[of 716] i5 by (simp_all add: steadyCamera_def steadyY_def)
  have i6: "spawnTimer (steadyGen 858) = 493 / 144000" "patternHistory (steadyGen 858) = [''blockRain'', ''blockRain'', ''blockRain'', ''blockRain'', ''blockRain'']"
    using steadyGen_idle[of 141 717] s5 by simp_all
  have s6: "spawnTimer (steadyGen 859) = 507233 / 432000" "patternHistory (steadyGen 859) = [''blockRain'', ''blockRain'', ''blockRain'', ''blockRain'', ''blockRain'']"
    using steadyGen_spawn[of 858] i6 by (simp_all add: steadyCamera_def steadyY_def)
  have i7: "spawnTimer (steadyGen 999) = 3233 / 432000" "patternHistory (steadyGen 999) = [''blockRain'', ''blockRain'', ''blockRain'', ''blockRain'', ''blockRain'']"
    using steadyGen_idle[of 140 859] s6 by simp_all
  have s7: "spawnTimer (steadyGen 1000) = 2527 / 2160" "patternHistory (steadyGen 1000) = [''blockRain'', ''blockRain'', ''blockRain'', ''blockRain'', ''chicane'']"
    using steadyGen_spawn[of 999] i7 by (simp_all add: steadyCamera_def steadyY_def)
  have i8: "spawnTimer (steadyGen 1140) = 7 / 2160" "patternHistory (steadyGen 1140) = [''blockRain'', ''blockRain'', ''blockRain'', ''blockRain'', ''chicane'']"
    using steadyGen_idle[of 140 1000] s7 by simp_all
  have s8: "spawnTimer (steadyGen 1141) = 503567 / 432000" "patternHistory (steadyGen 1141) = [''blockRain'', ''blockRain'', ''blockRain'', ''chicane'', ''blockRain'']"
    using steadyGen_spawn[of 1140] i8 by (simp_all add: steadyCamera_def steadyY_def)
  have i9: "spawnTimer (steadyGen 1280) = 3167 / 432000" "patternHistory (steadyGen 1280) = [''blockRain'', ''blockRain'', ''blockRain'', ''chicane'', ''blockRain'']"
    using steadyGen_idle[of 139 1141] s8 by simp_all
  have s9: "spawnTimer (steadyGen 1281) = 167249 / 144000" "patternHistory (steadyGen 1281) = [''blockRain'', ''blockRain'', ''chicane'', ''blockRain'', ''blockRain'']"
    using steadyGen_spawn[of 1280] i9 by (simp_all add: steadyCamera_def steadyY_def)
  show "spawnTimer (steadyGen 1420) = 449 / 144000" "patternHistory (steadyGen 1420) = [''blockRain'', ''blockRain'', ''chicane'', ''blockRain'', ''blockRain'']"
    using steadyGen_idle[of 139 1281] s9 by simp_all
qed

lemma ticks1420_fields:
  "reachable (ticks 1420 engineSteady)"
  "gameState (ticks 1420 engineSteady) = Playing"
  "cameraY (ticks 1420 engineSteady) = - (333691 / 360)"
  "patterns (patternSystem (ticks 1420 engineSteady)) = initializePatterns"
  "spawnTimer (patternSystem (ticks 1420 engineSteady)) = 449 / 144000"
  "patternHistory (patternSystem (ticks 1420 engineSteady)) =
     [''blockRain'', ''blockRain'', ''chicane'', ''blockRain'', ''blockRain'']"
proof -
  have c: "steadyRun 1420 (ticks 1420 engineSteady)"
    and r: "reachable (ticks 1420 engineSteady)"
    using steadyRun_prefix[of 1420] by simp_all
  have p: "patternSystem (ticks 1420 engineSteady) = steadyGen 1420"
    "cameraY (ticks 1420 engineSteady) = steadyCamera 1420"
    "gameState (ticks 1420 engineSteady) = Playing"
    using c by (simp_all add: steadyRun_def)
  show "reachable (ticks 1420 engineSteady)" by (rule r)
  show "gameState (ticks 1420 engineSteady) = Playing" by (rule p(3))
  show "cameraY (ticks 1420 engineSteady) = - (333691 / 360)"
    unfolding p(2) by (simp add: steadyCamera_def steadyY_def)
  show "patterns (patternSystem (ticks 1420 engineSteady)) = initializePatterns"
    unfolding p(1) by (rule steadyGen_patterns)
  show "spawnTimer (patternSystem (ticks 1420 engineSteady)) = 449 / 144000"
    unfolding p(1) by (rule steadyGen_1420(1))
  show "patternHistory (patternSystem (ticks 1420 engineSteady)) =
     [''blockRain'', ''blockRain'', ''chicane'', ''blockRain'', ''blockRain'']"
    unfolding p(1) by (rule steadyGen_1420(2))
qed

section \<open>Rounding to binary64\<close>

lemma roundEven_add_int:
  assumes "q - of_int \<lfloor>q\<rfloor> \<noteq> 1 / 2"
  shows "roundEven (of_int m + q) = m + roundEven q"
  using assms by (simp add: roundEven_def Let_def)

lemma roundEven_near: "\<bar>of_int (roundEven q) - q\<bar> \<le> 1 / 2"
proof -
  have "of_int \<lfloor>q\<rfloor> \<le> q" "q < of_int \<lfloor>q\<rfloor> + 1"
    by linarith+
  then show ?thesis
    by (auto simp: roundEven_def Let_def)
qed

text \<open>
  In the binade from \<open>2 ^ j\<close> to \<open>2 ^ (j + 1)\<close> the values are the multiples of
  \<open>2 ^ (j - 52)\<close>, and rounding moves a number by at most half of that.
\<close>

lemma fl64_binade:
  assumes "2 powr of_int j \<le> \<bar>x\<bar>" and "\<bar>x\<bar> < 2 powr (of_int j + 1)" and "- 1022 \<le> j"
  shows "fl64 x = of_int (roundEven (x / 2 powr of_int (j - 52))) * 2 powr of_int (j - 52)"
proof -
  have "0 < (2::real) powr of_int j" by simp
  then have x: "0 < \<bar>x\<bar>" using assms(1) by linarith
  have "\<lfloor>log 2 \<bar>x\<bar>\<rfloor> = j"
    using assms(1,2) x by (subst floor_log_eq_powr_iff) simp_all
  moreover have "max (j - 52) (- 1074) = j - 52"
    using assms(3) by simp
  ultimately show ?thesis
    using x by (simp add: fl64_def Let_def)
qed

lemma fl64_error:
  assumes "\<bar>x\<bar> < 2 powr of_int n" and "- 1021 \<le> n"
  shows "\<bar>fl64 x - x\<bar> \<le> 2 powr of_int (n - 54)"
proof (cases "x = 0")
  case True
  then show ?thesis by (simp add: fl64_def)
next
  case False
  define e where "e = max (\<lfloor>log 2 \<bar>x\<bar>\<rfloor> - 52) (- 1074)"
  define p where "p = (2::real) powr of_int e"
  have p0: "0 < p" by (simp add: p_def)
  have x: "0 < \<bar>x\<bar>" using False by simp
  have "log 2 \<bar>x\<bar> < of_int n"
    using assms(1) x by (simp add: log_less_iff)
  then have "\<lfloor>log 2 \<bar>x\<bar>\<rfloor> < n"
    by (simp add: floor_less_iff)
  then have e: "e \<le> n - 53"
    using assms(2) by (simp add: e_def)
  have f: "fl64 x = of_int (roundEven (x / p)) * p"
    using False by (simp add: fl64_def Let_def e_def p_def)
  have "fl64 x - x = (of_int (roundEven (x / p)) - x / p) * p"
    unfolding f using p0 by (simp add: field_simps)
  then have "\<bar>fl64 x - x\<bar> = \<bar>of_int (roundEven (x / p)) - x / p\<bar> * p"
    using p0 by (simp add: abs_mult)
  also have "\<dots> \<le> (1 / 2) * p"
    using roundEven_near[of "x / p"] p0 by (intro mult_right_mono) simp_all
  also have "\<dots> = 2 powr (of_int e - 1)"
    by (simp add: p_def powr_diff)
  also have "\<dots> \<le> 2 powr of_int (n - 54)"
    using e by (intro powr_mono) simp_all
  finally show ?thesis .
qed

lemma fl64_64_128:
  assumes "64 \<le> \<bar>x\<bar>" and "\<bar>x\<bar> < 128"
  shows "fl64 x = of_int (roundEven (x * 2 ^ 46)) / 2 ^ 46"
  using fl64_binade[of 6 x] assms by (simp add: powr_minus field_simps)

lemma fl64_128_256:
  assumes "128 \<le> \<bar>x\<bar>" and "\<bar>x\<bar> < 256"
  shows "fl64 x = of_int (roundEven (x * 2 ^ 45)) / 2 ^ 45"
  using fl64_binade[of 7 x] assms by (simp add: powr_minus field_simps)

lemma fl64_error_32: "\<bar>x\<bar> < 32 \<Longrightarrow> \<bar>fl64 x - x\<bar> \<le> 1 / 2 ^ 49"
  using fl64_error[of x 5] by (simp add: powr_minus field_simps)

lemma fl64_error_128: "\<bar>x\<bar> < 128 \<Longrightarrow> \<bar>fl64 x - x\<bar> \<le> 1 / 2 ^ 47"
  using fl64_error[of x 7] by (simp add: powr_minus field_simps)

lemma fl64_error_256: "\<bar>x\<bar> < 256 \<Longrightarrow> \<bar>fl64 x - x\<bar> \<le> 1 / 2 ^ 46"
  using fl64_error[of x 8] by (simp add: powr_minus field_simps)

text \<open>The step \<^verbatim>\<open>1 / 120\<close> as a binary64 value, and four times it, which is exact.\<close>

lemma fl64_step: "fl64 (1 / 120) = 4803839602528529 / 2 ^ 59"
  using fl64_binade[of "- 7" "1 / 120"]
  by (simp add: powr_minus field_simps roundEven_def Let_def)

lemma fl64_step4: "fl64 (4 * (4803839602528529 / 2 ^ 59)) = 4803839602528529 / 2 ^ 57"
  using fl64_binade[of "- 5" "4 * (4803839602528529 / 2 ^ 59)"]
  by (simp add: powr_minus field_simps roundEven_def Let_def)

lemma physicsStep64_value: "physicsStep64 = 4803839602528529 / 2 ^ 59"
  unfolding physicsStep64_def by (rule fl64_step)

section \<open>The ascent in binary64 arithmetic\<close>

text \<open>
  Subtracting four steps from a speed that is a multiple of \<open>2 ^ - 45\<close>, between 64
  and 256, always adds the same amount to its magnitude: 1172812402961 / 2 ^ 45, which is
  less than 1 / 30 by about 1.9e-15.
\<close>

lemma roundEven_46: "roundEven (- (4803839602528529 / 2 ^ 11)) = - 2345624805922"
  "- (4803839602528529 / 2 ^ 11) - of_int \<lfloor>- (4803839602528529 / 2 ^ 11 :: real)\<rfloor> \<noteq> (1 / 2 :: real)"
  by (simp_all add: roundEven_def Let_def)

lemma roundEven_45: "roundEven (- (4803839602528529 / 2 ^ 12)) = - 1172812402961"
  "- (4803839602528529 / 2 ^ 12) - of_int \<lfloor>- (4803839602528529 / 2 ^ 12 :: real)\<rfloor> \<noteq> (1 / 2 :: real)"
  by (simp_all add: roundEven_def Let_def)

lemma fl64_speed_step:
  fixes m :: int
  assumes "64 \<le> of_int m / 2 ^ 45 + 4803839602528529 / (2 ^ 57 :: real)"
    and "of_int m / 2 ^ 45 + 4803839602528529 / (2 ^ 57 :: real) < 256"
  shows "fl64 (- (of_int m / 2 ^ 45) - 4803839602528529 / 2 ^ 57) =
      - ((of_int m + 1172812402961) / 2 ^ 45)"
proof -
  define x :: real where "x = - (of_int m / 2 ^ 45) - 4803839602528529 / 2 ^ 57"
  have a: "\<bar>x\<bar> = of_int m / 2 ^ 45 + 4803839602528529 / 2 ^ 57"
    using assms(1) by (simp add: x_def)
  show ?thesis
  proof (cases "\<bar>x\<bar> < 128")
    case True
    have "x * 2 ^ 46 = of_int (- 2 * m) + - (4803839602528529 / 2 ^ 11)"
      by (simp add: x_def field_simps)
    then have "roundEven (x * 2 ^ 46) = - 2 * m + - 2345624805922"
      using roundEven_add_int[OF roundEven_46(2), of "- 2 * m"] roundEven_46(1) by simp
    moreover have "fl64 x = of_int (roundEven (x * 2 ^ 46)) / 2 ^ 46"
      using assms(1) True unfolding a[symmetric] by (intro fl64_64_128) simp_all
    ultimately show ?thesis
      unfolding x_def[symmetric] by (simp add: field_simps)
  next
    case False
    have "x * 2 ^ 45 = of_int (- m) + - (4803839602528529 / 2 ^ 12)"
      by (simp add: x_def field_simps)
    then have "roundEven (x * 2 ^ 45) = - m + - 1172812402961"
      using roundEven_add_int[OF roundEven_45(2), of "- m"] roundEven_45(1) by simp
    moreover have "fl64 x = of_int (roundEven (x * 2 ^ 45)) / 2 ^ 45"
      using assms(2) False unfolding a[symmetric] by (intro fl64_128_256) simp_all
    ultimately show ?thesis
      unfolding x_def[symmetric] by (simp add: field_simps)
  qed
qed

lemma ticks64_Suc: "ticks64 (Suc n) = updatePhysics64 physicsStep64 (ticks64 n)"
  by (simp add: ticks64_def)

text \<open>
  The first 2401 ticks of a run: each of them finds the speed below the permitted speed and
  increments it, and the play time after \<open>k\<close> ticks is within \<open>k / 2 ^ 49\<close> of \<open>k\<close>
  steps.
\<close>

lemma ticks64_run:
  "k \<le> 2401 \<Longrightarrow>
     velocityY64 (ticks64 k) = - (of_int (2814749767106560 + int k * 1172812402961) / 2 ^ 45) \<and>
     real k * (4803839602528529 / 2 ^ 59 - 1 / 2 ^ 49) \<le> gameTime64 (ticks64 k) \<and>
     gameTime64 (ticks64 k) \<le> real k * (4803839602528529 / 2 ^ 59 + 1 / 2 ^ 49)"
proof (induction k)
  case 0
  show ?case
    by (simp add: ticks64_def startGame64_def BALLOON_BASE_VELOCITY_def)
next
  case (Suc k)
  define a where "a = ticks64 k"
  define t where "t = gameTime64 a"
  define m where "m = 2814749767106560 + int k * 1172812402961"
  define d :: real where "d = 4803839602528529 / 2 ^ 59"
  have dp: "physicsStep64 = d"
    unfolding d_def by (rule physicsStep64_value)
  define t1 where "t1 = fl64 (t + d)"
  define y where "y = fl64 (4 * t1)"
  define z where "z = fl64 (80 + y)"
  have k: "real k \<le> 2400" "0 \<le> real k" using Suc.prems by simp_all
  have ih: "velocityY64 a = - (of_int m / 2 ^ 45)"
    "real k * (d - 1 / 2 ^ 49) \<le> t" "t \<le> real k * (d + 1 / 2 ^ 49)"
    using Suc unfolding a_def t_def m_def d_def by simp_all
  have mk: "of_int m = 2814749767106560 + real k * 1172812402961"
    by (simp add: m_def)
  \<comment> \<open>the play time\<close>
  have t0: "0 \<le> t" "t + d < 32"
    using ih(2,3) k unfolding d_def by (simp_all add: field_simps)
  have "\<bar>t1 - (t + d)\<bar> \<le> 1 / 2 ^ 49"
    unfolding t1_def using t0 d_def by (intro fl64_error_32) simp
  then have near: "t + d - 1 / 2 ^ 49 \<le> t1" "t1 \<le> t + d + 1 / 2 ^ 49"
    by linarith+
  have sk: "real (Suc k) * (d - 1 / 2 ^ 49) = real k * (d - 1 / 2 ^ 49) + (d - 1 / 2 ^ 49)"
    "real (Suc k) * (d + 1 / 2 ^ 49) = real k * (d + 1 / 2 ^ 49) + (d + 1 / 2 ^ 49)"
    by (simp_all add: algebra_simps)
  have t1: "real (Suc k) * (d - 1 / 2 ^ 49) \<le> t1" "t1 \<le> real (Suc k) * (d + 1 / 2 ^ 49)"
    unfolding sk using ih(2,3) near by linarith+
  \<comment> \<open>the permitted speed\<close>
  have t1r: "0 \<le> t1" "t1 < 21"
    using t1 k unfolding d_def by (simp_all add: field_simps)
  have "\<bar>y - 4 * t1\<bar> \<le> 1 / 2 ^ 47"
    unfolding y_def using t1r by (intro fl64_error_128) simp
  then have y: "4 * t1 - 1 / 2 ^ 47 \<le> y" "y \<le> 4 * t1 + 1 / 2 ^ 47"
    by linarith+
  have "\<bar>z - (80 + y)\<bar> \<le> 1 / 2 ^ 46"
    unfolding z_def using y t1r by (intro fl64_error_256) simp
  then have z: "80 + y - 1 / 2 ^ 46 \<le> z"
    by linarith
  have cur: "\<bar>velocityY64 a\<bar> = of_int m / 2 ^ 45"
    unfolding ih(1) mk using k by simp
  have "of_int m / 2 ^ 45 < 80 + 4 * (real (Suc k) * (d - 1 / 2 ^ 49)) - 1 / 2 ^ 47 - 1 / 2 ^ 46"
    unfolding mk d_def using k by (simp add: field_simps)
  then have lt_z: "of_int m / 2 ^ 45 < z"
    using z y(1) t1(1) by linarith
  have lt_cap: "of_int m / 2 ^ 45 < (160 :: real)"
    unfolding mk using k by (simp add: field_simps)
  have below: "\<bar>velocityY64 a\<bar> < min 160 z"
    unfolding cur using lt_z lt_cap by simp
  \<comment> \<open>the increment\<close>
  have "fl64 (- (of_int m / 2 ^ 45) - 4803839602528529 / 2 ^ 57) =
      - ((of_int m + 1172812402961) / 2 ^ 45)"
    by (rule fl64_speed_step) (use k in \<open>simp_all add: mk field_simps\<close>)
  then have v: "fl64 (velocityY64 a - fl64 (4 * d)) =
      - (of_int (2814749767106560 + int (Suc k) * 1172812402961) / 2 ^ 45)"
    unfolding ih(1) d_def fl64_step4 by (simp add: m_def algebra_simps)
  have below64: "\<bar>velocityY64 a\<bar> <
      min 160 (fl64 (80 + fl64 (4 * fl64 (gameTime64 a + physicsStep64))))"
    using below unfolding z_def y_def t1_def t_def dp .
  have s: "ticks64 (Suc k) =
      a\<lparr>gameTime64 := fl64 (gameTime64 a + physicsStep64),
        velocityY64 := fl64 (velocityY64 a - fl64 (4 * physicsStep64))\<rparr>"
    unfolding ticks64_Suc a_def[symmetric]
    using below64
    by (simp add: updatePhysics64_def updateBalloon64_def Let_def
        BALLOON_MAX_VELOCITY_def BALLOON_BASE_VELOCITY_def BALLOON_ACCELERATION_def)
  have s2: "ticks64 (Suc k) = a\<lparr>gameTime64 := t1,
      velocityY64 := fl64 (velocityY64 a - fl64 (4 * d))\<rparr>"
    unfolding s dp t1_def t_def ..
  show ?case
    unfolding s2 using v t1 by (simp add: d_def)
qed

lemma updatePhysics64_at_cap:
  assumes "BALLOON_MAX_VELOCITY \<le> \<bar>velocityY64 a\<bar>"
  shows "velocityY64 (updatePhysics64 dt a) = velocityY64 a"
  using assms by (simp add: updatePhysics64_def updateBalloon64_def Let_def)

lemma ticks64_beyond:
  "velocityY64 (ticks64 (2401 + n)) = - (5630672346615921 / 35184372088832)"
proof (induction n)
  case 0
  show ?case using ticks64_run[of 2401] by simp
next
  case (Suc n)
  have "BALLOON_MAX_VELOCITY \<le> \<bar>velocityY64 (ticks64 (2401 + n))\<bar>"
    unfolding Suc by (simp add: BALLOON_MAX_VELOCITY_def)
  then have "velocityY64 (ticks64 (Suc (2401 + n))) = velocityY64 (ticks64 (2401 + n))"
    unfolding ticks64_Suc by (rule updatePhysics64_at_cap)
  then show ?case using Suc by simp
qed
section \<open>The claims\<close>

subsection \<open>C1: swapping the operands of the collision test\<close>

text \<open>
  C1, as amended.  For two game objects neither of which is a rectangular archetype (block or
  sweeper), \<^verbatim>\<open>checkCollision(a, b)\<close> and \<^verbatim>\<open>checkCollision(b, a)\<close> agree on whether an overlap
  exists; when both return a \<^verbatim>\<open>CollisionInfo\<close> and the centres differ, the contact normals
  are exact negatives of each other, and when the centres coincide both normals are the
  fixed vector (1, 0).
\<close>

theorem checkCollision_circular_swap:
  assumes "type a \<noteq> ''block''" and "type a \<noteq> ''sweeper''"
    and "type b \<noteq> ''block''" and "type b \<noteq> ''sweeper''"
  shows "(checkCollision a b = None) = (checkCollision b a = None) \<and>
    (case (checkCollision a b, checkCollision b a) of
       (Some ci, Some cj) \<Rightarrow>
         if position a = position b
         then normal ci = \<lparr>xv = 1, yv = 0\<rparr> \<and> normal cj = \<lparr>xv = 1, yv = 0\<rparr>
         else normal cj = \<lparr>xv = - xv (normal ci), yv = - yv (normal ci)\<rparr>
     | _ \<Rightarrow> True)"
proof -
  have ab: "checkCollision a b = circleVsCircle a b"
    using assms(3,4) by (rule checkCollision_circular)
  have ba: "checkCollision b a = circleVsCircle b a"
    using assms(1,2) by (rule checkCollision_circular)
  have verdict: "(checkCollision a b = None) = (checkCollision b a = None)"
    unfolding ab ba by (rule circleVsCircle_verdict_swap)
  show ?thesis
  proof (cases "circleVsCircle a b")
    case None
    then show ?thesis using verdict unfolding ab ba by simp
  next
    case (Some ci)
    then obtain cj where cj: "circleVsCircle b a = Some cj"
      using verdict unfolding ab ba by auto
    show ?thesis
    proof (cases "position a = position b")
      case True
      have "normal ci = \<lparr>xv = 1, yv = 0\<rparr>"
        using Some True by (rule circleVsCircle_normal_degenerate)
      moreover have "normal cj = \<lparr>xv = 1, yv = 0\<rparr>"
        using cj True[symmetric] by (rule circleVsCircle_normal_degenerate)
      ultimately show ?thesis
        using verdict True unfolding ab ba Some cj by simp
    next
      case False
      have "normal cj = \<lparr>xv = - xv (normal ci), yv = - yv (normal ci)\<rparr>"
        using Some cj False by (rule circleVsCircle_normal_swap)
      then show ?thesis
        using verdict False unfolding ab ba Some cj by simp
    qed
  qed
qed

theorem checkCollision_circular_swap_witness:
  "type (shieldAt 500 500 42) \<noteq> ''block'' \<and> type (shieldAt 500 500 42) \<noteq> ''sweeper'' \<and>
   type (shardAt 520 500) \<noteq> ''block'' \<and> type (shardAt 520 500) \<noteq> ''sweeper'' \<and>
   normal (the (checkCollision (shieldAt 500 500 42) (shardAt 520 500))) = \<lparr>xv = 1, yv = 0\<rparr> \<and>
   normal (the (checkCollision (shardAt 520 500) (shieldAt 500 500 42))) = \<lparr>xv = - 1, yv = 0\<rparr>"
proof -
  have t: "type (shieldAt 500 500 42) \<noteq> ''block''" "type (shieldAt 500 500 42) \<noteq> ''sweeper''"
    "type (shardAt 520 500) \<noteq> ''block''" "type (shardAt 520 500) \<noteq> ''sweeper''"
    by (simp_all add: shieldAt_def shardAt_def obstacleLiteral_def)
  have ab: "checkCollision (shieldAt 500 500 42) (shardAt 520 500) =
      Some \<lparr>penetration = 30, normal = \<lparr>xv = 1, yv = 0\<rparr>, point = \<lparr>xv = 542, yv = 500\<rparr>\<rparr>"
    by (simp add: checkCollision_def circleVsCircle_def shieldAt_def shardAt_def
        obstacleLiteral_def Let_def sqrt_400)
  have pos: "position (shieldAt 500 500 42) \<noteq> position (shardAt 520 500)"
    by (simp add: shieldAt_def shardAt_def obstacleLiteral_def)
  from checkCollision_circular_swap[OF t] ab pos
  have "normal (the (checkCollision (shardAt 520 500) (shieldAt 500 500 42))) =
      \<lparr>xv = - 1, yv = 0\<rparr>"
    by (auto split: option.splits)
  with t ab show ?thesis by simp
qed

text \<open>
  C1 as stated fails.  A spike and a shard with the same centre get the normal (1, 0) in
  both orders, which is not its own negative.  A shield of radius 36 at (80, 0) overlaps
  the chicane wall centred at (0, 0) when the wall is the second operand (rectangle test),
  and does not when the shield is the second operand (circle test on the wall's radius 25).
\<close>

theorem checkCollision_swap_counterexample:
  "checkCollision (spikeAt 300 200) (shardAt 300 200) =
     Some \<lparr>penetration = 33, normal = \<lparr>xv = 1, yv = 0\<rparr>, point = \<lparr>xv = 300, yv = 200\<rparr>\<rparr> \<and>
   checkCollision (shardAt 300 200) (spikeAt 300 200) =
     Some \<lparr>penetration = 33, normal = \<lparr>xv = 1, yv = 0\<rparr>, point = \<lparr>xv = 300, yv = 200\<rparr>\<rparr> \<and>
   checkCollision (shieldAt 80 0 36) (chicaneWallAt 0 0) =
     Some \<lparr>penetration = 6, normal = \<lparr>xv = 1, yv = 0\<rparr>, point = \<lparr>xv = 50, yv = 0\<rparr>\<rparr> \<and>
   checkCollision (chicaneWallAt 0 0) (shieldAt 80 0 36) = None"
  by (simp add: checkCollision_def circleVsCircle_def circleVsAABB_def spikeAt_def shardAt_def
      chicaneWallAt_def shieldAt_def obstacleLiteral_def Let_def sqrt_900)

subsection \<open>C2: what the score measures\<close>

text \<open>
  C2, as amended.  After every physics tick of a run, the score is the height of the balloon
  above the bottom edge of the canvas divided by 10, that is 10 plus a tenth of the
  vertical distance climbed above the run's starting position (which is 100 units above the
  bottom edge); the score never decreases across the ticks of a run; and \<^verbatim>\<open>startGame\<close>
  sets it to 0, which it is until the first tick.
\<close>

theorem score_is_height_above_canvas_bottom:
  assumes "reachable s" and "gameState s = Playing"
  shows "score (updatePhysics physicsStep s) =
           (canvas_height s - yv (position (balloon (updatePhysics physicsStep s)))) / 10 \<and>
         score (updatePhysics physicsStep s) =
           10 + ((canvas_height s - 100) -
                 yv (position (balloon (updatePhysics physicsStep s)))) / 10 \<and>
         score s \<le> score (updatePhysics physicsStep s) \<and>
         score (startGame s) = 0"
proof -
  define s2 where "s2 = updatePhysics physicsStep s"
  have r2: "reachable s2"
    unfolding s2_def using assms by (rule reachable.tick)
  have y2: "yv (position (balloon s2)) \<le> canvas_height s - 100"
    using reachable_ascent[OF r2] by (simp add: s2_def)
  have sc: "score s2 = max 0 ((canvas_height s - yv (position (balloon s2))) / 10)"
    unfolding s2_def by (rule updatePhysics_score)
  have eq: "score s2 = (canvas_height s - yv (position (balloon s2))) / 10"
    using y2 by (simp add: sc)
  obtain k :: nat where k: "yv (velocity (balloon s2)) = - (80 + real k / 30)"
    using reachable_ascent[OF r2] by blast
  have "yv (position (balloon s2)) =
      yv (position (balloon s)) + yv (velocity (balloon s2)) * physicsStep"
    unfolding s2_def by (rule updatePhysics_balloon_y)
  moreover have "yv (velocity (balloon s2)) * physicsStep \<le> 0"
    by (simp add: k physicsStep_def)
  ultimately have "yv (position (balloon s2)) \<le> yv (position (balloon s))"
    by simp
  moreover have "score s \<le> (canvas_height s - yv (position (balloon s))) / 10"
    using reachable_ascent[OF assms(1)] by blast
  ultimately have "score s \<le> score s2"
    by (simp add: eq)
  moreover have "score s2 = 10 + ((canvas_height s - 100) - yv (position (balloon s2))) / 10"
    unfolding eq by argo
  moreover have "score (startGame s) = 0"
    by simp
  ultimately show ?thesis
    using eq unfolding s2_def by blast
qed

theorem score_is_height_above_canvas_bottom_witness:
  "reachable (startGame engine0) \<and> gameState (startGame engine0) = Playing \<and>
   score (updatePhysics physicsStep (startGame engine0)) =
     10 + (980 - yv (position (balloon (updatePhysics physicsStep (startGame engine0))))) / 10 \<and>
   score (startGame engine0) \<le> score (updatePhysics physicsStep (startGame engine0))"
  using score_is_height_above_canvas_bottom[of "startGame engine0"] reachable_start0
  by (simp add: start_balloon engine0_fields)

text \<open>
  C2 as stated fails at the first tick of a run: the balloon has climbed 2401 / 3600 units
  above its starting height 980, a tenth of which is 2401 / 36000, and the score is
  10 + 2401 / 36000.
\<close>

theorem score_offset_counterexample:
  "yv (position (balloon (startGame engine0))) = 980 \<and>
   yv (position (balloon (updatePhysics physicsStep (startGame engine0)))) = 980 - 2401 / 3600 \<and>
   score (updatePhysics physicsStep (startGame engine0)) = 10 + 2401 / 36000"
proof -
  have vy: "yv (velocity (balloon (updatePhysics physicsStep (startGame engine0)))) = - (2401 / 30)"
    by (simp add: updatePhysics_balloon_vy start_balloon engine0_fields physicsStep_def)
  have y: "yv (position (balloon (updatePhysics physicsStep (startGame engine0)))) = 980 - 2401 / 3600"
    by (simp add: updatePhysics_balloon_y vy start_balloon engine0_fields)
       (simp add: physicsStep_def)
  have "score (updatePhysics physicsStep (startGame engine0)) = 10 + 2401 / 36000"
    by (simp add: updatePhysics_score y engine0_fields)
  with y show ?thesis by (simp add: start_balloon engine0_fields)
qed

subsection \<open>C3: the shield and the viewport band\<close>

text \<open>
  C3, as amended.  In every state of a run in which the shield size is not changed, on a
  canvas at least two shield radii wide and at least the radius plus 150 high, the shield's
  position lies within \<open>[radius, width - radius]\<close> horizontally, not above the upper
  edge \<open>cameraY + radius\<close> of the camera-relative band, and at most 5 units below its
  lower edge \<open>cameraY + height - radius\<close>.  In every tick the target is clamped into the
  band \<open>[radius, width - radius]\<close> by \<open>[cameraY + radius, cameraY + height - radius]\<close> of
  the camera offset at the start of the tick, the radius is kept, and the camera offset
  does not increase and drops by at most 7 / 5.
\<close>

theorem shield_band_during_run:
  assumes "inRun s"
    and "2 * radius (shield s) \<le> canvas_width s"
    and "radius (shield s) + 150 \<le> canvas_height s"
  shows "radius (shield s) \<le> xv (position (shield s)) \<and>
         xv (position (shield s)) \<le> canvas_width s - radius (shield s) \<and>
         cameraY s + radius (shield s) \<le> yv (position (shield s)) \<and>
         yv (position (shield s)) \<le> cameraY s + canvas_height s - radius (shield s) + 5 \<and>
         (gameState s = Playing \<longrightarrow>
            (let s' = updatePhysics physicsStep s; r = radius (shield s')
             in r = radius (shield s) \<and>
                r \<le> xv (targetPosition (shield s')) \<and>
                xv (targetPosition (shield s')) \<le> canvas_width s' - r \<and>
                cameraY s + r \<le> yv (targetPosition (shield s')) \<and>
                yv (targetPosition (shield s')) \<le> cameraY s + canvas_height s' - r \<and>
                cameraY s' \<le> cameraY s \<and> cameraY s - 7 / 5 \<le> cameraY s'))"
proof -
  have rs: "reachable s" using assms(1) by (rule inRun_reachable)
  have "radius (shield s) \<le> 48"
    using reachable_radius[OF rs] getShieldRadius_range(2)[of "settings s"] by simp
  then have h2: "2 * radius (shield s) \<le> canvas_height s" using assms(3) by simp
  have a: "radius (shield s) \<le> xv (position (shield s)) \<and>
         xv (position (shield s)) \<le> canvas_width s - radius (shield s) \<and>
         cameraY s + radius (shield s) \<le> yv (position (shield s)) \<and>
         yv (position (shield s)) \<le> cameraY s + canvas_height s - radius (shield s) + 5"
    using assms by (rule inRun_shield_band)
  have b: "(let s' = updatePhysics physicsStep s; r = radius (shield s')
             in r = radius (shield s) \<and>
                r \<le> xv (targetPosition (shield s')) \<and>
                xv (targetPosition (shield s')) \<le> canvas_width s' - r \<and>
                cameraY s + r \<le> yv (targetPosition (shield s')) \<and>
                yv (targetPosition (shield s')) \<le> cameraY s + canvas_height s' - r \<and>
                cameraY s' \<le> cameraY s \<and> cameraY s - 7 / 5 \<le> cameraY s')"
    if p: "gameState s = Playing"
    unfolding Let_def
    using updatePhysics_target_clamped[OF p assms(2) h2, of physicsStep]
      updatePhysics_camera_up[of physicsStep s] updatePhysics_camera_step[OF rs p]
    by (simp add: updatePhysics_shield_step)
  show ?thesis using a b by blast
qed

text \<open>
  An instance: the state 415 ticks into the run with the pointer held at (960, 1038), where
  the camera has begun to move, and the target of the tick after it.
\<close>

theorem shield_band_during_run_witness:
  "inRun (ticks 415 enginePointerLow) \<and>
   2 * radius (shield (ticks 415 enginePointerLow)) \<le> canvas_width (ticks 415 enginePointerLow) \<and>
   radius (shield (ticks 415 enginePointerLow)) + 150 \<le> canvas_height (ticks 415 enginePointerLow) \<and>
   gameState (ticks 415 enginePointerLow) = Playing \<and>
   42 \<le> xv (position (shield (ticks 415 enginePointerLow))) \<and>
   xv (position (shield (ticks 415 enginePointerLow))) \<le> 1878 \<and>
   - (29 / 45) + 42 \<le> yv (position (shield (ticks 415 enginePointerLow))) \<and>
   yv (position (shield (ticks 415 enginePointerLow))) \<le> - (29 / 45) + 1038 + 5 \<and>
   42 \<le> xv (targetPosition (shield (ticks 416 enginePointerLow))) \<and>
   xv (targetPosition (shield (ticks 416 enginePointerLow))) \<le> 1878 \<and>
   - (29 / 45) + 42 \<le> yv (targetPosition (shield (ticks 416 enginePointerLow))) \<and>
   yv (targetPosition (shield (ticks 416 enginePointerLow))) \<le> - (29 / 45) + 1038"
proof -
  have i: "inRun (ticks 415 enginePointerLow)"
    by (rule inRun_prefix) simp
  have h: "2 * radius (shield (ticks 415 enginePointerLow)) \<le> canvas_width (ticks 415 enginePointerLow)"
    "radius (shield (ticks 415 enginePointerLow)) + 150 \<le> canvas_height (ticks 415 enginePointerLow)"
    by (simp_all add: ticks415_fields)
  have e: "ticks 416 enginePointerLow = updatePhysics physicsStep (ticks 415 enginePointerLow)"
    using ticks_Suc[of 415 enginePointerLow] by simp
  show ?thesis
    using shield_band_during_run[OF i h] i
    by (simp add: e ticks415_fields Let_def updatePhysics_shield_step)
qed

text \<open>
  C3 as stated fails once the camera scrolls.  With the pointer held at the lowest point of
  the shield's range, 415 ticks after \<^verbatim>\<open>startGame\<close> the run is still in the playing state, the
  camera has moved up by 29 / 45 and the shield, which trails its target, is 0.64 units
  below the lower edge \<open>cameraY + height - radius\<close> of the band.  It fails as well, and by
  more than 5 units, when the shield size is changed in mid-run: 30 ticks into the same run
  the shield is within 0.01 of the lower edge 1038 for its radius 42, and
  \<^verbatim>\<open>setShieldSize\<close> with \<open>Large\<close> makes the radius 48 and the lower edge 1032.
\<close>

theorem shield_below_band_counterexample:
  "reachable (ticks 415 enginePointerLow) \<and>
   gameState (ticks 415 enginePointerLow) = Playing \<and>
   canvas_height (ticks 415 enginePointerLow) = 1080 \<and>
   radius (shield (ticks 415 enginePointerLow)) = 42 \<and>
   cameraY (ticks 415 enginePointerLow) = - (29 / 45) \<and>
   yv (position (shield (ticks 415 enginePointerLow))) = 1038 - 108 * (18 / 25) ^ 415 \<and>
   cameraY (ticks 415 enginePointerLow) + canvas_height (ticks 415 enginePointerLow) -
     radius (shield (ticks 415 enginePointerLow)) <
   yv (position (shield (ticks 415 enginePointerLow))) \<and>
   reachable (setShieldSize Large (ticks 30 enginePointerLow)) \<and>
   gameState (setShieldSize Large (ticks 30 enginePointerLow)) = Playing \<and>
   canvas_height (setShieldSize Large (ticks 30 enginePointerLow)) = 1080 \<and>
   radius (shield (ticks 30 enginePointerLow)) = 42 \<and>
   radius (shield (setShieldSize Large (ticks 30 enginePointerLow))) = 48 \<and>
   cameraY (setShieldSize Large (ticks 30 enginePointerLow)) = 0 \<and>
   yv (position (shield (setShieldSize Large (ticks 30 enginePointerLow)))) =
     1038 - 108 * (18 / 25) ^ 30 \<and>
   cameraY (setShieldSize Large (ticks 30 enginePointerLow)) +
     canvas_height (setShieldSize Large (ticks 30 enginePointerLow)) -
     radius (shield (setShieldSize Large (ticks 30 enginePointerLow))) + 5 <
   yv (position (shield (setShieldSize Large (ticks 30 enginePointerLow))))"
proof -
  have c: "calmRun 30 (ticks 30 enginePointerLow)" and r: "reachable (ticks 30 enginePointerLow)"
    using calmRun_prefix[of 30] by simp_all
  have r2: "reachable (setShieldSize Large (ticks 30 enginePointerLow))"
    using r by (rule reachable.cmd_setShieldSize)
  have f: "gameState (setShieldSize Large (ticks 30 enginePointerLow)) = Playing"
    "canvas_height (setShieldSize Large (ticks 30 enginePointerLow)) = 1080"
    "radius (shield (ticks 30 enginePointerLow)) = 42"
    "radius (shield (setShieldSize Large (ticks 30 enginePointerLow))) = 48"
    "cameraY (setShieldSize Large (ticks 30 enginePointerLow)) = 0"
    "yv (position (shield (setShieldSize Large (ticks 30 enginePointerLow)))) =
       1038 - 108 * (18 / 25) ^ 30"
    using c by (simp_all add: calmRun_def setShieldSize_def getShieldRadius_def Let_def)
  show ?thesis
    using r2 f shield_lag_30 shield_lag_small by (simp add: ticks415_fields)
qed

subsection \<open>C4: the cap on the balloon's vertical speed\<close>

text \<open>
  C4 fails on the code in every run that lasts longer than 20 seconds of play.
  \<^verbatim>\<open>updateBalloon\<close> compares the speed with the permitted speed before it increments it
  and does not clamp the result.  In exact arithmetic the increments of 1 / 30 reach the
  cap 160 exactly at tick 2400 and stop there (lemma \<open>reachable_ascent\<close>).  In binary64
  arithmetic, in which the program runs, every increment is slightly less than 1 / 30: after
  tick 2400 the speed is 159.99999999999545, still below the cap, tick 2401 increments it
  once more, to 160.03333333332878, and there it stays, above the cap and so above the
  minimum of the cap and of base speed plus acceleration times play time, for the rest of the
  run.  Runs of that length exist: the one in which every random number is 0 is still in the
  playing state after 2400 ticks (lemma \<open>steadyRun_prefix\<close>).
\<close>

theorem balloon_speed_passes_cap_binary64:
  "velocityY64 (ticks64 2400) = - (175921860444155 / 1099511627776) \<and>
   \<bar>velocityY64 (ticks64 2400)\<bar> < BALLOON_MAX_VELOCITY \<and>
   velocityY64 (ticks64 2401) = - (5630672346615921 / 35184372088832) \<and>
   (\<forall>n. velocityY64 (ticks64 (2401 + n)) = - (5630672346615921 / 35184372088832) \<and>
        min BALLOON_MAX_VELOCITY
          (BALLOON_BASE_VELOCITY + BALLOON_ACCELERATION * gameTime64 (ticks64 (2401 + n))) <
        \<bar>velocityY64 (ticks64 (2401 + n))\<bar>)"
proof -
  have a: "velocityY64 (ticks64 2400) = - (175921860444155 / 1099511627776)"
    using ticks64_run[of 2400] by simp
  have b: "velocityY64 (ticks64 2401) = - (5630672346615921 / 35184372088832)"
    using ticks64_beyond[of 0] by simp
  have c: "min BALLOON_MAX_VELOCITY
          (BALLOON_BASE_VELOCITY + BALLOON_ACCELERATION * gameTime64 (ticks64 (2401 + n))) <
        \<bar>velocityY64 (ticks64 (2401 + n))\<bar>" for n
    unfolding ticks64_beyond by (simp add: BALLOON_MAX_VELOCITY_def min_def)
  show ?thesis
    using a b c ticks64_beyond by (simp add: BALLOON_MAX_VELOCITY_def)
qed

subsection \<open>C5: keyboard control of the shield target\<close>

text \<open>
  C5, as amended.  In every physics tick in the playing state in which the held directional
  keys do not cancel (exactly one of W and S is held, or exactly one of A and D), the
  shield's target position for that tick is the current shield position plus the
  keyboard-speed-scaled delta, clamped to the viewport band, and the pointer position has no
  influence on it.
\<close>

theorem keyboard_overrides_pointer:
  assumes "gameState s = Playing" and "dt \<noteq> 0"
    and "(''KeyW'' \<in> keys s) \<noteq> (''KeyS'' \<in> keys s) \<or>
         (''KeyA'' \<in> keys s) \<noteq> (''KeyD'' \<in> keys s)"
  shows "targetPosition (shield (updatePhysics dt s)) =
      \<lparr>xv = max (radius (shield s)) (min (canvas_width s - radius (shield s))
              (xv (position (shield s)) +
                 ((if ''KeyD'' \<in> keys s then keyboardSpeed * dt else 0) -
                  (if ''KeyA'' \<in> keys s then keyboardSpeed * dt else 0)))),
       yv = max (radius (shield s) + cameraY s)
              (min (canvas_height s + cameraY s - radius (shield s))
              (yv (position (shield s)) +
                 ((if ''KeyS'' \<in> keys s then keyboardSpeed * dt else 0) -
                  (if ''KeyW'' \<in> keys s then keyboardSpeed * dt else 0))))\<rparr> \<and>
    targetPosition (shield (updatePhysics dt (s\<lparr>mousePosition := p, worldMousePosition := q\<rparr>))) =
      targetPosition (shield (updatePhysics dt s))"
proof -
  define s1 where "s1 = s\<lparr>gameTime := gameTime s + dt\<rparr>"
  define s2 where "s2 = s\<lparr>mousePosition := p, worldMousePosition := q, gameTime := gameTime s + dt\<rparr>"
  have a1: "gameState s1 = Playing" "keys s1 = keys s" "shield s1 = shield s"
    "canvas_width s1 = canvas_width s" "canvas_height s1 = canvas_height s" "cameraY s1 = cameraY s"
    using assms(1) by (simp_all add: s1_def)
  have a2: "gameState s2 = Playing" "keys s2 = keys s" "shield s2 = shield s"
    "canvas_width s2 = canvas_width s" "canvas_height s2 = canvas_height s" "cameraY s2 = cameraY s"
    using assms(1) by (simp_all add: s2_def)
  have k1: "(''KeyW'' \<in> keys s1) \<noteq> (''KeyS'' \<in> keys s1) \<or> (''KeyA'' \<in> keys s1) \<noteq> (''KeyD'' \<in> keys s1)"
    using assms(3) unfolding a1 .
  have k2: "(''KeyW'' \<in> keys s2) \<noteq> (''KeyS'' \<in> keys s2) \<or> (''KeyA'' \<in> keys s2) \<noteq> (''KeyD'' \<in> keys s2)"
    using assms(3) unfolding a2 .
  have t1: "targetPosition (shield (updatePhysics dt s)) = targetPosition (shield (updateInput dt s1))"
    unfolding s1_def by (rule updatePhysics_target)
  have t2: "targetPosition (shield (updatePhysics dt (s\<lparr>mousePosition := p, worldMousePosition := q\<rparr>))) =
      targetPosition (shield (updateInput dt s2))"
    unfolding s2_def by (simp add: updatePhysics_target)
  show ?thesis
    unfolding t1 t2 updateInput_keyboard[OF a1(1) assms(2) k1] updateInput_keyboard[OF a2(1) assms(2) k2] a1 a2
    by simp
qed

theorem keyboard_overrides_pointer_witness:
  "gameState engineKeyAtEdge = Playing \<and> physicsStep \<noteq> 0 \<and>
   ''KeyS'' \<in> keys engineKeyAtEdge \<and> ''KeyW'' \<notin> keys engineKeyAtEdge \<and>
   yv (targetPosition (shield (updatePhysics physicsStep engineKeyAtEdge))) = 1038 \<and>
   yv (targetPosition (shield (updatePhysics physicsStep
      (engineKeyAtEdge\<lparr>mousePosition := \<lparr>xv = 5, yv = 7\<rparr>,
         worldMousePosition := \<lparr>xv = 5, yv = 7\<rparr>\<rparr>)))) = 1038"
proof -
  have h: "gameState engineKeyAtEdge = Playing" "physicsStep \<noteq> 0"
   "(''KeyW'' \<in> keys engineKeyAtEdge) \<noteq> (''KeyS'' \<in> keys engineKeyAtEdge) \<or>
    (''KeyA'' \<in> keys engineKeyAtEdge) \<noteq> (''KeyD'' \<in> keys engineKeyAtEdge)"
    by (simp_all add: engineKeyAtEdge_fields physicsStep_def)
  have t: "yv (targetPosition (shield (updatePhysics physicsStep engineKeyAtEdge))) = 1038"
    using engineKeyAtEdge_target[where p = "mousePosition engineKeyAtEdge"
        and q = "worldMousePosition engineKeyAtEdge"] by simp
  show ?thesis
    using keyboard_overrides_pointer[OF h, of "\<lparr>xv = 5, yv = 7\<rparr>" "\<lparr>xv = 5, yv = 7\<rparr>"] h(1,2) t
    by (simp add: engineKeyAtEdge_fields)
qed

text \<open>
  C5 as stated fails in two ways, each in a reachable state.  Sixteen ticks into a run with
  the pointer at the lower edge, the shield is less than 2.5 units above the edge 1038; with
  S then held, the target is the edge, not the position plus the delta: the target is
  clamped.  And where W and S are both held the delta is zero and the target is the
  pointer's position, (100, 100) or (200, 300), not the shield's position (960, 930).
\<close>

theorem keyboard_target_counterexample:
  "reachable engineKeyAtEdge \<and> gameState engineKeyAtEdge = Playing \<and>
   ''KeyS'' \<in> keys engineKeyAtEdge \<and>
   yv (position (shield engineKeyAtEdge)) = 1038 - 108 * (18 / 25) ^ 16 \<and>
   keyboardSpeed * physicsStep = 5 / 2 \<and>
   1038 < yv (position (shield engineKeyAtEdge)) + keyboardSpeed * physicsStep \<and>
   yv (targetPosition (shield (updatePhysics physicsStep engineKeyAtEdge))) = 1038 \<and>
   reachable (engineOpposingKeys 100 100) \<and> reachable (engineOpposingKeys 200 300) \<and>
   gameState (engineOpposingKeys 100 100) = Playing \<and>
   ''KeyW'' \<in> keys (engineOpposingKeys 100 100) \<and>
   position (shield (engineOpposingKeys 100 100)) = \<lparr>xv = 960, yv = 930\<rparr> \<and>
   targetPosition (shield (updatePhysics physicsStep (engineOpposingKeys 100 100))) =
     \<lparr>xv = 100, yv = 100\<rparr> \<and>
   targetPosition (shield (updatePhysics physicsStep (engineOpposingKeys 200 300))) =
     \<lparr>xv = 200, yv = 300\<rparr>"
proof -
  have t: "targetPosition (shield (updatePhysics physicsStep (engineOpposingKeys mx my))) =
     \<lparr>xv = max 42 (min 1878 mx), yv = max 42 (min 1038 my)\<rparr>" for mx my
    by (simp add: updatePhysics_target updateInput_def Let_def engineOpposingKeys_fields)
  have e: "yv (targetPosition (shield (updatePhysics physicsStep engineKeyAtEdge))) = 1038"
    using engineKeyAtEdge_target[where p = "mousePosition engineKeyAtEdge"
        and q = "worldMousePosition engineKeyAtEdge"] by simp
  have a: "keyboardSpeed * physicsStep = 5 / 2"
    by (simp add: keyboardSpeed_def physicsStep_def)
  have "108 * (18 / 25 :: real) ^ 16 < 5 / 2"
    by (simp add: power_divide)
  then have b: "1038 < yv (position (shield engineKeyAtEdge)) + keyboardSpeed * physicsStep"
    unfolding a engineKeyAtEdge_fields by simp
  show ?thesis
    using b by (simp add: t e a engineKeyAtEdge_fields engineOpposingKeys_fields
        reachable_engineOpposingKeys)
qed

subsection \<open>C6: a shard that touches the shield\<close>

text \<open>
  C6 fails on the code at one configuration.  A shard whose centre is exactly the shield's
  overlaps the shield, \<^verbatim>\<open>handleShieldCollision\<close> takes the zero-distance branch and returns
  before the line that deactivates shards: the shard is still active after the resolution,
  and after the whole shield loop of \<^verbatim>\<open>checkCollisions\<close>.  (Off the centre a shard is
  deactivated: lemma \<open>shard_off_centre_deactivated\<close>.)
\<close>

theorem shard_on_shield_centre_stays_active:
  "checkCollision (shieldAt 500 500 42) (shardAt 500 500) =
     Some \<lparr>penetration = 50, normal = \<lparr>xv = 1, yv = 0\<rparr>, point = \<lparr>xv = 500, yv = 500\<rparr>\<rparr> \<and>
   active (fst (handleShieldCollision (shieldAt 500 500 42) (shardAt 500 500)
     \<lparr>penetration = 50, normal = \<lparr>xv = 1, yv = 0\<rparr>, point = \<lparr>xv = 500, yv = 500\<rparr>\<rparr>
     (\<lambda>n. 1 / 2))) \<and>
   list_all active (fst (shieldCollisions (obstacles engineC6) engineC6))"
proof -
  have c: "checkCollision (shieldAt 500 500 42) (shardAt 500 500) =
     Some \<lparr>penetration = 50, normal = \<lparr>xv = 1, yv = 0\<rparr>, point = \<lparr>xv = 500, yv = 500\<rparr>\<rparr>"
    by (simp add: checkCollision_def circleVsCircle_def shieldAt_def shardAt_def
        obstacleLiteral_def Let_def)
  have h: "active (fst (handleShieldCollision (shieldAt 500 500 42) (shardAt 500 500) ci rnd))"
    for ci rnd
    by (simp add: handleShieldCollision_def shieldAt_def shardAt_def obstacleLiteral_def Let_def)
  have sh: "shield engineC6 = shieldAt 500 500 42" "obstacles engineC6 = [shardAt 500 500]"
    by (simp_all add: engineC6_def)
  have a: "active (shardAt 500 500)"
    by (simp add: shardAt_def obstacleLiteral_def)
  have "list_all active (fst (shieldCollisions (obstacles engineC6) engineC6))"
    by (simp add: sh a c h split_beta Let_def)
  with c h show ?thesis by simp
qed

subsection \<open>C7: no third selection of the same pattern\<close>

text \<open>
  C7.  In every tick of a run in which the pattern generator makes a selection (the spawn
  timer runs out): if the last two names in the history are the same name \<open>N\<close> and the pool
  that the altitude filter leaves from the registered patterns holds at least two patterns
  with names other than \<open>N\<close>, then the pattern that the selection returns and executes has
  a name other than \<open>N\<close>, and that name is what the tick appends to the history.  (With
  fewer than three names in the history the code does not retry; but then the pool is the
  first pattern alone, lemma \<open>short_history_pool\<close>.)
\<close>

theorem no_third_consecutive_selection:
  assumes "reachable s" and "gameState s = Playing"
    and "spawnTimer (patternSystem s) - physicsStep \<le> 0"
    and "drop (length (patternHistory (patternSystem s)) - 2) (patternHistory (patternSystem s)) =
           [N, N]"
    and "2 \<le> length (filter (\<lambda>p. name p \<noteq> N)
           (filter (\<lambda>p. minAltitude p \<le> \<bar>cameraY s - 100\<bar> / 10)
              (patterns (patternSystem s))))"
  shows "\<exists>pat. pat \<in> set (patterns (patternSystem s)) \<and> name pat \<noteq> N \<and>
           patternHistory (patternSystem (updatePhysics physicsStep s)) =
             (if 5 \<le> length (patternHistory (patternSystem s))
              then tl (patternHistory (patternSystem s)) @ [name pat]
              else patternHistory (patternSystem s) @ [name pat]) \<and>
           last (patternHistory (patternSystem (updatePhysics physicsStep s))) \<noteq> N"
proof -
  define ps where "ps = patternSystem s"
  define params where "params =
      \<lparr>centerX = canvas_width s / 2, spawnY = cameraY s - 100,
       balloonVelocity = \<bar>yv (velocity (balloon (updatePhysics physicsStep s)))\<bar>,
       shieldRadius = radius (shield s),
       difficulty = min 1 ((gameTime s + physicsStep) / 180)\<rparr>"
  define ps3 where "ps3 = ps\<lparr>spawnTimer := spawnTimer ps - physicsStep,
      spawnCooldown := max 0.55 (1.2 - difficulty params * 0.65),
      spawnTimer := max 0.55 (1.2 - difficulty params * 0.65)\<rparr>"
  have p3: "patterns ps3 = patterns ps" "patternHistory ps3 = patternHistory ps"
    by (simp_all add: ps3_def)
  have sy: "spawnY params = cameraY s - 100"
    by (simp add: params_def)
  have u: "update physicsStep params ps (random s) = spawnPattern params ps3 (random s)"
    using assms(3) by (simp add: update_def Let_def ps3_def ps_def)
  have e: "patternSystem (updatePhysics physicsStep s) =
      fst (snd (spawnPattern params ps3 (random s)))"
    unfolding updatePhysics_patternSystem params_def[symmetric] ps_def[symmetric] u ..
  have long: "3 \<le> length (patternHistory ps)"
  proof (rule ccontr)
    assume "\<not> 3 \<le> length (patternHistory ps)"
    then have "length (patternHistory (patternSystem s)) < 3"
      by (simp add: ps_def)
    then have "filter (\<lambda>p. minAltitude p \<le> \<bar>cameraY s - 100\<bar> / 10)
              (patterns (patternSystem s)) =
        [\<lparr>name = ''blockRain'', weight = 3, minAltitude = 0, spawn = spawnBlockRain\<rparr>]"
      using assms(1) by (intro short_history_pool)
    then have "length (filter (\<lambda>p. name p \<noteq> N)
           (filter (\<lambda>p. minAltitude p \<le> \<bar>cameraY s - 100\<bar> / 10)
              (patterns (patternSystem s)))) \<le> 1"
      by (simp only: filter.simps list.size split: if_split) simp
    then show False using assms(5) by simp
  qed
  have "\<exists>pat rnd1. pat \<in> set (patterns ps3) \<and> name pat \<noteq> N \<and>
           spawnPattern params ps3 (random s) = executePattern pat params ps3 rnd1 \<and>
           last (patternHistory (fst (snd (spawnPattern params ps3 (random s))))) \<noteq> N"
    by (rule spawnPattern_avoids_third)
       (use long assms(4,5) in \<open>simp_all add: p3 sy ps_def\<close>)
  then obtain pat :: Pattern and rnd1 where pat: "pat \<in> set (patterns ps3)" "name pat \<noteq> N"
      "spawnPattern params ps3 (random s) = executePattern pat params ps3 rnd1"
    by blast
  have "patternHistory (patternSystem (updatePhysics physicsStep s)) =
             (if 5 \<le> length (patternHistory (patternSystem s))
              then tl (patternHistory (patternSystem s)) @ [name pat]
              else patternHistory (patternSystem s) @ [name pat])"
    unfolding e pat(3) executePattern_history p3 ps_def ..
  moreover have "last (patternHistory (patternSystem (updatePhysics physicsStep s))) \<noteq> N"
    unfolding e pat(3) executePattern_last using pat(2) .
  moreover have "pat \<in> set (patterns (patternSystem s))"
    using pat(1) by (simp add: p3 ps_def)
  ultimately show ?thesis using pat(2) by blast
qed

text \<open>
  An instance: 1420 ticks into the run in which every random number is 0, the camera is
  926.9 units up, five patterns are in the pool, the last two selections were \<open>blockRain\<close>,
  and the timer runs out in the next tick.
\<close>

theorem no_third_consecutive_selection_witness:
  "reachable (ticks 1420 engineSteady) \<and>
   gameState (ticks 1420 engineSteady) = Playing \<and>
   spawnTimer (patternSystem (ticks 1420 engineSteady)) - physicsStep \<le> 0 \<and>
   drop (length (patternHistory (patternSystem (ticks 1420 engineSteady))) - 2)
     (patternHistory (patternSystem (ticks 1420 engineSteady))) = [''blockRain'', ''blockRain''] \<and>
   2 \<le> length (filter (\<lambda>p. name p \<noteq> ''blockRain'')
          (filter (\<lambda>p. minAltitude p \<le> \<bar>cameraY (ticks 1420 engineSteady) - 100\<bar> / 10)
             (patterns (patternSystem (ticks 1420 engineSteady))))) \<and>
   last (patternHistory (patternSystem (ticks 1421 engineSteady))) \<noteq> ''blockRain''"
proof -
  have h: "reachable (ticks 1420 engineSteady)"
    "gameState (ticks 1420 engineSteady) = Playing"
    "spawnTimer (patternSystem (ticks 1420 engineSteady)) - physicsStep \<le> 0"
    "drop (length (patternHistory (patternSystem (ticks 1420 engineSteady))) - 2)
       (patternHistory (patternSystem (ticks 1420 engineSteady))) = [''blockRain'', ''blockRain'']"
    "2 \<le> length (filter (\<lambda>p. name p \<noteq> ''blockRain'')
          (filter (\<lambda>p. minAltitude p \<le> \<bar>cameraY (ticks 1420 engineSteady) - 100\<bar> / 10)
             (patterns (patternSystem (ticks 1420 engineSteady)))))"
    by (simp_all add: ticks1420_fields physicsStep_def initializePatterns_def)
  have e: "ticks 1421 engineSteady = updatePhysics physicsStep (ticks 1420 engineSteady)"
    using ticks_Suc[of 1420 engineSteady] by simp
  show ?thesis
    using no_third_consecutive_selection[OF h] h unfolding e by blast
qed

subsection \<open>C8: no inactive obstacle survives a tick\<close>



subsection \<open>C9: pausing and resuming in another state\<close>

text \<open>
  C9.  \<^verbatim>\<open>pauseGame\<close> in a state other than playing, and \<^verbatim>\<open>resumeGame\<close> in a state other
  than paused, return the engine as it was: the game state, every other field and the log of
  notifications are unchanged.
\<close>

theorem pause_resume_elsewhere_noop:
  "(gameState s \<noteq> Playing \<longrightarrow> pauseGame s = s \<and> notifications (pauseGame s) = notifications s) \<and>
   (gameState s \<noteq> Paused \<longrightarrow> resumeGame s = s \<and> notifications (resumeGame s) = notifications s)"
  by (simp add: pauseGame_def resumeGame_def)

theorem pause_resume_elsewhere_noop_witness:
  "gameState engine0 \<noteq> Playing \<and> pauseGame engine0 = engine0 \<and>
   gameState engine0 \<noteq> Paused \<and> resumeGame engine0 = engine0"
  using pause_resume_elsewhere_noop[of engine0] by (simp add: gameState_engine0)

subsection \<open>C10: the score is never negative\<close>

text \<open>
  C10.  In every reachable engine state \<^verbatim>\<open>getScore()\<close> is at least 0.
\<close>

theorem getScore_nonnegative:
  "reachable s \<Longrightarrow> 0 \<le> getScore s"
proof (induction rule: reachable.induct)
  case (tick s)
  show ?case
    unfolding getScore_def by (subst updatePhysics_score) simp
qed (simp_all add: getScore_def)

theorem getScore_nonnegative_witness:
  "reachable (startGame engine0) \<and> 0 \<le> getScore (startGame engine0)"
  using getScore_nonnegative[of "startGame engine0"] reachable_engine0
  by (simp add: reachable.cmd_startGame)

end
